theory Spec2Isabelle
  imports Main "HOL-Library.Word"
begin

section \<open>The native engine seen from stmt.go\<close>

text \<open>
  stmt.go drives the SQLite C library through cgo. The library is not part of the
  repository, so it is a parameter of every definition below: an \<open>engine\<close> answers each
  native call, and its answer may depend on every call made before. The calls a Go
  function makes are appended to the \<open>calls\<close> of the world, in program order, so that
  "this function did not touch the engine" is a statement about that list.

  Machine types: a C \<open>int\<close> is a 32-bit word, \<open>sqlite3_int64\<close> and Go's \<open>int64\<close> are 64-bit
  words, Go's \<open>int\<close> is taken at its 64-bit size (amd64, arm64), and a \<open>float64\<close> is its
  IEEE-754 bit pattern. \<open>C.int(x)\<close> on a Go int is \<open>ucast\<close> (the low 32 bits), \<open>int(x)\<close> on a
  C int is \<open>scast\<close> (sign extension).
\<close>

type_synonym cint = "32 word"
type_synonym int64 = "64 word"
type_synonym goint = "64 word"
type_synonym float64 = "64 word"
type_synonym handle = nat

datatype stmt_op =
    Step
  | Reset
  | Clear_bindings
  | Bind_parameter_count
  | Bind_parameter_index string
  | Bind_parameter_name cint
  | Bind_null cint
  | Bind_text cint string cint
  | Bind_int cint cint
  | Bind_int64 cint int64
  | Bind_double cint float64
  | Bind_blob cint "string option" cint
  | Bind_zeroblob cint cint
  | Column_count
  | Column_name cint
  | Column_type cint
  | Column_blob cint
  | Column_bytes cint
  | Column_text cint
  | Column_int cint
  | Column_int64 cint
  | Column_double cint
  | Sql
  | Finalize_stmt

text \<open>
  A native call: \<open>OnStmt h op\<close> is a \<open>sqlite3_*\<close> function applied to the statement handle
  \<open>h\<close> (\<open>None\<close> is the nil pointer); the others take the connection handle \<open>db\<close>, and
  \<open>Sqlite3_log\<close> is the library's log function behind \<open>Log\<close> of trace.go.
\<close>

datatype native_call =
    OnStmt "handle option" stmt_op
  | Prepare_v2 "handle option" string cint
  | Errmsg "handle option"
  | Changes "handle option"
  | Last_insert_rowid "handle option"
  | Sqlite3_log cint string

record engine =
  r_cint :: "native_call list \<Rightarrow> native_call \<Rightarrow> cint"
  r_int64 :: "native_call list \<Rightarrow> native_call \<Rightarrow> int64"
  r_double :: "native_call list \<Rightarrow> native_call \<Rightarrow> float64"
  r_ptr :: "native_call list \<Rightarrow> native_call \<Rightarrow> string option"
  r_handle :: "native_call list \<Rightarrow> native_call \<Rightarrow> handle option"

subsection \<open>Go values, pointers and the package state\<close>

text \<open>
  \<open>time.Time\<close> is an instant: seconds since the Unix epoch, nanoseconds within the
  second, and the zone offset it is displayed in.
\<close>

record gotime =
  unix_sec :: int
  nsec :: nat
  zone_offset :: int

datatype gvalue =
    VString string
  | VInt goint
  | VInt64 int64
  | VByte "8 word"
  | VBool bool
  | VFloat64 float64
  | VBytes "string option"
  | VUint "64 word"
  | VTime gotime
  | VPtr "nat option"
  | VIface "gvalue option"

text \<open>
  \<open>type Stmt struct\<close>. \<open>c\<close> is the pointer to the connection (an index into \<open>conns\<close> of the
  world, \<open>None\<close> for nil), \<open>stmt\<close> the native handle. The two Go maps are association
  lists read with \<open>map_of\<close>, the newest binding first; \<open>None\<close> is the nil map.
\<close>

record Stmt =
  c :: "nat option"
  stmt :: "handle option"
  sql :: string
  tail :: string
  columnCount :: goint
  cols :: "(string \<times> goint) list option"
  bindParameterCount :: goint
  params :: "(string \<times> goint) list option"
  CheckTypeMismatch :: bool
  Cacheable :: bool

text \<open>
  Of \<open>Conn\<close> (sqlite.go, not among the sources) stmt.go reads the native handle \<open>db\<close>,
  nil once the connection is closed, and the statement cache, here the idle statements
  from most to least recently used and the capacity.
\<close>

record Conn =
  db :: "handle option"
  stmtCache :: "Stmt list"
  maxSize :: nat

record world =
  calls :: "native_call list"
  NullIfEmptyString :: bool
  NullIfZeroTime :: bool
  heap :: "nat \<Rightarrow> gvalue option"
  conns :: "nat \<Rightarrow> Conn"

definition native_cint :: "engine \<Rightarrow> native_call \<Rightarrow> world \<Rightarrow> cint \<times> world" where
  "native_cint E call w = (r_cint E (calls w) call, w\<lparr>calls := calls w @ [call]\<rparr>)"

definition native_int64 :: "engine \<Rightarrow> native_call \<Rightarrow> world \<Rightarrow> int64 \<times> world" where
  "native_int64 E call w = (r_int64 E (calls w) call, w\<lparr>calls := calls w @ [call]\<rparr>)"

definition native_double :: "engine \<Rightarrow> native_call \<Rightarrow> world \<Rightarrow> float64 \<times> world" where
  "native_double E call w = (r_double E (calls w) call, w\<lparr>calls := calls w @ [call]\<rparr>)"

definition native_ptr :: "engine \<Rightarrow> native_call \<Rightarrow> world \<Rightarrow> string option \<times> world" where
  "native_ptr E call w = (r_ptr E (calls w) call, w\<lparr>calls := calls w @ [call]\<rparr>)"

definition native_handle :: "engine \<Rightarrow> native_call \<Rightarrow> world \<Rightarrow> handle option \<times> world" where
  "native_handle E call w = (r_handle E (calls w) call, w\<lparr>calls := calls w @ [call]\<rparr>)"

text \<open>\<open>C.GoString\<close>: the bytes of a C string; the nil pointer gives the empty string.\<close>

definition GoString :: "string option \<Rightarrow> string" where
  "GoString p = (case p of None \<Rightarrow> [] | Some cs \<Rightarrow> cs)"

text \<open>\<open>C.GoBytes(p, n)\<close>: the first \<open>n\<close> bytes behind \<open>p\<close>.\<close>

definition GoBytes :: "string option \<Rightarrow> cint \<Rightarrow> string" where
  "GoBytes p n = take (unat n) (GoString p)"

subsection \<open>Returning and panicking\<close>

text \<open>
  A call either returns, or panics (a nil dereference, or an explicit \<open>panic\<close>); a panic
  keeps the world as it was when it struck, the native calls made so far included.
  \<open>then_do\<close> runs the rest of a function after a call that returned, and \<open>world_of\<close> reads the
  world out of either outcome.
\<close>

datatype 'a outcome = Panic world | Return 'a

definition then_do :: "'a outcome \<Rightarrow> ('a \<Rightarrow> 'b outcome) \<Rightarrow> 'b outcome" where
  "then_do r f = (case r of Panic p \<Rightarrow> Panic p | Return x \<Rightarrow> f x)"

definition world_of :: "('a \<Rightarrow> world) \<Rightarrow> 'a outcome \<Rightarrow> world" where
  "world_of get r = (case r of Panic p \<Rightarrow> p | Return x \<Rightarrow> get x)"

subsection \<open>Statements and errors\<close>

text \<open>
  \<open>type Type int\<close> with the five constants \<open>C.SQLITE_INTEGER\<close> (1), \<open>C.SQLITE_FLOAT\<close> (2),
  \<open>C.SQLITE3_TEXT\<close> (3), \<open>C.SQLITE_BLOB\<close> (4) and \<open>C.SQLITE_NULL\<close> (5) of sqlite3.h; any
  other code is kept as it is.
\<close>

datatype Type = Integer | Float | Blob | Null | Text | OtherType cint

definition Type_of :: "cint \<Rightarrow> Type" where
  "Type_of r =
     (if r = 1 then Integer else if r = 2 then Float else if r = 3 then Text
      else if r = 4 then Blob else if r = 5 then Null else OtherType r)"

text \<open>
  The errors of stmt.go. \<open>s.specificError(msg, ...)\<close> builds a \<open>StmtError\<close> with code
  \<open>ErrSpecific\<close> and a formatted message: one constructor for each kind of message,
  holding the statement, the fixed part of the message where two messages share a kind,
  and the arguments. \<open>s.error(rv, details)\<close> builds \<open>NativeEngineError\<close> from the engine's result
  code and \<open>sqlite3_errmsg\<close>; both keep the statement, from which \<open>StmtError.SQL\<close> reads
  the SQL text. \<open>errors.New\<close> values and errors handed through from callbacks are the
  remaining constructors.
\<close>

datatype error =
    NativeEngineError Stmt cint string string
  | NativeConnError cint string string
  | ArityMismatch Stmt string goint goint
  | UnsupportedBindType Stmt string goint string
  | UnsupportedScanType Stmt string string
  | IntegerOverflow Stmt
  | TypeMismatch Stmt Type Type
  | NegativeValue Stmt int64
  | InvalidName Stmt string string
  | InvalidParameterIndex Stmt goint
  | OddArgumentCount Stmt goint
  | NonStringName Stmt goint
  | NilStatement
  | NilDatabase
  | ClosedConnection
  | ForeignError string

definition SQLITE_OK :: cint where "SQLITE_OK = 0"
definition SQLITE_MISUSE :: cint where "SQLITE_MISUSE = 21"
definition Row :: cint where "Row = 100"
definition Done :: cint where "Done = 101"

text \<open>
  \<open>Stmt.error\<close> for a non-nil receiver. For a result code other than \<open>SQLITE_OK\<close> it reads
  \<open>s.c.db\<close> to ask \<open>sqlite3_errmsg\<close>: with \<open>s.c\<close> nil that read is a nil dereference.
\<close>

definition stmt_error :: "engine \<Rightarrow> Stmt \<Rightarrow> cint \<Rightarrow> string \<Rightarrow> world \<Rightarrow> (error option \<times> world) outcome" where
  "stmt_error E s rv details w =
     (if rv = SQLITE_OK then Return (None, w)
      else (case c s of
              None \<Rightarrow> Panic w
            | Some k \<Rightarrow>
                (let (m, w1) = native_ptr E (Errmsg (db (conns w k))) w
                 in Return (Some (NativeEngineError s rv (GoString m) details), w1))))"

section \<open>Scanning one column\<close>

definition ColumnType :: "engine \<Rightarrow> Stmt \<Rightarrow> goint \<Rightarrow> world \<Rightarrow> Type \<times> world" where
  "ColumnType E s index w =
     (let (r, w1) = native_cint E (OnStmt (stmt s) (Column_type (ucast index))) w
      in (Type_of r, w1))"

text \<open>\<open>checkTypeMismatch\<close>: the two nested switches, with their fallthroughs.\<close>

definition checkTypeMismatch :: "Stmt \<Rightarrow> Type \<Rightarrow> Type \<Rightarrow> error option" where
  "checkTypeMismatch s source target =
     (case target of
        Integer \<Rightarrow>
          (case source of
             Float \<Rightarrow> Some (TypeMismatch s source target)
           | Text \<Rightarrow> Some (TypeMismatch s source target)
           | Blob \<Rightarrow> Some (TypeMismatch s source target)
           | _ \<Rightarrow> None)
      | Float \<Rightarrow>
          (case source of
             Text \<Rightarrow> Some (TypeMismatch s source target)
           | Blob \<Rightarrow> Some (TypeMismatch s source target)
           | _ \<Rightarrow> None)
      | _ \<Rightarrow> None)"

text \<open>
  The five typed scanners. Each returns the value, \<open>isNull\<close> and \<open>err\<close> of the Go function;
  on a mismatch the value is still read from the engine and returned beside the error.
\<close>

definition ScanInt :: "engine \<Rightarrow> Stmt \<Rightarrow> goint \<Rightarrow> world \<Rightarrow> (goint \<times> bool \<times> error option) \<times> world" where
  "ScanInt E s index w =
     (let (ctype, w1) = ColumnType E s index w in
      if ctype = Null then ((0, True, None), w1)
      else
        (let err = (if CheckTypeMismatch s then checkTypeMismatch s ctype Integer else None);
             (r, w2) = native_cint E (OnStmt (stmt s) (Column_int (ucast index))) w1
         in ((scast r, False, err), w2)))"

definition ScanInt64 :: "engine \<Rightarrow> Stmt \<Rightarrow> goint \<Rightarrow> world \<Rightarrow> (int64 \<times> bool \<times> error option) \<times> world" where
  "ScanInt64 E s index w =
     (let (ctype, w1) = ColumnType E s index w in
      if ctype = Null then ((0, True, None), w1)
      else
        (let err = (if CheckTypeMismatch s then checkTypeMismatch s ctype Integer else None);
             (r, w2) = native_int64 E (OnStmt (stmt s) (Column_int64 (ucast index))) w1
         in ((r, False, err), w2)))"

definition ScanByte :: "engine \<Rightarrow> Stmt \<Rightarrow> goint \<Rightarrow> world \<Rightarrow> (8 word \<times> bool \<times> error option) \<times> world" where
  "ScanByte E s index w =
     (let (ctype, w1) = ColumnType E s index w in
      if ctype = Null then ((0, True, None), w1)
      else
        (let err = (if CheckTypeMismatch s then checkTypeMismatch s ctype Integer else None);
             (r, w2) = native_cint E (OnStmt (stmt s) (Column_int (ucast index))) w1
         in ((ucast r, False, err), w2)))"

definition ScanBool :: "engine \<Rightarrow> Stmt \<Rightarrow> goint \<Rightarrow> world \<Rightarrow> (bool \<times> bool \<times> error option) \<times> world" where
  "ScanBool E s index w =
     (let (ctype, w1) = ColumnType E s index w in
      if ctype = Null then ((False, True, None), w1)
      else
        (let err = (if CheckTypeMismatch s then checkTypeMismatch s ctype Integer else None);
             (r, w2) = native_cint E (OnStmt (stmt s) (Column_int (ucast index))) w1
         in ((r = 1, False, err), w2)))"

definition ScanDouble :: "engine \<Rightarrow> Stmt \<Rightarrow> goint \<Rightarrow> world \<Rightarrow> (float64 \<times> bool \<times> error option) \<times> world" where
  "ScanDouble E s index w =
     (let (ctype, w1) = ColumnType E s index w in
      if ctype = Null then ((0, True, None), w1)
      else
        (let err = (if CheckTypeMismatch s then checkTypeMismatch s ctype Float else None);
             (r, w2) = native_double E (OnStmt (stmt s) (Column_double (ucast index))) w1
         in ((r, False, err), w2)))"

subsection \<open>The mismatch policy in the words of the specification\<close>

text \<open>
  A pair of source storage class and destination class is lossy when an Integer
  destination reads a Float, Text or Blob source, or a Float destination reads a Text or
  Blob source. \<open>policy_error\<close> is the error the policy asks for: a \<open>TypeMismatch\<close> exactly
  when the statement's flag is set and the pair is lossy.
\<close>

definition lossy :: "Type \<Rightarrow> Type \<Rightarrow> bool" where
  "lossy source target =
     ((target = Integer \<and> (source = Float \<or> source = Text \<or> source = Blob))
      \<or> (target = Float \<and> (source = Text \<or> source = Blob)))"

definition policy_error :: "Stmt \<Rightarrow> Type \<Rightarrow> Type \<Rightarrow> error option" where
  "policy_error s source target =
     (if CheckTypeMismatch s \<and> lossy source target
      then Some (TypeMismatch s source target) else None)"

text \<open>
  The storage class the engine reports for column \<open>index\<close> at this point, and the call
  history once that report has been asked for.
\<close>

definition column_type_now :: "engine \<Rightarrow> Stmt \<Rightarrow> goint \<Rightarrow> world \<Rightarrow> Type" where
  "column_type_now E s index w = fst (ColumnType E s index w)"

definition after_type :: "Stmt \<Rightarrow> goint \<Rightarrow> world \<Rightarrow> native_call list" where
  "after_type s index w = calls w @ [OnStmt (stmt s) (Column_type (ucast index))]"

section \<open>Binding host values\<close>

text \<open>
  What \<open>reflect.ValueOf(value)\<close> shows of a value: its kind, with the contents that
  \<open>v.String()\<close>, \<open>v.Int()\<close>, \<open>v.Uint()\<close>, \<open>v.Bool()\<close> or \<open>v.Float()\<close> return. The signed
  kinds of every width give an \<open>int64\<close>, the unsigned ones a \<open>uint64\<close>.
\<close>

datatype rvalue =
    RString string
  | RInt int64
  | RUint "64 word"
  | RBool bool
  | RFloat float64
  | ROther

text \<open>
  The dynamic type of a bind argument (\<open>interface{}\<close>). The first twelve constructors are
  the cases of the type switch in \<open>BindByIndex\<close>, in its order; a \<open>driver.Valuer\<close> holds
  what its \<open>Value()\<close> method returns. The others reach the \<open>default\<close> case: the sized
  integers, and \<open>HNamed t r\<close> for any further type, with its name (\<open>%T\<close>) and what
  reflection sees. A \<open>float32\<close> is held as the \<open>float64\<close> it widens to.
\<close>

datatype host_value =
    HNil
  | HString string
  | HInt goint
  | HInt64 int64
  | HByte "8 word"
  | HBool bool
  | HFloat32 float64
  | HFloat64 float64
  | HBytes string
  | HTime gotime
  | HZeroBlobLength goint
  | HValuer "error + host_value"
  | HInt8 "8 word"
  | HInt16 "16 word"
  | HInt32 "32 word"
  | HUint "64 word"
  | HUint16 "16 word"
  | HUint32 "32 word"
  | HUint64 "64 word"
  | HUintptr "64 word"
  | HNamed string rvalue

fun reflect_ValueOf :: "host_value \<Rightarrow> rvalue" where
  "reflect_ValueOf (HString v) = RString v"
| "reflect_ValueOf (HInt v) = RInt v"
| "reflect_ValueOf (HInt64 v) = RInt v"
| "reflect_ValueOf (HInt8 v) = RInt (scast v)"
| "reflect_ValueOf (HInt16 v) = RInt (scast v)"
| "reflect_ValueOf (HInt32 v) = RInt (scast v)"
| "reflect_ValueOf (HZeroBlobLength v) = RInt v"
| "reflect_ValueOf (HByte v) = RUint (ucast v)"
| "reflect_ValueOf (HUint v) = RUint v"
| "reflect_ValueOf (HUint16 v) = RUint (ucast v)"
| "reflect_ValueOf (HUint32 v) = RUint (ucast v)"
| "reflect_ValueOf (HUint64 v) = RUint v"
| "reflect_ValueOf (HUintptr v) = RUint v"
| "reflect_ValueOf (HBool v) = RBool v"
| "reflect_ValueOf (HFloat32 v) = RFloat v"
| "reflect_ValueOf (HFloat64 v) = RFloat v"
| "reflect_ValueOf (HNamed t r) = r"
| "reflect_ValueOf _ = ROther"

fun type_name :: "host_value \<Rightarrow> string" where
  "type_name HNil = ''<nil>''"
| "type_name (HString v) = ''string''"
| "type_name (HInt v) = ''int''"
| "type_name (HInt64 v) = ''int64''"
| "type_name (HByte v) = ''uint8''"
| "type_name (HBool v) = ''bool''"
| "type_name (HFloat32 v) = ''float32''"
| "type_name (HFloat64 v) = ''float64''"
| "type_name (HBytes v) = ''[]uint8''"
| "type_name (HTime v) = ''time.Time''"
| "type_name (HZeroBlobLength v) = ''sqlite.ZeroBlobLength''"
| "type_name (HValuer v) = ''driver.Valuer''"
| "type_name (HInt8 v) = ''int8''"
| "type_name (HInt16 v) = ''int16''"
| "type_name (HInt32 v) = ''int32''"
| "type_name (HUint v) = ''uint''"
| "type_name (HUint16 v) = ''uint16''"
| "type_name (HUint32 v) = ''uint32''"
| "type_name (HUint64 v) = ''uint64''"
| "type_name (HUintptr v) = ''uintptr''"
| "type_name (HNamed t r) = t"

text \<open>\<open>time.Time.IsZero\<close> (January 1, year 1, 00:00:00 UTC) and \<open>time.Time.Unix\<close>.\<close>

definition IsZero :: "gotime \<Rightarrow> bool" where
  "IsZero t = (unix_sec t = - 62135596800 \<and> nsec t = 0)"

definition Unix :: "gotime \<Rightarrow> int64" where
  "Unix t = word_of_int (unix_sec t)"

definition MaxInt64 :: "64 word" where
  "MaxInt64 = 9223372036854775807"

text \<open>
  Modelled from the spec: \<open>btocint\<close> and \<open>cstring\<close> are helpers of sqlite.go, which is not
  among the sources. A boolean is bound as Integer 0 or 1; a text is handed to the engine
  as its bytes together with its explicit byte length.
\<close>

definition btocint :: "bool \<Rightarrow> cint" where
  "btocint b = (if b then 1 else 0)"

definition cstring :: "string \<Rightarrow> string \<times> cint" where
  "cstring v = (v, of_nat (length v))"

text \<open>One native bind call followed by \<open>return s.error(rv, "Stmt.Bind")\<close>.\<close>

definition bind_rv :: "engine \<Rightarrow> Stmt \<Rightarrow> stmt_op \<Rightarrow> world \<Rightarrow> (error option \<times> world) outcome" where
  "bind_rv E s op w =
     (let (rv, w1) = native_cint E (OnStmt (stmt s) op) w
      in stmt_error E s rv ''Stmt.Bind'' w1)"

definition BindParameterName :: "engine \<Rightarrow> Stmt \<Rightarrow> goint \<Rightarrow> world \<Rightarrow> (string \<times> error option) \<times> world" where
  "BindParameterName E s i w =
     (let (name, w1) = native_ptr E (OnStmt (stmt s) (Bind_parameter_name (ucast i))) w
      in case name of
           None \<Rightarrow> (([], Some (InvalidParameterIndex s i)), w1)
         | Some n \<Rightarrow> ((n, None), w1))"

definition BindReflect :: "engine \<Rightarrow> Stmt \<Rightarrow> goint \<Rightarrow> string \<Rightarrow> rvalue \<Rightarrow> world \<Rightarrow> (error option \<times> world) outcome" where
  "BindReflect E s index tname v w =
     (let i = ucast index in
      case v of
        RString x \<Rightarrow> (let (cs, l) = cstring x in bind_rv E s (Bind_text i cs l) w)
      | RInt x \<Rightarrow> bind_rv E s (Bind_int64 i x) w
      | RUint ui \<Rightarrow>
          (if ui > MaxInt64 then Return (Some (IntegerOverflow s), w)
           else bind_rv E s (Bind_int64 i ui) w)
      | RBool b \<Rightarrow> bind_rv E s (Bind_int i (btocint b)) w
      | RFloat f \<Rightarrow> bind_rv E s (Bind_double i f) w
      | ROther \<Rightarrow>
          (let ((name, _), w1) = BindParameterName E s index w
           in Return (Some (UnsupportedBindType s tname index name), w1)))"

fun BindByIndex :: "engine \<Rightarrow> Stmt \<Rightarrow> goint \<Rightarrow> host_value \<Rightarrow> world \<Rightarrow> (error option \<times> world) outcome" where
  "BindByIndex E s index HNil w = bind_rv E s (Bind_null (ucast index)) w"
| "BindByIndex E s index (HString v) w =
     (if NullIfEmptyString w \<and> length v = 0 then bind_rv E s (Bind_null (ucast index)) w
      else (let (cs, l) = cstring v in bind_rv E s (Bind_text (ucast index) cs l) w))"
| "BindByIndex E s index (HInt v) w = bind_rv E s (Bind_int (ucast index) (ucast v)) w"
| "BindByIndex E s index (HInt64 v) w = bind_rv E s (Bind_int64 (ucast index) v) w"
| "BindByIndex E s index (HByte v) w = bind_rv E s (Bind_int (ucast index) (ucast v)) w"
| "BindByIndex E s index (HBool v) w = bind_rv E s (Bind_int (ucast index) (btocint v)) w"
| "BindByIndex E s index (HFloat32 v) w = bind_rv E s (Bind_double (ucast index) v) w"
| "BindByIndex E s index (HFloat64 v) w = bind_rv E s (Bind_double (ucast index) v) w"
| "BindByIndex E s index (HBytes v) w =
     (let p = (if length v > 0 then Some v else None)
      in bind_rv E s (Bind_blob (ucast index) p (of_nat (length v))) w)"
| "BindByIndex E s index (HTime v) w =
     (if NullIfZeroTime w \<and> IsZero v then bind_rv E s (Bind_null (ucast index)) w
      else bind_rv E s (Bind_int64 (ucast index) (Unix v)) w)"
| "BindByIndex E s index (HZeroBlobLength v) w = bind_rv E s (Bind_zeroblob (ucast index) (ucast v)) w"
| "BindByIndex E s index (HValuer (Inl err)) w = Return (Some err, w)"
| "BindByIndex E s index (HValuer (Inr v)) w = BindByIndex E s index v w"
| "BindByIndex E s index value w = BindReflect E s index (type_name value) (reflect_ValueOf value) w"

definition BindParameterCount :: "engine \<Rightarrow> Stmt \<Rightarrow> world \<Rightarrow> goint \<times> Stmt \<times> world" where
  "BindParameterCount E s w =
     (if bindParameterCount s = - 1
      then (let (r, w1) = native_cint E (OnStmt (stmt s) Bind_parameter_count) w
            in (scast r, s\<lparr>bindParameterCount := scast r\<rparr>, w1))
      else (bindParameterCount s, s, w))"

text \<open>The loop of \<open>Bind\<close>: the argument after position \<open>i\<close> is bound at index \<open>i + 1\<close>.\<close>

fun bind_args :: "engine \<Rightarrow> Stmt \<Rightarrow> goint \<Rightarrow> host_value list \<Rightarrow> world \<Rightarrow> (error option \<times> world) outcome" where
  "bind_args E s i [] w = Return (None, w)"
| "bind_args E s i (v # vs) w =
     (case BindByIndex E s (i + 1) v w of
        Panic p \<Rightarrow> Panic p
      | Return (Some err, w1) \<Rightarrow> Return (Some err, w1)
      | Return (None, w1) \<Rightarrow> bind_args E s (i + 1) vs w1)"

definition Bind :: "engine \<Rightarrow> Stmt \<Rightarrow> host_value list \<Rightarrow> world \<Rightarrow> (error option \<times> Stmt \<times> world) outcome" where
  "Bind E s args w =
     (let (n, s1, w1) = BindParameterCount E s w in
      if n \<noteq> of_nat (length args)
      then Return (Some (ArityMismatch s1 ''Stmt.Bind'' (of_nat (length args)) n), s1, w1)
      else then_do (bind_args E s1 0 args w1) (\<lambda>(err, w2). Return (err, s1, w2)))"

section \<open>Stepping and executing\<close>

text \<open>\<open>Stmt.Next\<close>. \<open>Errno(rv)\<close> is compared with \<open>Row\<close> and \<open>Done\<close>.\<close>

definition Next :: "engine \<Rightarrow> Stmt \<Rightarrow> world \<Rightarrow> ((bool \<times> error option) \<times> world) outcome" where
  "Next E s w =
     (let (rv, w1) = native_cint E (OnStmt (stmt s) Step) w in
      if rv = Row then Return ((True, None), w1)
      else
        (let (_, w2) = native_cint E (OnStmt (stmt s) Reset) w1 in
         if rv \<noteq> Done
         then then_do (stmt_error E s rv ''Stmt.Next'' w2) (\<lambda>(err, w3). Return ((False, err), w3))
         else Return ((False, None), w2)))"

text \<open>\<open>Stmt.Reset\<close> (the name \<open>Reset\<close> is the native call) and \<open>Stmt.ClearBindings\<close>.\<close>

definition Reset_stmt :: "engine \<Rightarrow> Stmt \<Rightarrow> world \<Rightarrow> (error option \<times> world) outcome" where
  "Reset_stmt E s w =
     (let (rv, w1) = native_cint E (OnStmt (stmt s) Reset) w
      in stmt_error E s rv ''Stmt.Reset'' w1)"

definition ClearBindings :: "engine \<Rightarrow> Stmt \<Rightarrow> world \<Rightarrow> (error option \<times> world) outcome" where
  "ClearBindings E s w =
     (let (rv, w1) = native_cint E (OnStmt (stmt s) Clear_bindings) w
      in stmt_error E s rv ''Stmt.ClearBindings'' w1)"

definition exec :: "engine \<Rightarrow> Stmt \<Rightarrow> world \<Rightarrow> (error option \<times> world) outcome" where
  "exec E s w =
     (let (rv, w1) = native_cint E (OnStmt (stmt s) Step) w;
          (_, w2) = native_cint E (OnStmt (stmt s) Reset) w1 in
      if rv \<noteq> Done then stmt_error E s rv ''Stmt.exec'' w2
      else Return (None, w2))"

definition Exec :: "engine \<Rightarrow> Stmt \<Rightarrow> host_value list \<Rightarrow> world \<Rightarrow> (error option \<times> Stmt \<times> world) outcome" where
  "Exec E s args w =
     (case Bind E s args w of
        Panic p \<Rightarrow> Panic p
      | Return (Some err, s1, w1) \<Rightarrow> Return (Some err, s1, w1)
      | Return (None, s1, w1) \<Rightarrow> then_do (exec E s1 w1) (\<lambda>(err, w2). Return (err, s1, w2)))"

text \<open>
  Modelled from the spec: \<open>Conn.Changes\<close> and \<open>Conn.LastInsertRowid\<close> are methods of
  sqlite.go, which is not among the sources; they are the connection-level change-count
  and last-inserted-rowid accessors, each one native call on the handle \<open>db\<close> of the
  connection \<open>s.c\<close>, which they dereference.
\<close>

definition Conn_Changes :: "engine \<Rightarrow> Stmt \<Rightarrow> world \<Rightarrow> (goint \<times> world) outcome" where
  "Conn_Changes E s w =
     (case c s of
        None \<Rightarrow> Panic w
      | Some k \<Rightarrow>
          (let (r, w1) = native_cint E (Changes (db (conns w k))) w in Return (scast r, w1)))"

definition Conn_LastInsertRowid :: "engine \<Rightarrow> Stmt \<Rightarrow> world \<Rightarrow> (int64 \<times> world) outcome" where
  "Conn_LastInsertRowid E s w =
     (case c s of
        None \<Rightarrow> Panic w
      | Some k \<Rightarrow> Return (native_int64 E (Last_insert_rowid (db (conns w k))) w))"

definition ExecDml :: "engine \<Rightarrow> Stmt \<Rightarrow> host_value list \<Rightarrow> world \<Rightarrow> ((goint \<times> error option) \<times> Stmt \<times> world) outcome" where
  "ExecDml E s args w =
     (case Exec E s args w of
        Panic p \<Rightarrow> Panic p
      | Return (Some err, s1, w1) \<Rightarrow> Return ((- 1, Some err), s1, w1)
      | Return (None, s1, w1) \<Rightarrow>
          then_do (Conn_Changes E s1 w1) (\<lambda>(n, w2). Return ((n, None), s1, w2)))"

definition Insert :: "engine \<Rightarrow> Stmt \<Rightarrow> host_value list \<Rightarrow> world \<Rightarrow> ((int64 \<times> error option) \<times> Stmt \<times> world) outcome" where
  "Insert E s args w =
     (case ExecDml E s args w of
        Panic p \<Rightarrow> Panic p
      | Return ((n, Some err), s1, w1) \<Rightarrow> Return ((- 1, Some err), s1, w1)
      | Return ((n, None), s1, w1) \<Rightarrow>
          (if n = 0 then Return ((- 1, None), s1, w1)
           else then_do (Conn_LastInsertRowid E s1 w1)
                  (\<lambda>(rowid, w2). Return ((rowid, None), s1, w2))))"

section \<open>Names of parameters and columns\<close>

definition BindParameterIndex :: "engine \<Rightarrow> Stmt \<Rightarrow> string \<Rightarrow> world \<Rightarrow> (goint \<times> error option) \<times> Stmt \<times> world" where
  "BindParameterIndex E s name w =
     (let (s1, w1) =
            (if params s = None
             then (let (count, s', w') = BindParameterCount E s w in (s'\<lparr>params := Some []\<rparr>, w'))
             else (s, w));
          m = (case params s1 of None \<Rightarrow> [] | Some m \<Rightarrow> m) in
      case map_of m name of
        Some index \<Rightarrow> ((index, None), s1, w1)
      | None \<Rightarrow>
          (let (r, w2) = native_cint E (OnStmt (stmt s1) (Bind_parameter_index name)) w1;
               index = scast r in
           if index = 0 then ((index, Some (InvalidName s1 ''parameter'' name)), s1, w2)
           else ((index, None), s1\<lparr>params := Some ((name, index) # m)\<rparr>, w2)))"

text \<open>The loop of \<open>NamedBind\<close> over pairs of a name and a value; \<open>i\<close> is the position of the name.\<close>

fun NamedBind_loop :: "engine \<Rightarrow> Stmt \<Rightarrow> goint \<Rightarrow> host_value list \<Rightarrow> world \<Rightarrow> (error option \<times> Stmt \<times> world) outcome" where
  "NamedBind_loop E s i (HString name # v # rest) w =
     (case BindParameterIndex E s name w of
        ((index, Some err), s1, w1) \<Rightarrow> Return (Some err, s1, w1)
      | ((index, None), s1, w1) \<Rightarrow>
          (case BindByIndex E s1 index v w1 of
             Panic p \<Rightarrow> Panic p
           | Return (Some err, w2) \<Rightarrow> Return (Some err, s1, w2)
           | Return (None, w2) \<Rightarrow> NamedBind_loop E s1 (i + 2) rest w2))"
| "NamedBind_loop E s i (n # v # rest) w = Return (Some (NonStringName s i), s, w)"
| "NamedBind_loop E s i rest w = Return (None, s, w)"

definition NamedBind :: "engine \<Rightarrow> Stmt \<Rightarrow> host_value list \<Rightarrow> world \<Rightarrow> (error option \<times> Stmt \<times> world) outcome" where
  "NamedBind E s args w =
     (if length args mod 2 \<noteq> 0
      then Return (Some (OddArgumentCount s (of_nat (length args))), s, w)
      else NamedBind_loop E s 0 args w)"

definition ColumnCount :: "engine \<Rightarrow> Stmt \<Rightarrow> world \<Rightarrow> goint \<times> Stmt \<times> world" where
  "ColumnCount E s w =
     (if columnCount s = - 1
      then (let (r, w1) = native_cint E (OnStmt (stmt s) Column_count) w
            in (scast r, s\<lparr>columnCount := scast r\<rparr>, w1))
      else (columnCount s, s, w))"

definition ColumnName :: "engine \<Rightarrow> Stmt \<Rightarrow> goint \<Rightarrow> world \<Rightarrow> string \<times> world" where
  "ColumnName E s index w =
     (let (p, w1) = native_ptr E (OnStmt (stmt s) (Column_name (ucast index))) w
      in (GoString p, w1))"

text \<open>The loop of \<open>ColumnIndex\<close> that fills \<open>s.cols\<close>: \<open>n\<close> columns are left, \<open>i\<close> is the next.\<close>

fun fill_cols :: "engine \<Rightarrow> Stmt \<Rightarrow> goint \<Rightarrow> nat \<Rightarrow> (string \<times> goint) list \<Rightarrow> world \<Rightarrow> (string \<times> goint) list \<times> world" where
  "fill_cols E s i 0 m w = (m, w)"
| "fill_cols E s i (Suc n) m w =
     (let (name, w1) = ColumnName E s i w in fill_cols E s (i + 1) n ((name, i) # m) w1)"

definition ColumnIndex :: "engine \<Rightarrow> Stmt \<Rightarrow> string \<Rightarrow> world \<Rightarrow> (goint \<times> error option) \<times> Stmt \<times> world" where
  "ColumnIndex E s name w =
     (let (s1, w1) =
            (if cols s = None
             then (let (count, s', w') = ColumnCount E s w;
                       (m, w'') = fill_cols E s' 0 (nat (sint count)) [] w'
                   in (s'\<lparr>cols := Some m\<rparr>, w''))
             else (s, w));
          m = (case cols s1 of None \<Rightarrow> [] | Some m \<Rightarrow> m) in
      case map_of m name of
        Some index \<Rightarrow> ((index, None), s1, w1)
      | None \<Rightarrow> ((- 1, Some (InvalidName s1 ''column'' name)), s1, w1))"

definition SQL :: "engine \<Rightarrow> Stmt \<Rightarrow> world \<Rightarrow> string \<times> Stmt \<times> world" where
  "SQL E s w =
     (if sql s = []
      then (let (p, w1) = native_ptr E (OnStmt (stmt s) Sql) w
            in (GoString p, s\<lparr>sql := GoString p\<rparr>, w1))
      else (sql s, s, w))"

text \<open>\<open>StmtError.SQL\<close>: the statement an error holds, and its SQL text.\<close>

fun error_stmt :: "error \<Rightarrow> Stmt option" where
  "error_stmt (NativeEngineError s rv m d) = Some s"
| "error_stmt (ArityMismatch s f h n) = Some s"
| "error_stmt (UnsupportedBindType s t i n) = Some s"
| "error_stmt (UnsupportedScanType s m t) = Some s"
| "error_stmt (IntegerOverflow s) = Some s"
| "error_stmt (TypeMismatch s a b) = Some s"
| "error_stmt (NegativeValue s i) = Some s"
| "error_stmt (InvalidName s k n) = Some s"
| "error_stmt (InvalidParameterIndex s i) = Some s"
| "error_stmt (OddArgumentCount s n) = Some s"
| "error_stmt (NonStringName s i) = Some s"
| "error_stmt e = None"

definition StmtError_SQL :: "engine \<Rightarrow> error \<Rightarrow> world \<Rightarrow> string option" where
  "StmtError_SQL E e w = (case error_stmt e of None \<Rightarrow> None | Some s \<Rightarrow> Some (fst (SQL E s w)))"

section \<open>Scanning into destinations\<close>

text \<open>
  What the scanners use of Go and of date.go (not among the sources): \<open>time.Parse\<close>, the
  offset of the local zone at an instant (for \<open>time.Unix\<close>), \<open>JulianDayToLocalTime\<close>, and
  the rounding of a \<open>float64\<close> to \<open>float32\<close>. They are parameters.
\<close>

record golib =
  time_Parse :: "string \<Rightarrow> string \<Rightarrow> error + gotime"
  local_offset :: "int \<Rightarrow> int"
  JulianDayToLocalTime :: "float64 \<Rightarrow> gotime"
  float32_of :: "float64 \<Rightarrow> float64"

datatype elem = EString | EInt | EInt64 | EByte | EBool | EFloat64 | EBytes | ETime

datatype rkind = KString | KInt nat | KUint nat | KBool | KFloat nat | KOtherKind

text \<open>
  The dynamic type of a scan argument. \<open>DPtr e p\<close> is a \<open>*T\<close> and \<open>DPtrPtr e p\<close> a \<open>**T\<close>, with
  \<open>p\<close> the address held (\<open>None\<close> for a nil pointer of that type); \<open>DScanner f\<close> is a
  \<open>sql.Scanner\<close> whose \<open>Scan\<close> method is \<open>f\<close>; \<open>DIface p\<close> is a \<open>*interface{}\<close>;
  \<open>DOtherPtr t k p\<close> is a pointer of any other type \<open>t\<close> to a value of kind \<open>k\<close>;
  \<open>DString\<close> is a plain string (a column name in \<open>NamedScan\<close>), \<open>DNonPtr t\<close> any other
  value that is not a pointer.
\<close>

datatype dest =
    DNil
  | DPtr elem "nat option"
  | DPtrPtr elem "nat option"
  | DScanner "gvalue option \<Rightarrow> error option"
  | DIface "nat option"
  | DOtherPtr string rkind "nat option"
  | DString string
  | DNonPtr string

definition zero_time :: gotime where
  "zero_time = \<lparr>unix_sec = - 62135596800, nsec = 0, zone_offset = 0\<rparr>"

definition time_Unix :: "golib \<Rightarrow> int64 \<Rightarrow> gotime" where
  "time_Unix L sec = \<lparr>unix_sec = sint sec, nsec = 0, zone_offset = local_offset L (sint sec)\<rparr>"

definition store :: "nat option \<Rightarrow> gvalue \<Rightarrow> world \<Rightarrow> world outcome" where
  "store p v w =
     (case p of None \<Rightarrow> Panic w | Some a \<Rightarrow> Return (w\<lparr>heap := (heap w)(a := Some v)\<rparr>))"

definition store_through :: "nat option \<Rightarrow> gvalue \<Rightarrow> world \<Rightarrow> world outcome" where
  "store_through p v w =
     (case p of
        None \<Rightarrow> Panic w
      | Some a \<Rightarrow> (case heap w a of Some (VPtr q) \<Rightarrow> store q v w | _ \<Rightarrow> Panic w))"

definition returning :: "bool \<Rightarrow> error option \<Rightarrow> world outcome \<Rightarrow> ((bool \<times> error option) \<times> world) outcome" where
  "returning isNull err r = then_do r (\<lambda>w. Return ((isNull, err), w))"

definition ScanText :: "engine \<Rightarrow> Stmt \<Rightarrow> goint \<Rightarrow> world \<Rightarrow> (string \<times> bool) \<times> world" where
  "ScanText E s index w =
     (let (p, w1) = native_ptr E (OnStmt (stmt s) (Column_text (ucast index))) w in
      if p = None then (([], True), w1) else ((GoString p, False), w1))"

definition ScanBlob :: "engine \<Rightarrow> Stmt \<Rightarrow> goint \<Rightarrow> world \<Rightarrow> (string option \<times> bool) \<times> world" where
  "ScanBlob E s index w =
     (let (p, w1) = native_ptr E (OnStmt (stmt s) (Column_blob (ucast index))) w in
      if p = None then ((None, True), w1)
      else (let (n, w2) = native_cint E (OnStmt (stmt s) (Column_bytes (ucast index))) w1
            in ((Some (GoBytes p n), False), w2)))"

definition ScanValue :: "engine \<Rightarrow> Stmt \<Rightarrow> goint \<Rightarrow> bool \<Rightarrow> world \<Rightarrow> ((gvalue option \<times> bool) \<times> world) outcome" where
  "ScanValue E s index blob w =
     (let (ctype, w1) = ColumnType E s index w in
      case ctype of
        Null \<Rightarrow> Return ((None, True), w1)
      | Text \<Rightarrow>
          (if blob
           then (let (p, w2) = native_ptr E (OnStmt (stmt s) (Column_blob (ucast index))) w1;
                     (n, w3) = native_cint E (OnStmt (stmt s) (Column_bytes (ucast index))) w2
                 in Return ((Some (VBytes (Some (GoBytes p n))), False), w3))
           else (let (p, w2) = native_ptr E (OnStmt (stmt s) (Column_text (ucast index))) w1
                 in Return ((Some (VString (GoString p)), False), w2)))
      | Integer \<Rightarrow>
          (let (r, w2) = native_int64 E (OnStmt (stmt s) (Column_int64 (ucast index))) w1
           in Return ((Some (VInt64 r), False), w2))
      | Float \<Rightarrow>
          (let (r, w2) = native_double E (OnStmt (stmt s) (Column_double (ucast index))) w1
           in Return ((Some (VFloat64 r), False), w2))
      | Blob \<Rightarrow>
          (let (p, w2) = native_ptr E (OnStmt (stmt s) (Column_blob (ucast index))) w1;
               (n, w3) = native_cint E (OnStmt (stmt s) (Column_bytes (ucast index))) w2
           in Return ((Some (VBytes (Some (GoBytes p n))), False), w3))
      | OtherType x \<Rightarrow> Panic w1)"

text \<open>The \<open>switch len(txt)\<close> of \<open>ScanTime\<close>: the layout handed to \<open>time.Parse\<close>.\<close>

definition time_layout :: "string \<Rightarrow> string" where
  "time_layout txt =
     (if length txt = 5 then ''15:04''
      else if length txt = 8 then ''15:04:05''
      else if length txt = 10 then ''2006-01-02''
      else if length txt = 12 then ''15:04:05.000''
      else if length txt = 16 then
        (if txt ! 10 = CHR ''T'' then ''2006-01-02T15:04'' else ''2006-01-02 15:04'')
      else if length txt = 19 then
        (if txt ! 10 = CHR ''T'' then ''2006-01-02T15:04:05'' else ''2006-01-02 15:04:05'')
      else if length txt = 23 then
        (if txt ! 10 = CHR ''T'' then ''2006-01-02T15:04:05.999'' else ''2006-01-02 15:04:05.999'')
      else
        (if length txt > 10 \<and> txt ! 10 = CHR ''T'' then ''2006-01-02T15:04:05.999Z07:00''
         else ''2006-01-02 15:04:05.999Z07:00''))"

definition ScanTime :: "golib \<Rightarrow> engine \<Rightarrow> Stmt \<Rightarrow> goint \<Rightarrow> world \<Rightarrow> ((gotime \<times> bool \<times> error option) \<times> world) outcome" where
  "ScanTime L E s index w =
     (let (ctype, w1) = ColumnType E s index w in
      case ctype of
        Null \<Rightarrow> Return ((zero_time, True, None), w1)
      | Text \<Rightarrow>
          (let (p, w2) = native_ptr E (OnStmt (stmt s) (Column_text (ucast index))) w1;
               txt = GoString p;
               layout = time_layout txt
           in case time_Parse L layout txt of
                Inl err \<Rightarrow> Return ((zero_time, False, Some err), w2)
              | Inr v \<Rightarrow> Return ((v, False, None), w2))
      | Integer \<Rightarrow>
          (let (unixepoch, w2) = native_int64 E (OnStmt (stmt s) (Column_int64 (ucast index))) w1
           in Return ((time_Unix L unixepoch, False, None), w2))
      | Float \<Rightarrow>
          (let (jd, w2) = native_double E (OnStmt (stmt s) (Column_double (ucast index))) w1
           in Return ((JulianDayToLocalTime L jd, False, None), w2))
      | Blob \<Rightarrow> Panic w1
      | OtherType x \<Rightarrow> Panic w1)"

text \<open>
  \<open>ScanReflect\<close> sees its argument through reflection: the type name, and for a
  pointer the kind of what it points to and the address (\<open>None\<close> when nil).
\<close>

fun reflect_dest :: "dest \<Rightarrow> string \<times> (rkind \<times> nat option) option" where
  "reflect_dest DNil = (''<nil>'', None)"
| "reflect_dest (DPtr EString p) = (''*string'', Some (KString, p))"
| "reflect_dest (DPtr EInt p) = (''*int'', Some (KInt 64, p))"
| "reflect_dest (DPtr EInt64 p) = (''*int64'', Some (KInt 64, p))"
| "reflect_dest (DPtr EByte p) = (''*uint8'', Some (KUint 8, p))"
| "reflect_dest (DPtr EBool p) = (''*bool'', Some (KBool, p))"
| "reflect_dest (DPtr EFloat64 p) = (''*float64'', Some (KFloat 64, p))"
| "reflect_dest (DPtr EBytes p) = (''*[]uint8'', Some (KOtherKind, p))"
| "reflect_dest (DPtr ETime p) = (''*time.Time'', Some (KOtherKind, p))"
| "reflect_dest (DPtrPtr e p) = (''**T'', Some (KOtherKind, p))"
| "reflect_dest (DScanner f) = (''sql.Scanner'', None)"
| "reflect_dest (DIface p) = (''*interface {}'', Some (KOtherKind, p))"
| "reflect_dest (DOtherPtr t k p) = (t, Some (k, p))"
| "reflect_dest (DString v) = (''string'', None)"
| "reflect_dest (DNonPtr t) = (t, None)"

definition ScanReflect :: "golib \<Rightarrow> engine \<Rightarrow> Stmt \<Rightarrow> goint \<Rightarrow> string \<times> (rkind \<times> nat option) option \<Rightarrow> world \<Rightarrow> ((bool \<times> error option) \<times> world) outcome" where
  "ScanReflect L E s index v w =
     (case snd v of
        None \<Rightarrow> Return ((False, Some (UnsupportedScanType s ''ScanReflect unsupported type'' (fst v))), w)
      | Some (k, None) \<Rightarrow>
          Return ((False, Some (UnsupportedScanType s ''ScanReflect unsupported type'' (fst v))), w)
      | Some (k, Some a) \<Rightarrow>
          (case k of
             KString \<Rightarrow>
               (let ((t, isNull), w1) = ScanText E s index w
                in returning isNull None (store (Some a) (VString t) w1))
           | KInt n \<Rightarrow>
               (let ((i, isNull, err), w1) = ScanInt64 E s index w in
                if err = None
                then returning isNull err (store (Some a) (VInt64 (signed_take_bit (n - 1) i)) w1)
                else Return ((isNull, err), w1))
           | KUint n \<Rightarrow>
               (let ((i, isNull, err), w1) = ScanInt64 E s index w in
                if err = None
                then (if i <s 0 then Return ((isNull, Some (NegativeValue s i)), w1)
                      else returning isNull err (store (Some a) (VUint (take_bit n i)) w1))
                else Return ((isNull, err), w1))
           | KBool \<Rightarrow>
               (let ((b, isNull, err), w1) = ScanBool E s index w in
                if err = None then returning isNull err (store (Some a) (VBool b) w1)
                else Return ((isNull, err), w1))
           | KFloat n \<Rightarrow>
               (let ((f, isNull, err), w1) = ScanDouble E s index w in
                if err = None
                then returning isNull err
                       (store (Some a) (VFloat64 (if n = 32 then float32_of L f else f)) w1)
                else Return ((isNull, err), w1))
           | KOtherKind \<Rightarrow>
               Return ((False, Some (UnsupportedScanType s ''unsupported type in Scan'' (fst v))), w)))"

fun ScanByIndex :: "golib \<Rightarrow> engine \<Rightarrow> Stmt \<Rightarrow> goint \<Rightarrow> dest \<Rightarrow> world \<Rightarrow> ((bool \<times> error option) \<times> world) outcome" where
  "ScanByIndex L E s index DNil w = Return ((False, None), w)"
| "ScanByIndex L E s index (DPtr EString p) w =
     (let ((v, isNull), w1) = ScanText E s index w
      in returning isNull None (store p (VString v) w1))"
| "ScanByIndex L E s index (DPtrPtr EString p) w =
     (let ((st, isNull), w1) = ScanText E s index w in
      if isNull then returning isNull None (store p (VPtr None) w1)
      else returning isNull None (store_through p (VString st) w1))"
| "ScanByIndex L E s index (DPtr EInt p) w =
     (let ((v, isNull, err), w1) = ScanInt E s index w
      in returning isNull err (store p (VInt v) w1))"
| "ScanByIndex L E s index (DPtrPtr EInt p) w =
     (let ((i, isNull, err), w1) = ScanInt E s index w in
      if err = None
      then (if isNull then returning isNull err (store p (VPtr None) w1)
            else returning isNull err (store_through p (VInt i) w1))
      else Return ((isNull, err), w1))"
| "ScanByIndex L E s index (DPtr EInt64 p) w =
     (let ((v, isNull, err), w1) = ScanInt64 E s index w
      in returning isNull err (store p (VInt64 v) w1))"
| "ScanByIndex L E s index (DPtrPtr EInt64 p) w =
     (let ((i, isNull, err), w1) = ScanInt64 E s index w in
      if err = None
      then (if isNull then returning isNull err (store p (VPtr None) w1)
            else returning isNull err (store_through p (VInt64 i) w1))
      else Return ((isNull, err), w1))"
| "ScanByIndex L E s index (DPtr EByte p) w =
     (let ((v, isNull, err), w1) = ScanByte E s index w
      in returning isNull err (store p (VByte v) w1))"
| "ScanByIndex L E s index (DPtrPtr EByte p) w =
     (let ((b, isNull, err), w1) = ScanByte E s index w in
      if err = None
      then (if isNull then returning isNull err (store p (VPtr None) w1)
            else returning isNull err (store_through p (VByte b) w1))
      else Return ((isNull, err), w1))"
| "ScanByIndex L E s index (DPtr EBool p) w =
     (let ((v, isNull, err), w1) = ScanBool E s index w
      in returning isNull err (store p (VBool v) w1))"
| "ScanByIndex L E s index (DPtrPtr EBool p) w =
     (let ((b, isNull, err), w1) = ScanBool E s index w in
      if err = None
      then (if isNull then returning isNull err (store p (VPtr None) w1)
            else returning isNull err (store_through p (VBool b) w1))
      else Return ((isNull, err), w1))"
| "ScanByIndex L E s index (DPtr EFloat64 p) w =
     (let ((v, isNull, err), w1) = ScanDouble E s index w
      in returning isNull err (store p (VFloat64 v) w1))"
| "ScanByIndex L E s index (DPtrPtr EFloat64 p) w =
     (let ((f, isNull, err), w1) = ScanDouble E s index w in
      if err = None
      then (if isNull then returning isNull err (store p (VPtr None) w1)
            else returning isNull err (store_through p (VFloat64 f) w1))
      else Return ((isNull, err), w1))"
| "ScanByIndex L E s index (DPtr EBytes p) w =
     (let ((v, isNull), w1) = ScanBlob E s index w
      in returning isNull None (store p (VBytes v) w1))"
| "ScanByIndex L E s index (DPtrPtr EBytes p) w =
     (let ((bs, isNull), w1) = ScanBlob E s index w in
      if isNull then returning isNull None (store p (VPtr None) w1)
      else returning isNull None (store_through p (VBytes bs) w1))"
| "ScanByIndex L E s index (DPtr ETime p) w =
     (case ScanTime L E s index w of
        Panic p \<Rightarrow> Panic p
      | Return ((v, isNull, err), w1) \<Rightarrow> returning isNull err (store p (VTime v) w1))"
| "ScanByIndex L E s index (DScanner f) w =
     (case ScanValue E s index False w of
        Panic p \<Rightarrow> Panic p
      | Return ((v, isNull), w1) \<Rightarrow> Return ((isNull, f v), w1))"
| "ScanByIndex L E s index (DIface p) w =
     (case ScanValue E s index False w of
        Panic p \<Rightarrow> Panic p
      | Return ((v, isNull), w1) \<Rightarrow> returning isNull None (store p (VIface v) w1))"
| "ScanByIndex L E s index value w = ScanReflect L E s index (reflect_dest value) w"

fun scan_args :: "golib \<Rightarrow> engine \<Rightarrow> Stmt \<Rightarrow> goint \<Rightarrow> dest list \<Rightarrow> world \<Rightarrow> (error option \<times> world) outcome" where
  "scan_args L E s i [] w = Return (None, w)"
| "scan_args L E s i (v # vs) w =
     (case ScanByIndex L E s i v w of
        Panic p \<Rightarrow> Panic p
      | Return ((isNull, Some err), w1) \<Rightarrow> Return (Some err, w1)
      | Return ((isNull, None), w1) \<Rightarrow> scan_args L E s (i + 1) vs w1)"

definition Scan :: "golib \<Rightarrow> engine \<Rightarrow> Stmt \<Rightarrow> dest list \<Rightarrow> world \<Rightarrow> (error option \<times> Stmt \<times> world) outcome" where
  "Scan L E s args w =
     (let (n, s1, w1) = ColumnCount E s w in
      if n \<noteq> of_nat (length args)
      then Return (Some (ArityMismatch s1 ''Stmt.Scan'' (of_nat (length args)) n), s1, w1)
      else (case scan_args L E s1 0 args w1 of
              Panic p \<Rightarrow> Panic p
            | Return (err, w2) \<Rightarrow> Return (err, s1, w2)))"

definition ScanByName :: "golib \<Rightarrow> engine \<Rightarrow> Stmt \<Rightarrow> string \<Rightarrow> dest \<Rightarrow> world \<Rightarrow> ((bool \<times> error option) \<times> Stmt \<times> world) outcome" where
  "ScanByName L E s name value w =
     (case ColumnIndex E s name w of
        ((index, Some err), s1, w1) \<Rightarrow> Return ((False, Some err), s1, w1)
      | ((index, None), s1, w1) \<Rightarrow>
          (case ScanByIndex L E s1 index value w1 of
             Panic p \<Rightarrow> Panic p
           | Return (r, w2) \<Rightarrow> Return (r, s1, w2)))"

fun NamedScan_loop :: "golib \<Rightarrow> engine \<Rightarrow> Stmt \<Rightarrow> goint \<Rightarrow> dest list \<Rightarrow> world \<Rightarrow> (error option \<times> Stmt \<times> world) outcome" where
  "NamedScan_loop L E s i (DString name # ptr # rest) w =
     (case ColumnIndex E s name w of
        ((index, Some err), s1, w1) \<Rightarrow> Return (Some err, s1, w1)
      | ((index, None), s1, w1) \<Rightarrow>
          (case ScanByIndex L E s1 index ptr w1 of
             Panic p \<Rightarrow> Panic p
           | Return ((isNull, Some err), w2) \<Rightarrow> Return (Some err, s1, w2)
           | Return ((isNull, None), w2) \<Rightarrow> NamedScan_loop L E s1 (i + 2) rest w2))"
| "NamedScan_loop L E s i (n # ptr # rest) w = Return (Some (NonStringName s i), s, w)"
| "NamedScan_loop L E s i rest w = Return (None, s, w)"

definition NamedScan :: "golib \<Rightarrow> engine \<Rightarrow> Stmt \<Rightarrow> dest list \<Rightarrow> world \<Rightarrow> (error option \<times> Stmt \<times> world) outcome" where
  "NamedScan L E s args w =
     (if length args mod 2 \<noteq> 0
      then Return (Some (OddArgumentCount s (of_nat (length args))), s, w)
      else NamedScan_loop L E s 0 args w)"

text \<open>
  The scan arguments that \<open>ScanByIndex\<close> hands to \<open>ScanReflect\<close> and that \<open>ScanReflect\<close>
  refuses: a value that is not a pointer, a nil pointer, a pointer to a value of a kind it
  does not know. A \<open>**time.Time\<close> is among them.
\<close>

fun unsupported_dest :: "dest \<Rightarrow> bool" where
  "unsupported_dest (DPtrPtr ETime p) = True"
| "unsupported_dest (DOtherPtr t k None) = True"
| "unsupported_dest (DOtherPtr t KOtherKind p) = True"
| "unsupported_dest (DString v) = True"
| "unsupported_dest (DNonPtr t) = True"
| "unsupported_dest d = False"


section \<open>Null columns and the typed scanners as one function\<close>





section \<open>Preparing and finalizing\<close>

text \<open>\<open>Log\<close> of trace.go: one call of the library's log function, which returns nothing.\<close>

definition Log :: "cint \<Rightarrow> string \<Rightarrow> world \<Rightarrow> world" where
  "Log err msg w = w\<lparr>calls := calls w @ [Sqlite3_log err msg]\<rparr>"

text \<open>\<open>s.c == nil || s.c.db == nil\<close>, which reads \<open>s.c.db\<close> only when \<open>s.c\<close> is not nil.\<close>

definition conn_closed :: "Stmt \<Rightarrow> world \<Rightarrow> bool" where
  "conn_closed s w = (case c s of None \<Rightarrow> True | Some k \<Rightarrow> db (conns w k) = None)"

text \<open>\<open>Stmt.finalize\<close>; the receiver may be nil.\<close>

definition finalize :: "engine \<Rightarrow> Stmt option \<Rightarrow> world \<Rightarrow> (error option \<times> Stmt option \<times> world) outcome" where
  "finalize E sp w =
     (case sp of
        None \<Rightarrow> Return (Some NilStatement, None, w)
      | Some s \<Rightarrow>
          (if stmt s = None then Return (None, Some s, w)
           else if conn_closed s w then
             (let w1 = Log SQLITE_MISUSE ''sqlite statement with already closed database connection'' w
              in Return (Some ClosedConnection, Some s, w1))
           else
             (let (rv, w1) = native_cint E (OnStmt (stmt s) Finalize_stmt) w in
              if rv \<noteq> SQLITE_OK
              then (let w2 = Log rv ''error while finalizing Stmt'' w1
                    in then_do (stmt_error E s rv ''Stmt.finalize'' w2)
                         (\<lambda>(err, w3). Return (err, Some s, w3)))
              else Return (None, Some (s\<lparr>stmt := None\<rparr>), w1))))"

text \<open>
  The statement cache of a connection (cache.go) is not among the sources. \<open>Conn.Prepare\<close>
  and \<open>Stmt.Finalize\<close> call its \<open>find\<close> and \<open>release\<close>, which are parameters here: \<open>find k cmd\<close>
  looks \<open>cmd\<close> up in the cache of connection \<open>k\<close>, \<open>release k s\<close> hands \<open>s\<close> back to it.
\<close>

record cache_ops =
  find :: "nat \<Rightarrow> string \<Rightarrow> world \<Rightarrow> Stmt option \<times> world"
  release :: "nat \<Rightarrow> Stmt \<Rightarrow> world \<Rightarrow> (error option \<times> Stmt option \<times> world) outcome"

text \<open>\<open>Stmt.Finalize\<close>.\<close>

definition Finalize :: "cache_ops \<Rightarrow> engine \<Rightarrow> Stmt option \<Rightarrow> world \<Rightarrow> (error option \<times> Stmt option \<times> world) outcome" where
  "Finalize K E sp w =
     (case sp of
        None \<Rightarrow> Return (Some NilStatement, None, w)
      | Some s \<Rightarrow>
          (case c s of
             None \<Rightarrow> finalize E (Some s) w
           | Some k \<Rightarrow>
               (if Cacheable s \<and> db (conns w k) \<noteq> None then release K k s w
                else finalize E (Some s) w)))"

text \<open>
  Modelled from the spec: \<open>Conn.error\<close> is a method of sqlite.go, which is not among the
  sources. It is called with a native result code other than success, which it wraps
  with the engine's message and the details given, here the SQL text.
\<close>

definition conn_error :: "engine \<Rightarrow> nat \<Rightarrow> cint \<Rightarrow> string \<Rightarrow> world \<Rightarrow> error \<times> world" where
  "conn_error E k rv details w =
     (let (m, w1) = native_ptr E (Errmsg (db (conns w k))) w
      in (NativeConnError rv (GoString m) details, w1))"

text \<open>\<open>my_prepare_v2\<close>: one native call that returns the result code, the handle and the tail.\<close>

definition native_prepare :: "engine \<Rightarrow> native_call \<Rightarrow> world \<Rightarrow> (cint \<times> handle option \<times> string option) \<times> world" where
  "native_prepare E call w =
     ((r_cint E (calls w) call, r_handle E (calls w) call, r_ptr E (calls w) call),
      w\<lparr>calls := calls w @ [call]\<rparr>)"

text \<open>
  The arguments of a fresh or cached statement are bound; when that fails the statement
  is destroyed with \<open>s.finalize()\<close> and the error of \<open>Bind\<close> is returned.
\<close>

definition bind_or_finalize :: "engine \<Rightarrow> Stmt \<Rightarrow> host_value list \<Rightarrow> world \<Rightarrow> ((error + Stmt) \<times> world) outcome" where
  "bind_or_finalize E s args w =
     (case Bind E s args w of
        Panic p \<Rightarrow> Panic p
      | Return (Some err, s1, w1) \<Rightarrow>
          then_do (finalize E (Some s1) w1) (\<lambda>(_, _, w2). Return (Inl err, w2))
      | Return (None, s1, w1) \<Rightarrow> Return (Inr s1, w1))"

text \<open>\<open>Conn.prepare\<close>; the receiver may be nil.\<close>

definition prepare :: "engine \<Rightarrow> nat option \<Rightarrow> string \<Rightarrow> host_value list \<Rightarrow> world \<Rightarrow> ((error + Stmt) \<times> world) outcome" where
  "prepare E cp cmd args w =
     (case cp of
        None \<Rightarrow> Return (Inl NilDatabase, w)
      | Some k \<Rightarrow>
          (let ((rv, h, tl), w1) =
                 native_prepare E (Prepare_v2 (db (conns w k)) cmd (of_nat (length cmd + 1))) w in
           if rv \<noteq> SQLITE_OK
           then (let (err, w2) = conn_error E k rv cmd w1 in Return (Inl err, w2))
           else
             (let t = (if tl \<noteq> None \<and> length (GoString tl) > 0 then GoString tl else []);
                  s = \<lparr>c = Some k, stmt = h, sql = [], tail = t, columnCount = - 1, cols = None,
                       bindParameterCount = - 1, params = None, CheckTypeMismatch = True,
                       Cacheable = False\<rparr> in
              if length args > 0 then bind_or_finalize E s args w1
              else Return (Inr s, w1))))"

text \<open>\<open>Conn.Prepare\<close> on connection \<open>k\<close>.\<close>

definition Prepare :: "cache_ops \<Rightarrow> engine \<Rightarrow> nat \<Rightarrow> string \<Rightarrow> host_value list \<Rightarrow> world \<Rightarrow> ((error + Stmt) \<times> world) outcome" where
  "Prepare K E k cmd args w =
     (case find K k cmd w of
        (Some s, w1) \<Rightarrow>
          (if length args > 0 then bind_or_finalize E s args w1
           else Return (Inr s, w1))
      | (None, w1) \<Rightarrow>
          (case prepare E (Some k) cmd args w1 of
             Panic p \<Rightarrow> Panic p
           | Return (Inr s, w2) \<Rightarrow> Return (Inr (s\<lparr>Cacheable := True\<rparr>), w2)
           | Return (Inl err, w2) \<Rightarrow> Return (Inl err, w2)))"

text \<open>
  Modelled from the spec: a statement cache as section 4.5 describes it, used below as a
  concrete instance of \<open>cache_ops\<close>. \<open>find\<close> removes and returns the most recently used
  idle statement whose SQL text is exactly \<open>cmd\<close>. \<open>release\<close> resets the statement's
  execution state and its bindings; when clearing the bindings fails the statement is
  destroyed outright; otherwise it becomes the most recently used entry, and while the
  capacity is exceeded the least recently used entry is destroyed, a failure of that being
  suppressed.
\<close>

definition cache_find :: "nat \<Rightarrow> string \<Rightarrow> world \<Rightarrow> Stmt option \<times> world" where
  "cache_find k cmd w =
     (case List.find (\<lambda>s. sql s = cmd) (stmtCache (conns w k)) of
        None \<Rightarrow> (None, w)
      | Some s \<Rightarrow>
          (Some s,
           w\<lparr>conns := (conns w)(k := (conns w k)\<lparr>stmtCache := remove1 s (stmtCache (conns w k))\<rparr>)\<rparr>))"

definition cache_release :: "engine \<Rightarrow> nat \<Rightarrow> Stmt \<Rightarrow> world \<Rightarrow> (error option \<times> Stmt option \<times> world) outcome" where
  "cache_release E k s w =
     (let (_, w1) = native_cint E (OnStmt (stmt s) Reset) w;
          (rv, w2) = native_cint E (OnStmt (stmt s) Clear_bindings) w1 in
      if rv \<noteq> SQLITE_OK then finalize E (Some s) w2
      else
        (let idle = s # stmtCache (conns w2 k) in
         if length idle > maxSize (conns w2 k)
         then then_do (finalize E (Some (last idle)) w2)
                (\<lambda>(_, _, w3).
                   Return (None, Some s,
                     w3\<lparr>conns := (conns w3)(k := (conns w3 k)\<lparr>stmtCache := butlast idle\<rparr>)\<rparr>))
         else Return (None, Some s,
                w2\<lparr>conns := (conns w2)(k := (conns w2 k)\<lparr>stmtCache := idle\<rparr>)\<rparr>)))"

definition lru_cache :: "engine \<Rightarrow> cache_ops" where
  "lru_cache E = \<lparr>find = cache_find, release = cache_release E\<rparr>"

text \<open>The invariant of a cache: every idle statement of connection \<open>k\<close> is marked \<open>Cacheable\<close>.\<close>

definition cache_ok :: "world \<Rightarrow> nat \<Rightarrow> bool" where
  "cache_ok w k = list_all Cacheable (stmtCache (conns w k))"

section \<open>What a bind call stores\<close>

text \<open>
  The storage values of the data model, and the value the engine holds for a parameter
  after each of the bind calls below, as the C interface documents them:
  \<open>sqlite3_bind_int\<close> takes a C \<open>int\<close> and stores it sign-extended, \<open>sqlite3_bind_int64\<close>
  stores its argument, \<open>sqlite3_bind_text\<close> with a length that is not negative stores
  that many bytes.
\<close>

datatype StorageValue = SNull | SInteger int64 | SFloat float64 | SText string | SBlob string

fun class_of :: "StorageValue \<Rightarrow> Type" where
  "class_of SNull = Null"
| "class_of (SInteger v) = Integer"
| "class_of (SFloat v) = Float"
| "class_of (SText v) = Text"
| "class_of (SBlob v) = Blob"

fun stored_by :: "native_call \<Rightarrow> StorageValue option" where
  "stored_by (OnStmt h (Bind_null i)) = Some SNull"
| "stored_by (OnStmt h (Bind_text i p n)) = (if 0 \<le>s n then Some (SText (take (unat n) p)) else None)"
| "stored_by (OnStmt h (Bind_int i v)) = Some (SInteger (scast v))"
| "stored_by (OnStmt h (Bind_int64 i v)) = Some (SInteger v)"
| "stored_by (OnStmt h (Bind_double i v)) = Some (SFloat v)"
| "stored_by call = None"

text \<open>The native calls made between two worlds, and the first of them.\<close>

definition new_calls :: "world \<Rightarrow> world \<Rightarrow> native_call list" where
  "new_calls w w' = drop (length (calls w)) (calls w')"

definition first_call :: "world \<Rightarrow> world \<Rightarrow> native_call option" where
  "first_call w w' = (case new_calls w w' of [] \<Rightarrow> None | x # xs \<Rightarrow> Some x)"

text \<open>The value a bind operation leaves in the parameter: what its first native call stores.\<close>

definition bound_value :: "world \<Rightarrow> world \<Rightarrow> StorageValue option" where
  "bound_value w w' = (case first_call w w' of None \<Rightarrow> None | Some call \<Rightarrow> stored_by call)"

section \<open>Which native calls a function makes\<close>

text \<open>
  \<open>only_calls P w w'\<close>: the calls of \<open>w'\<close> are those of \<open>w\<close> followed by further calls that all
  satisfy \<open>P\<close>. \<open>stmt_or_errmsg\<close> holds of the calls on a statement handle and of
  \<open>sqlite3_errmsg\<close>, \<open>not_rowid_call\<close> of every call but \<open>sqlite3_last_insert_rowid\<close>.
\<close>

definition only_calls :: "(native_call \<Rightarrow> bool) \<Rightarrow> world \<Rightarrow> world \<Rightarrow> bool" where
  "only_calls P w w' =
     (take (length (calls w)) (calls w') = calls w \<and> list_all P (new_calls w w'))"

text \<open>
  \<open>on_handle h\<close> holds of the calls on the statement handle \<open>h\<close> and of \<open>sqlite3_errmsg\<close>: a
  function whose calls all satisfy it reaches no other statement and calls nothing else.
\<close>

fun on_handle :: "handle option \<Rightarrow> native_call \<Rightarrow> bool" where
  "on_handle h (OnStmt h' op) = (h' = h)"
| "on_handle h (Errmsg d) = True"
| "on_handle h call = False"

fun stmt_or_errmsg :: "native_call \<Rightarrow> bool" where
  "stmt_or_errmsg (OnStmt h op) = True"
| "stmt_or_errmsg (Errmsg d) = True"
| "stmt_or_errmsg call = False"

fun not_rowid_call :: "native_call \<Rightarrow> bool" where
  "not_rowid_call (Last_insert_rowid d) = False"
| "not_rowid_call call = True"

text \<open>
  The native calls that only read metadata of a statement: the number of parameters, the
  index or name of a parameter, the number of columns, the name of a column.
\<close>

fun metadata_call :: "native_call \<Rightarrow> bool" where
  "metadata_call (OnStmt h Bind_parameter_count) = True"
| "metadata_call (OnStmt h (Bind_parameter_index name)) = True"
| "metadata_call (OnStmt h (Bind_parameter_name i)) = True"
| "metadata_call (OnStmt h Column_count) = True"
| "metadata_call (OnStmt h (Column_name i)) = True"
| "metadata_call call = False"

section \<open>Concrete statements, engines and worlds\<close>

definition stmt0 :: Stmt where
  "stmt0 = \<lparr>c = Some 0, stmt = Some 7, sql = [], tail = [], columnCount = - 1, cols = None,
     bindParameterCount = - 1, params = None, CheckTypeMismatch = True, Cacheable = False\<rparr>"

definition world0 :: world where
  "world0 = \<lparr>calls = [], NullIfEmptyString = True, NullIfZeroTime = True,
     heap = (\<lambda>a. None), conns = (\<lambda>k. \<lparr>db = Some 1, stmtCache = [], maxSize = 2\<rparr>)\<rparr>"

text \<open>An engine whose every column is the text \<open>abc\<close>, which it coerces to the number 0.\<close>

definition text_engine :: engine where
  "text_engine =
     \<lparr>r_cint = (\<lambda>h k. case k of OnStmt _ (Column_type _) \<Rightarrow> 3 | OnStmt _ (Column_bytes _) \<Rightarrow> 3 | _ \<Rightarrow> 0),
      r_int64 = (\<lambda>h k. 0),
      r_double = (\<lambda>h k. 0),
      r_ptr = (\<lambda>h k. case k of OnStmt _ (Column_text _) \<Rightarrow> Some ''abc''
                 | OnStmt _ (Column_blob _) \<Rightarrow> Some ''abc'' | _ \<Rightarrow> None),
      r_handle = (\<lambda>h k. None)\<rparr>"

text \<open>An engine that answers every call with success, zero or the nil pointer.\<close>

definition ok_engine :: engine where
  "ok_engine =
     \<lparr>r_cint = (\<lambda>h k. 0), r_int64 = (\<lambda>h k. 0), r_double = (\<lambda>h k. 0),
      r_ptr = (\<lambda>h k. None), r_handle = (\<lambda>h k. Some 7)\<rparr>"

text \<open>
  An engine that answers \<open>sqlite3_step\<close> with \<open>rv\<close> and \<open>sqlite3_changes\<close> with \<open>n\<close>, whose last
  inserted rowid is 42, whose statements have no parameter, and whose other calls succeed.
\<close>

definition step_engine :: "cint \<Rightarrow> cint \<Rightarrow> engine" where
  "step_engine rv n =
     \<lparr>r_cint = (\<lambda>h k. case k of OnStmt _ Step \<Rightarrow> rv | Changes _ \<Rightarrow> n | _ \<Rightarrow> 0),
      r_int64 = (\<lambda>h k. 42),
      r_double = (\<lambda>h k. 0),
      r_ptr = (\<lambda>h k. case k of Errmsg _ \<Rightarrow> Some ''step failed''
                 | OnStmt _ Sql \<Rightarrow> Some ''select 1'' | _ \<Rightarrow> None),
      r_handle = (\<lambda>h k. Some 7)\<rparr>"

text \<open>A world whose connection is closed, and one whose cache holds an idle statement.\<close>

definition closed_world :: world where
  "closed_world = world0\<lparr>conns := (\<lambda>k. \<lparr>db = None, stmtCache = [], maxSize = 2\<rparr>)\<rparr>"

definition cached_stmt :: Stmt where
  "cached_stmt = stmt0\<lparr>sql := ''select 1'', Cacheable := True\<rparr>"

definition cached_world :: world where
  "cached_world = world0\<lparr>conns := (\<lambda>k. \<lparr>db = Some 1, stmtCache = [cached_stmt], maxSize = 2\<rparr>)\<rparr>"

text \<open>
  A library in which no text parses as a time, the local zone is UTC, every Julian day is
  the zero time and rounding to \<open>float32\<close> changes nothing.
\<close>

definition plain_lib :: golib where
  "plain_lib =
     \<lparr>time_Parse = (\<lambda>layout txt. Inl (ForeignError ''parsing time'')),
      local_offset = (\<lambda>t. 0),
      JulianDayToLocalTime = (\<lambda>jd. zero_time),
      float32_of = (\<lambda>f. f)\<rparr>"



definition int_engine :: engine where
  "int_engine =
     \<lparr>r_cint = (\<lambda>h k. case k of OnStmt _ (Column_type _) \<Rightarrow> 1 | _ \<Rightarrow> 7),
      r_int64 = (\<lambda>h k. 7), r_double = (\<lambda>h k. 0), r_ptr = (\<lambda>h k. Some ''7''),
      r_handle = (\<lambda>h k. None)\<rparr>"

text \<open>
  An engine that answers every call on a nil statement handle with \<open>SQLITE_MISUSE\<close>, as
  the library does, and every other call with success.
\<close>

definition misuse_engine :: engine where
  "misuse_engine =
     \<lparr>r_cint = (\<lambda>h k. case k of OnStmt None _ \<Rightarrow> 21 | _ \<Rightarrow> 0),
      r_int64 = (\<lambda>h k. 0), r_double = (\<lambda>h k. 0),
      r_ptr = (\<lambda>h k. case k of Errmsg _ \<Rightarrow> Some ''bad parameter or other API misuse''
                 | _ \<Rightarrow> None),
      r_handle = (\<lambda>h k. Some 7)\<rparr>"


section \<open>Properties of the scanners\<close>

lemma checkTypeMismatch_lossy:
  "checkTypeMismatch s source target =
     (if lossy source target then Some (TypeMismatch s source target) else None)"
  by (cases target; cases source) (simp_all add: checkTypeMismatch_def lossy_def)

lemma ScanInt_nonnull:
  "column_type_now E s i w \<noteq> Null \<Longrightarrow>
   fst (ScanInt E s i w) =
     (scast (r_cint E (after_type s i w) (OnStmt (stmt s) (Column_int (ucast i)))), False,
      policy_error s (column_type_now E s i w) Integer)"
  by (simp add: ScanInt_def column_type_now_def after_type_def policy_error_def ColumnType_def
      native_cint_def checkTypeMismatch_lossy Let_def split_def)

lemma ScanInt64_nonnull:
  "column_type_now E s i w \<noteq> Null \<Longrightarrow>
   fst (ScanInt64 E s i w) =
     (r_int64 E (after_type s i w) (OnStmt (stmt s) (Column_int64 (ucast i))), False,
      policy_error s (column_type_now E s i w) Integer)"
  by (simp add: ScanInt64_def column_type_now_def after_type_def policy_error_def ColumnType_def
      native_cint_def native_int64_def checkTypeMismatch_lossy Let_def split_def)

lemma ScanByte_nonnull:
  "column_type_now E s i w \<noteq> Null \<Longrightarrow>
   fst (ScanByte E s i w) =
     (ucast (r_cint E (after_type s i w) (OnStmt (stmt s) (Column_int (ucast i)))), False,
      policy_error s (column_type_now E s i w) Integer)"
  by (simp add: ScanByte_def column_type_now_def after_type_def policy_error_def ColumnType_def
      native_cint_def checkTypeMismatch_lossy Let_def split_def)

lemma ScanBool_nonnull:
  "column_type_now E s i w \<noteq> Null \<Longrightarrow>
   fst (ScanBool E s i w) =
     (r_cint E (after_type s i w) (OnStmt (stmt s) (Column_int (ucast i))) = 1, False,
      policy_error s (column_type_now E s i w) Integer)"
  by (simp add: ScanBool_def column_type_now_def after_type_def policy_error_def ColumnType_def
      native_cint_def checkTypeMismatch_lossy Let_def split_def)

lemma ScanDouble_nonnull:
  "column_type_now E s i w \<noteq> Null \<Longrightarrow>
   fst (ScanDouble E s i w) =
     (r_double E (after_type s i w) (OnStmt (stmt s) (Column_double (ucast i))), False,
      policy_error s (column_type_now E s i w) Float)"
  by (simp add: ScanDouble_def column_type_now_def after_type_def policy_error_def ColumnType_def
      native_cint_def native_double_def checkTypeMismatch_lossy Let_def split_def)

text \<open>
  C1. On a column that is not Null, each of the typed scanners \<open>ScanInt\<close>, \<open>ScanInt64\<close>,
  \<open>ScanByte\<close>, \<open>ScanBool\<close> (Integer destinations) and \<open>ScanDouble\<close> (Float destination)
  returns \<open>isNull = false\<close>, the value the engine's own accessor gives (its native
  coercion, converted to the Go type), and an error that is a \<open>TypeMismatch\<close> exactly when
  the statement's \<open>CheckTypeMismatch\<close> flag is set and the pair of source class and
  destination is lossy: Float, Text or Blob into an Integer destination, Text or Blob into
  a Float destination. Integer into Float, and every other pair, passes; with the flag
  cleared the error is always absent. \<open>checkTypeMismatch\<close> itself reports exactly the
  lossy pairs.
\<close>

theorem C1_type_mismatch_policy:
  "(column_type_now E s i w \<noteq> Null \<longrightarrow>
      fst (ScanInt E s i w) =
        (scast (r_cint E (after_type s i w) (OnStmt (stmt s) (Column_int (ucast i)))), False,
         policy_error s (column_type_now E s i w) Integer)
    \<and> fst (ScanInt64 E s i w) =
        (r_int64 E (after_type s i w) (OnStmt (stmt s) (Column_int64 (ucast i))), False,
         policy_error s (column_type_now E s i w) Integer)
    \<and> fst (ScanByte E s i w) =
        (ucast (r_cint E (after_type s i w) (OnStmt (stmt s) (Column_int (ucast i)))), False,
         policy_error s (column_type_now E s i w) Integer)
    \<and> fst (ScanBool E s i w) =
        (r_cint E (after_type s i w) (OnStmt (stmt s) (Column_int (ucast i))) = 1, False,
         policy_error s (column_type_now E s i w) Integer)
    \<and> fst (ScanDouble E s i w) =
        (r_double E (after_type s i w) (OnStmt (stmt s) (Column_double (ucast i))), False,
         policy_error s (column_type_now E s i w) Float))
   \<and> checkTypeMismatch s source target =
       (if lossy source target then Some (TypeMismatch s source target) else None)
   \<and> (\<not> CheckTypeMismatch s \<longrightarrow> policy_error s source target = None)
   \<and> lossy Float Integer \<and> lossy Text Integer \<and> lossy Blob Integer
   \<and> lossy Text Float \<and> lossy Blob Float \<and> \<not> lossy Integer Float
   \<and> \<not> lossy Integer Integer \<and> \<not> lossy Float Float"
  using ScanInt_nonnull [of E s i w] ScanInt64_nonnull [of E s i w] ScanByte_nonnull [of E s i w]
    ScanBool_nonnull [of E s i w] ScanDouble_nonnull [of E s i w]
  by (simp add: checkTypeMismatch_lossy policy_error_def lossy_def)

theorem C1_type_mismatch_policy_witness:
  "column_type_now text_engine stmt0 0 world0 = Text
   \<and> fst (ScanInt64 text_engine stmt0 0 world0) =
       (0, False, Some (TypeMismatch stmt0 Text Integer))
   \<and> fst (ScanInt64 text_engine (stmt0\<lparr>CheckTypeMismatch := False\<rparr>) 0 world0) = (0, False, None)"
proof -
  have t: "column_type_now text_engine s 0 world0 = Text" for s
    by (simp add: column_type_now_def ColumnType_def native_cint_def text_engine_def
        Type_of_def split_def)
  have f: "\<not> CheckTypeMismatch (stmt0\<lparr>CheckTypeMismatch := False\<rparr>)"
    by simp
  show ?thesis
    using C1_type_mismatch_policy [of text_engine stmt0 0 world0 Text Integer]
      C1_type_mismatch_policy [of text_engine "stmt0\<lparr>CheckTypeMismatch := False\<rparr>" 0 world0 Text Integer]
      t f
    by (simp add: policy_error_def lossy_def stmt0_def text_engine_def)
qed

section \<open>Returning, panicking and the trace of native calls\<close>

lemma then_do_Return [simp]: "then_do (Return x) f = f x"
  by (simp add: then_do_def)

lemma then_do_Panic [simp]: "then_do (Panic p) f = Panic p"
  by (simp add: then_do_def)

lemma world_of_Return [simp]: "world_of g (Return x) = g x"
  by (simp add: world_of_def)

lemma world_of_Panic [simp]: "world_of g (Panic p) = p"
  by (simp add: world_of_def)

lemma only_calls_refl [simp]: "only_calls P w w"
  by (simp add: only_calls_def new_calls_def)

lemma only_calls_append:
  "only_calls P w w' \<longleftrightarrow> (\<exists>xs. calls w' = calls w @ xs \<and> list_all P xs)"
  unfolding only_calls_def new_calls_def
  by (metis append_eq_conv_conj append_take_drop_id)

lemma only_calls_trans:
  "only_calls P w w1 \<Longrightarrow> only_calls P w1 w2 \<Longrightarrow> only_calls P w w2"
  unfolding only_calls_append by auto

lemma only_calls_one:
  "P call \<Longrightarrow> only_calls P w (w\<lparr>calls := calls w @ [call]\<rparr>)"
  unfolding only_calls_append by simp

lemma only_calls_mono:
  "only_calls P w w' \<Longrightarrow> (\<And>k. P k \<Longrightarrow> Q k) \<Longrightarrow> only_calls Q w w'"
  unfolding only_calls_append by (auto simp: list_all_iff)

lemma on_handle_stmt_or_errmsg: "on_handle h k \<Longrightarrow> stmt_or_errmsg k"
  by (cases k) simp_all

lemma on_handle_not_rowid: "on_handle h k \<Longrightarrow> not_rowid_call k"
  by (cases k) simp_all

lemma new_calls_append [simp]: "new_calls w (w\<lparr>calls := calls w @ xs\<rparr>) = xs"
  by (simp add: new_calls_def)

lemma new_calls_same [simp]: "new_calls w w = []"
  by (simp add: new_calls_def)

lemma first_call_one [simp]:
  "first_call w (w\<lparr>calls := calls w @ call # xs\<rparr>) = Some call"
  by (simp add: first_call_def new_calls_def)

text \<open>\<open>Stmt.error\<close> case by case.\<close>

lemma stmt_error_OK [simp]: "stmt_error E s SQLITE_OK d w = Return (None, w)"
  by (simp add: stmt_error_def)

lemma stmt_error_connection:
  "rv \<noteq> SQLITE_OK \<Longrightarrow> c s = Some k \<Longrightarrow>
   stmt_error E s rv d w =
     Return (Some (NativeEngineError s rv (GoString (r_ptr E (calls w) (Errmsg (db (conns w k))))) d),
             w\<lparr>calls := calls w @ [Errmsg (db (conns w k))]\<rparr>)"
  by (simp add: stmt_error_def native_ptr_def)

lemma stmt_error_no_connection:
  "rv \<noteq> SQLITE_OK \<Longrightarrow> c s = None \<Longrightarrow> stmt_error E s rv d w = Panic w"
  by (simp add: stmt_error_def)

lemma stmt_error_calls:
  "only_calls (on_handle h) w (world_of snd (stmt_error E s rv d w))"
  by (simp add: stmt_error_def native_ptr_def only_calls_one split_def Let_def split: option.split)

section \<open>Properties of stepping\<close>

lemma Next_Row:
  "r_cint E (calls w) (OnStmt (stmt s) Step) = Row \<Longrightarrow>
   Next E s w = Return ((True, None), w\<lparr>calls := calls w @ [OnStmt (stmt s) Step]\<rparr>)"
  by (simp add: Next_def native_cint_def)

lemma Next_Done:
  "r_cint E (calls w) (OnStmt (stmt s) Step) = Done \<Longrightarrow>
   Next E s w =
     Return ((False, None), w\<lparr>calls := calls w @ [OnStmt (stmt s) Step, OnStmt (stmt s) Reset]\<rparr>)"
  by (simp add: Next_def native_cint_def Row_def Done_def)

lemma Next_error:
  assumes "r_cint E (calls w) (OnStmt (stmt s) Step) = rv"
    and "rv \<noteq> Row" and "rv \<noteq> Done" and "rv \<noteq> SQLITE_OK" and "c s = Some k"
  shows "Next E s w =
     Return ((False, Some (NativeEngineError s rv
         (GoString (r_ptr E (calls w @ [OnStmt (stmt s) Step, OnStmt (stmt s) Reset])
            (Errmsg (db (conns w k)))))
         ''Stmt.Next'')),
      w\<lparr>calls := calls w @ [OnStmt (stmt s) Step, OnStmt (stmt s) Reset, Errmsg (db (conns w k))]\<rparr>)"
  using assms
  by (simp add: Next_def native_cint_def stmt_error_connection)

text \<open>
  Two cases lie outside the claim below. \<open>SQLITE_OK\<close>, which \<open>sqlite3_step\<close> does not
  return, would make \<open>Next\<close> reset the statement and return false with no error. And a
  statement without a connection, which \<open>Conn.prepare\<close> never makes, panics in \<open>Stmt.error\<close>
  after the reset.
\<close>

lemma Next_OK:
  "r_cint E (calls w) (OnStmt (stmt s) Step) = SQLITE_OK \<Longrightarrow>
   Next E s w =
     Return ((False, None), w\<lparr>calls := calls w @ [OnStmt (stmt s) Step, OnStmt (stmt s) Reset]\<rparr>)"
  by (simp add: Next_def native_cint_def Row_def Done_def SQLITE_OK_def stmt_error_def)

lemma Next_no_connection:
  assumes "r_cint E (calls w) (OnStmt (stmt s) Step) = rv"
    and "rv \<noteq> Row" and "rv \<noteq> Done" and "rv \<noteq> SQLITE_OK" and "c s = None"
  shows "Next E s w =
     Panic (w\<lparr>calls := calls w @ [OnStmt (stmt s) Step, OnStmt (stmt s) Reset]\<rparr>)"
  using assms
  by (simp add: Next_def native_cint_def stmt_error_no_connection)

lemma Next_calls:
  "only_calls (on_handle (stmt s)) w (world_of snd (Next E s w))"
proof -
  let ?w2 = "w\<lparr>calls := calls w @ [OnStmt (stmt s) Step, OnStmt (stmt s) Reset]\<rparr>"
  have a: "only_calls (on_handle (stmt s)) w ?w2"
    unfolding only_calls_append by simp
  have b: "only_calls (on_handle (stmt s)) ?w2 (world_of snd (stmt_error E s rv ''Stmt.Next'' ?w2))" for rv
    by (rule stmt_error_calls)
  have c: "world_of snd (then_do r (\<lambda>(err, w3). Return ((False, err), w3))) = world_of snd r"
    for r :: "(error option \<times> world) outcome"
    by (cases r) (simp_all add: split_def)
  show ?thesis
    using a only_calls_trans [OF a b]
    by (simp add: Next_def native_cint_def c only_calls_one)
qed

text \<open>
  C7. \<open>Next\<close> makes one \<open>sqlite3_step\<close> call. When the engine answers \<open>Row\<close>, \<open>Next\<close> returns
  true and no error, and nothing else is called: the statement is not reset. When it
  answers \<open>Done\<close>, \<open>Next\<close> calls \<open>sqlite3_reset\<close> at once and returns false and no error;
  \<open>sqlite3_clear_bindings\<close> is not called and the statement value, with its cached
  metadata, is not touched. On any other result code (an error code, that is one that is
  not \<open>SQLITE_OK\<close>, which \<open>sqlite3_step\<close> does not return), \<open>Next\<close> on a statement of a
  connection \<open>k\<close> (every statement made by \<open>Conn.prepare\<close> has one) resets the statement,
  asks the connection for the engine's message and returns false with a
  \<open>NativeEngineError\<close> that holds the result code, that message and the statement, from
  which \<open>StmtError.SQL\<close> reads the SQL text.
\<close>

theorem C7_next:
  "(r_cint E (calls w) (OnStmt (stmt s) Step) = Row \<longrightarrow>
      Next E s w = Return ((True, None), w\<lparr>calls := calls w @ [OnStmt (stmt s) Step]\<rparr>))
   \<and> (r_cint E (calls w) (OnStmt (stmt s) Step) = Done \<longrightarrow>
      Next E s w =
        Return ((False, None),
                w\<lparr>calls := calls w @ [OnStmt (stmt s) Step, OnStmt (stmt s) Reset]\<rparr>))
   \<and> (r_cint E (calls w) (OnStmt (stmt s) Step) = rv \<and> rv \<noteq> Row \<and> rv \<noteq> Done
        \<and> rv \<noteq> SQLITE_OK \<and> c s = Some k \<longrightarrow>
      (\<exists>m. m = GoString (r_ptr E (calls w @ [OnStmt (stmt s) Step, OnStmt (stmt s) Reset])
                          (Errmsg (db (conns w k))))
        \<and> Next E s w =
            Return ((False, Some (NativeEngineError s rv m ''Stmt.Next'')),
                    w\<lparr>calls := calls w @ [OnStmt (stmt s) Step, OnStmt (stmt s) Reset,
                                            Errmsg (db (conns w k))]\<rparr>)
        \<and> error_stmt (NativeEngineError s rv m ''Stmt.Next'') = Some s
        \<and> StmtError_SQL E (NativeEngineError s rv m ''Stmt.Next'') w' = Some (fst (SQL E s w'))))"
  using Next_Row [of E w s] Next_Done [of E w s] Next_error [of E w s rv k]
  by (simp add: StmtError_SQL_def)

theorem C7_next_witness:
  "Next (step_engine 100 0) stmt0 world0 =
     Return ((True, None), world0\<lparr>calls := [OnStmt (Some 7) Step]\<rparr>)
   \<and> Next (step_engine 101 0) stmt0 world0 =
       Return ((False, None), world0\<lparr>calls := [OnStmt (Some 7) Step, OnStmt (Some 7) Reset]\<rparr>)
   \<and> Next (step_engine 5 0) stmt0 world0 =
       Return ((False, Some (NativeEngineError stmt0 5 ''step failed'' ''Stmt.Next'')),
        world0\<lparr>calls := [OnStmt (Some 7) Step, OnStmt (Some 7) Reset, Errmsg (Some 1)]\<rparr>)
   \<and> StmtError_SQL (step_engine 5 0) (NativeEngineError stmt0 5 ''step failed'' ''Stmt.Next'') world0
       = Some ''select 1''"
proof -
  have a: "r_cint (step_engine 100 0) (calls world0) (OnStmt (stmt stmt0) Step) = Row"
    by (simp add: step_engine_def Row_def)
  have b: "r_cint (step_engine 101 0) (calls world0) (OnStmt (stmt stmt0) Step) = Done"
    by (simp add: step_engine_def Done_def)
  have c: "r_cint (step_engine 5 0) (calls world0) (OnStmt (stmt stmt0) Step) = 5
      \<and> (5::cint) \<noteq> Row \<and> (5::cint) \<noteq> Done \<and> (5::cint) \<noteq> SQLITE_OK \<and> c stmt0 = Some 0"
    by (simp add: step_engine_def Row_def Done_def SQLITE_OK_def stmt0_def)
  show ?thesis
    using C7_next [of "step_engine 100 0" world0 stmt0 5 0 world0] a
      C7_next [of "step_engine 101 0" world0 stmt0 5 0 world0] b
      C7_next [of "step_engine 5 0" world0 stmt0 5 0 world0] c
    apply (simp add: stmt0_def world0_def)
    apply (simp add: Next_def native_cint_def native_ptr_def stmt_error_def step_engine_def
        GoString_def SQLITE_OK_def Row_def Done_def StmtError_SQL_def SQL_def)
    done
qed

section \<open>Properties of executing and inserting\<close>

lemma only_calls_then_do:
  assumes "only_calls P w (world_of g r)"
    and "\<And>x. r = Return x \<Longrightarrow> only_calls P (g x) (world_of g' (f x))"
  shows "only_calls P w (world_of g' (then_do r f))"
proof (cases r)
  case (Panic p)
  then show ?thesis using assms(1) by simp
next
  case (Return x)
  then show ?thesis using assms(1) assms(2) [OF Return] by (auto intro: only_calls_trans)
qed

lemma bind_rv_calls:
  "only_calls (on_handle (stmt s)) w (world_of snd (bind_rv E s op w))"
proof -
  have "only_calls (on_handle (stmt s)) w (w\<lparr>calls := calls w @ [OnStmt (stmt s) op]\<rparr>)"
    by (rule only_calls_one) simp
  then show ?thesis
    unfolding bind_rv_def native_cint_def
    by (auto simp: split_def Let_def intro: only_calls_trans stmt_error_calls)
qed

lemma BindReflect_calls:
  "only_calls (on_handle (stmt s)) w (world_of snd (BindReflect E s i t v w))"
  by (cases v)
    (auto simp: BindReflect_def cstring_def BindParameterName_def native_ptr_def split_def Let_def
      intro: bind_rv_calls only_calls_one split: option.splits)

lemma BindByIndex_calls:
  "only_calls (on_handle (stmt s)) w (world_of snd (BindByIndex E s i v w))"
  by (induction E s i v w rule: BindByIndex.induct)
    (auto simp: cstring_def Let_def intro: bind_rv_calls BindReflect_calls)

lemma bind_args_calls:
  "only_calls (on_handle (stmt s)) w (world_of snd (bind_args E s i vs w))"
proof (induction vs arbitrary: i w)
  case Nil
  show ?case by simp
next
  case (Cons v vs)
  have one: "only_calls (on_handle (stmt s)) w (world_of snd (BindByIndex E s (i + 1) v w))"
    by (rule BindByIndex_calls)
  show ?case
  proof (cases "BindByIndex E s (i + 1) v w")
    case (Panic p)
    then show ?thesis using one by simp
  next
    case (Return r)
    obtain e w1 where r: "r = (e, w1)" by (cases r)
    have w1: "only_calls (on_handle (stmt s)) w w1"
      using one Return r by simp
    show ?thesis
    proof (cases e)
      case None
      then show ?thesis
        using Return r w1 Cons.IH [where i = "i + 1" and w = w1] by (auto intro: only_calls_trans)
    next
      case (Some err)
      then show ?thesis using Return r w1 by simp
    qed
  qed
qed

lemma BindParameterCount_stmt [simp]:
  "stmt (fst (snd (BindParameterCount E s w))) = stmt s"
  "c (fst (snd (BindParameterCount E s w))) = c s"
  "Cacheable (fst (snd (BindParameterCount E s w))) = Cacheable s"
  by (simp_all add: BindParameterCount_def native_cint_def)

lemma BindParameterCount_calls:
  "only_calls (on_handle (stmt s)) w (snd (snd (BindParameterCount E s w)))"
  by (simp add: BindParameterCount_def native_cint_def only_calls_one)

lemma Bind_calls:
  "only_calls (on_handle (stmt s)) w (world_of (snd \<circ> snd) (Bind E s args w))"
proof -
  obtain n s1 w1 where p: "BindParameterCount E s w = (n, s1, w1)"
    by (cases "BindParameterCount E s w")
  have "only_calls (on_handle (stmt s)) w (snd (snd (BindParameterCount E s w)))"
    by (rule BindParameterCount_calls)
  then have a: "only_calls (on_handle (stmt s)) w w1"
    using p by simp
  have "stmt (fst (snd (BindParameterCount E s w))) = stmt s"
    by simp
  then have s1: "stmt s1 = stmt s"
    using p by simp
  have b: "only_calls (on_handle (stmt s)) w1 (world_of snd (bind_args E s1 0 args w1))"
    using bind_args_calls [of s1 w1 E 0 args] s1 by simp
  have "only_calls (on_handle (stmt s)) w
          (world_of (snd \<circ> snd) (then_do (bind_args E s1 0 args w1) (\<lambda>(err, w2). Return (err, s1, w2))))"
    using only_calls_trans [OF a b]
    by (rule only_calls_then_do) (simp add: split_def)
  then show ?thesis
    using p a by (simp add: Bind_def)
qed

lemma Bind_stmt:
  "Bind E s args w = Return (e, s1, w1) \<Longrightarrow>
   stmt s1 = stmt s \<and> c s1 = c s \<and> Cacheable s1 = Cacheable s \<and> sql s1 = sql s"
  by (cases "bind_args E (fst (snd (BindParameterCount E s w))) 0 args
               (snd (snd (BindParameterCount E s w)))")
    (auto simp: Bind_def BindParameterCount_def native_cint_def split_def Let_def
      split: if_splits)

lemma exec_calls:
  "only_calls (on_handle (stmt s)) w (world_of snd (exec E s w))"
proof -
  have "only_calls (on_handle (stmt s)) w
          (w\<lparr>calls := calls w @ [OnStmt (stmt s) Step, OnStmt (stmt s) Reset]\<rparr>)"
    unfolding only_calls_append by simp
  then show ?thesis
    unfolding exec_def native_cint_def
    by (auto simp: split_def Let_def intro: only_calls_trans stmt_error_calls)
qed

lemma Exec_calls:
  "only_calls (on_handle (stmt s)) w (world_of (snd \<circ> snd) (Exec E s args w))"
proof (cases "Bind E s args w")
  case (Panic p)
  then show ?thesis using Bind_calls [of s w E args] by (simp add: Exec_def)
next
  case (Return r)
  obtain e s1 w1 where r: "r = (e, s1, w1)" by (cases r)
  have a: "only_calls (on_handle (stmt s)) w w1"
    using Bind_calls [of s w E args] Return r by simp
  have s1: "stmt s1 = stmt s"
    using Bind_stmt Return r by blast
  have b: "only_calls (on_handle (stmt s)) w1 (world_of snd (exec E s1 w1))"
    using exec_calls [of s1 w1 E] s1 by simp
  have "only_calls (on_handle (stmt s)) w
          (world_of (snd \<circ> snd) (then_do (exec E s1 w1) (\<lambda>(err, w2). Return (err, s1, w2))))"
    using only_calls_trans [OF a b]
    by (rule only_calls_then_do) (simp add: split_def)
  then show ?thesis
    using Return r a by (cases e) (simp_all add: Exec_def)
qed

lemma Exec_stmt:
  "Exec E s args w = Return (e, s1, w1) \<Longrightarrow> stmt s1 = stmt s \<and> c s1 = c s"
  by (cases "Bind E s args w")
    (auto simp: Exec_def then_do_def split_def dest: Bind_stmt
      split: option.splits outcome.splits)

lemma ExecDml_calls:
  "only_calls not_rowid_call w (world_of (snd \<circ> snd) (ExecDml E s args w))"
proof (cases "Exec E s args w")
  case (Panic p)
  have "only_calls not_rowid_call w (world_of (snd \<circ> snd) (Exec E s args w))"
    using Exec_calls [of s w E args] by (rule only_calls_mono) (rule on_handle_not_rowid)
  then show ?thesis using Panic by (simp add: ExecDml_def)
next
  case (Return r)
  obtain e s1 w1 where r: "r = (e, s1, w1)" by (cases r)
  have "only_calls not_rowid_call w (world_of (snd \<circ> snd) (Exec E s args w))"
    using Exec_calls [of s w E args] by (rule only_calls_mono) (rule on_handle_not_rowid)
  then have a: "only_calls not_rowid_call w w1"
    using Return r by simp
  have b: "only_calls not_rowid_call w1 (w1\<lparr>calls := calls w1 @ [Changes d]\<rparr>)" for d
    by (rule only_calls_one) simp
  show ?thesis
    using Return r a only_calls_trans [OF a b]
    by (cases e; cases "c s1")
      (simp_all add: ExecDml_def Conn_Changes_def native_cint_def split_def Let_def)
qed

lemma ExecDml_connection:
  "ExecDml E s args w = Return ((n, None), s1, w1) \<Longrightarrow> \<exists>k. c s1 = Some k"
  by (cases "Exec E s args w"; cases "c s1")
    (auto simp: ExecDml_def Conn_Changes_def native_cint_def split_def Let_def
      split: option.splits)

lemma Insert_cases:
  "ExecDml E s args w = Return ((n, e), s1, w1) \<Longrightarrow> c s1 = Some k \<Longrightarrow>
   Insert E s args w =
     (if e \<noteq> None then Return ((- 1, e), s1, w1)
      else if n = 0 then Return ((- 1, None), s1, w1)
      else Return ((r_int64 E (calls w1) (Last_insert_rowid (db (conns w1 k))), None), s1,
            w1\<lparr>calls := calls w1 @ [Last_insert_rowid (db (conns w1 k))]\<rparr>))"
  by (cases e) (simp_all add: Insert_def Conn_LastInsertRowid_def native_int64_def)

lemma Insert_failed:
  "ExecDml E s args w = Return ((n, Some err), s1, w1) \<Longrightarrow>
   Insert E s args w = Return ((- 1, Some err), s1, w1)"
  by (simp add: Insert_def)

lemma Insert_no_change:
  "ExecDml E s args w = Return ((0, None), s1, w1) \<Longrightarrow>
   Insert E s args w = Return ((- 1, None), s1, w1)"
  by (simp add: Insert_def)

lemma Insert_panic:
  "ExecDml E s args w = Panic p \<Longrightarrow> Insert E s args w = Panic p"
  by (simp add: Insert_def)

text \<open>
  C10. Let \<open>ExecDml\<close> return the change count \<open>n\<close> and the error \<open>e\<close>. None of the native
  calls it made is \<open>sqlite3_last_insert_rowid\<close>. When the execution succeeded and \<open>n\<close> is
  zero, \<open>Insert\<close> returns rowid -1 and no error and makes no further call, so the
  rowid accessor is not consulted. When \<open>n\<close> is not zero, \<open>Insert\<close> makes exactly one more
  call, \<open>sqlite3_last_insert_rowid\<close> on the connection of the statement, and returns its
  answer. When the execution failed, \<open>Insert\<close> returns -1 and the error. And when \<open>ExecDml\<close>
  panics, so does \<open>Insert\<close>, in the same world, where the rowid accessor has not been
  called either.
\<close>

theorem C10_insert_rowid:
  "(ExecDml E s args w = Return ((n, e), s1, w1) \<longrightarrow>
     only_calls not_rowid_call w w1
     \<and> (e = None \<and> n = 0 \<longrightarrow>
          Insert E s args w = Return ((- 1, None), s1, w1)
          \<and> only_calls not_rowid_call w (world_of (snd \<circ> snd) (Insert E s args w)))
     \<and> (e = None \<and> n \<noteq> 0 \<longrightarrow>
          (\<exists>k. c s1 = Some k
            \<and> Insert E s args w =
                Return ((r_int64 E (calls w1) (Last_insert_rowid (db (conns w1 k))), None), s1,
                        w1\<lparr>calls := calls w1 @ [Last_insert_rowid (db (conns w1 k))]\<rparr>)))
     \<and> (e \<noteq> None \<longrightarrow> Insert E s args w = Return ((- 1, e), s1, w1)))
   \<and> (ExecDml E s args w = Panic p \<longrightarrow>
        Insert E s args w = Panic p \<and> only_calls not_rowid_call w p)"
proof (intro conjI impI)
  assume d: "ExecDml E s args w = Return ((n, e), s1, w1)"
  have "only_calls not_rowid_call w (world_of (snd \<circ> snd) (ExecDml E s args w))"
    by (rule ExecDml_calls)
  then show a: "only_calls not_rowid_call w w1"
    using d by simp
  {
    assume "e = None \<and> n = 0"
    then show "Insert E s args w = Return ((- 1, None), s1, w1)"
      using d Insert_no_change by blast
    then show "only_calls not_rowid_call w (world_of (snd \<circ> snd) (Insert E s args w))"
      using a by simp
  }
  {
    assume h: "e = None \<and> n \<noteq> 0"
    then obtain k where k: "c s1 = Some k"
      using d ExecDml_connection by blast
    show "\<exists>k. c s1 = Some k
            \<and> Insert E s args w =
                Return ((r_int64 E (calls w1) (Last_insert_rowid (db (conns w1 k))), None), s1,
                        w1\<lparr>calls := calls w1 @ [Last_insert_rowid (db (conns w1 k))]\<rparr>)"
      using Insert_cases [OF d k] h k by simp
  }
  {
    assume "e \<noteq> None"
    then show "Insert E s args w = Return ((- 1, e), s1, w1)"
      using d Insert_failed by (cases e) auto
  }
next
  assume d: "ExecDml E s args w = Panic p"
  show "Insert E s args w = Panic p"
    using d by (rule Insert_panic)
  have "only_calls not_rowid_call w (world_of (snd \<circ> snd) (ExecDml E s args w))"
    by (rule ExecDml_calls)
  then show "only_calls not_rowid_call w p"
    using d by simp
qed

theorem C10_insert_rowid_witness:
  "Insert (step_engine 101 0) stmt0 [] world0 =
     Return ((- 1, None), stmt0\<lparr>bindParameterCount := 0\<rparr>,
      world0\<lparr>calls := [OnStmt (Some 7) Bind_parameter_count, OnStmt (Some 7) Step,
                        OnStmt (Some 7) Reset, Changes (Some 1)]\<rparr>)
   \<and> Insert (step_engine 101 1) stmt0 [] world0 =
     Return ((42, None), stmt0\<lparr>bindParameterCount := 0\<rparr>,
      world0\<lparr>calls := [OnStmt (Some 7) Bind_parameter_count, OnStmt (Some 7) Step,
                        OnStmt (Some 7) Reset, Changes (Some 1), Last_insert_rowid (Some 1)]\<rparr>)
   \<and> Insert (step_engine 5 0) (stmt0\<lparr>c := None\<rparr>) [] world0 =
     Panic (world0\<lparr>calls := [OnStmt (Some 7) Bind_parameter_count, OnStmt (Some 7) Step,
                        OnStmt (Some 7) Reset]\<rparr>)"
proof -
  let ?w1 = "world0\<lparr>calls := [OnStmt (Some 7) Bind_parameter_count, OnStmt (Some 7) Step,
                        OnStmt (Some 7) Reset, Changes (Some 1)]\<rparr>"
  let ?p = "world0\<lparr>calls := [OnStmt (Some 7) Bind_parameter_count, OnStmt (Some 7) Step,
                        OnStmt (Some 7) Reset]\<rparr>"
  let ?s1 = "stmt0\<lparr>bindParameterCount := 0\<rparr>"
  have d0: "ExecDml (step_engine 101 0) stmt0 [] world0 = Return ((0, None), ?s1, ?w1)"
    by (simp add: ExecDml_def Exec_def Bind_def BindParameterCount_def exec_def Conn_Changes_def
        native_cint_def step_engine_def stmt0_def world0_def Done_def)
  have d1: "ExecDml (step_engine 101 1) stmt0 [] world0 = Return ((1, None), ?s1, ?w1)"
    by (simp add: ExecDml_def Exec_def Bind_def BindParameterCount_def exec_def Conn_Changes_def
        native_cint_def step_engine_def stmt0_def world0_def Done_def)
  have d2: "ExecDml (step_engine 5 0) (stmt0\<lparr>c := None\<rparr>) [] world0 = Panic ?p"
    by (simp add: ExecDml_def Exec_def Bind_def BindParameterCount_def exec_def stmt_error_def
        native_cint_def step_engine_def stmt0_def world0_def Done_def SQLITE_OK_def)
  have i0: "Insert (step_engine 101 0) stmt0 [] world0 = Return ((- 1, None), ?s1, ?w1)"
    using C10_insert_rowid [where E = "step_engine 101 0" and s = stmt0 and args = "[]"
        and w = world0 and n = 0 and e = None and ?s1.0 = ?s1 and ?w1.0 = ?w1] d0
    by simp
  have i1: "\<exists>k. c ?s1 = Some k \<and> Insert (step_engine 101 1) stmt0 [] world0 =
      Return ((r_int64 (step_engine 101 1) (calls ?w1) (Last_insert_rowid (db (conns ?w1 k))), None),
        ?s1, ?w1\<lparr>calls := calls ?w1 @ [Last_insert_rowid (db (conns ?w1 k))]\<rparr>)"
    using C10_insert_rowid [where E = "step_engine 101 1" and s = stmt0 and args = "[]"
        and w = world0 and n = 1 and e = None and ?s1.0 = ?s1 and ?w1.0 = ?w1] d1
    by simp
  have i2: "Insert (step_engine 5 0) (stmt0\<lparr>c := None\<rparr>) [] world0 = Panic ?p"
    using C10_insert_rowid [where E = "step_engine 5 0" and s = "stmt0\<lparr>c := None\<rparr>"
        and args = "[]" and w = world0 and p = ?p] d2
    by simp
  show ?thesis
    using i0 i1 i2 by (auto simp: step_engine_def stmt0_def world0_def)
qed

section \<open>Properties of binding\<close>

lemma bind_rv_OK:
  "r_cint E (calls w) (OnStmt (stmt s) op) = SQLITE_OK \<Longrightarrow>
   bind_rv E s op w = Return (None, w\<lparr>calls := calls w @ [OnStmt (stmt s) op]\<rparr>)"
  by (simp add: bind_rv_def native_cint_def)

lemma bind_rv_error:
  "r_cint E (calls w) (OnStmt (stmt s) op) = rv \<Longrightarrow> rv \<noteq> SQLITE_OK \<Longrightarrow> c s = Some k \<Longrightarrow>
   bind_rv E s op w =
     Return (Some (NativeEngineError s rv
                (GoString (r_ptr E (calls w @ [OnStmt (stmt s) op]) (Errmsg (db (conns w k)))))
                ''Stmt.Bind''),
             w\<lparr>calls := calls w @ [OnStmt (stmt s) op, Errmsg (db (conns w k))]\<rparr>)"
  by (simp add: bind_rv_def native_cint_def stmt_error_connection)

lemma bind_rv_first:
  "first_call w (world_of snd (bind_rv E s op w)) = Some (OnStmt (stmt s) op)"
  by (simp add: bind_rv_def native_cint_def stmt_error_def native_ptr_def split: option.split)

lemma BindByIndex_string:
  "BindByIndex E s i (HString v) w =
     bind_rv E s (if NullIfEmptyString w \<and> length v = 0 then Bind_null (ucast i)
                  else Bind_text (ucast i) v (of_nat (length v))) w"
  by (simp add: cstring_def)

lemma text_length_cint:
  assumes "length v < 2 ^ 31"
  shows "0 \<le>s (of_nat (length v) :: cint) \<and> unat (of_nat (length v) :: cint) = length v"
proof -
  have lt: "length v < 2 ^ 32" using assms by simp
  have u: "unat (of_nat (length v) :: cint) = length v"
    using lt by (simp add: unat_of_nat take_bit_nat_eq_self)
  have "sint (of_nat (length v) :: cint) = int (length v)"
    using assms by (simp add: signed_of_nat signed_take_bit_int_eq_self)
  then have "0 \<le>s (of_nat (length v) :: cint)"
    by (simp add: word_sle_eq)
  then show ?thesis using u by simp
qed

text \<open>
  C8. For a host value of type \<open>string\<close>, the first native call of \<open>BindByIndex\<close> is
  \<open>sqlite3_bind_null\<close> when \<open>NullIfEmptyString\<close> is set and the string has length zero, and
  otherwise \<open>sqlite3_bind_text\<close> with the bytes of the string and its byte length. So in
  the first case the parameter holds Null, and in the second (for a length that fits a C
  \<open>int\<close>) it holds the Text with exactly these bytes: with the policy cleared, the empty
  string is bound as a Text of length 0. This holds whether \<open>BindByIndex\<close> then returns or
  panics.
\<close>

theorem C8_bind_string:
  "first_call w (world_of snd (BindByIndex E s i (HString v) w)) =
     Some (OnStmt (stmt s)
            (if NullIfEmptyString w \<and> length v = 0 then Bind_null (ucast i)
             else Bind_text (ucast i) v (of_nat (length v))))
   \<and> (NullIfEmptyString w \<and> length v = 0 \<longrightarrow>
        bound_value w (world_of snd (BindByIndex E s i (HString v) w)) = Some SNull)
   \<and> (\<not> (NullIfEmptyString w \<and> length v = 0) \<and> length v < 2 ^ 31 \<longrightarrow>
        bound_value w (world_of snd (BindByIndex E s i (HString v) w)) = Some (SText v))
   \<and> class_of SNull = Null \<and> class_of (SText v) = Text"
  using text_length_cint [of v]
  by (simp add: BindByIndex_string bind_rv_first bound_value_def del: BindByIndex.simps)

theorem C8_bind_string_witness:
  "bound_value world0 (world_of snd (BindByIndex ok_engine stmt0 1 (HString []) world0)) = Some SNull
   \<and> bound_value (world0\<lparr>NullIfEmptyString := False\<rparr>)
        (world_of snd
           (BindByIndex ok_engine stmt0 1 (HString []) (world0\<lparr>NullIfEmptyString := False\<rparr>)))
       = Some (SText [])
   \<and> length ([] :: string) = 0
   \<and> bound_value world0 (world_of snd (BindByIndex ok_engine stmt0 1 (HString ''abc'') world0))
       = Some (SText ''abc'')"
  using C8_bind_string [of world0 ok_engine stmt0 1 "[]"]
    C8_bind_string [of "world0\<lparr>NullIfEmptyString := False\<rparr>" ok_engine stmt0 1 "[]"]
    C8_bind_string [of world0 ok_engine stmt0 1 "''abc''"]
  by (simp add: world0_def del: BindByIndex.simps)

text \<open>
  The integer cases of \<open>BindByIndex\<close>: an \<open>int64\<close> and the sized signed integers are stored
  whole, an unsigned value above \<open>MaxInt64\<close> is refused before any native call, an unsigned
  value within range is stored whole, and an \<open>int\<close> is stored after conversion to a C
  \<open>int\<close>, that is cut to its low 32 bits and sign-extended.
\<close>

lemma BindByIndex_int64:
  "bound_value w (world_of snd (BindByIndex E s i (HInt64 v) w)) = Some (SInteger v)"
  by (simp add: bind_rv_first bound_value_def)

lemma BindByIndex_sized_signed:
  "bound_value w (world_of snd (BindByIndex E s i (HInt8 a) w)) = Some (SInteger (scast a))"
  "bound_value w (world_of snd (BindByIndex E s i (HInt16 b) w)) = Some (SInteger (scast b))"
  "bound_value w (world_of snd (BindByIndex E s i (HInt32 d) w)) = Some (SInteger (scast d))"
  by (simp_all add: BindReflect_def bind_rv_first bound_value_def)

lemma BindReflect_uint:
  "BindReflect E s i t (RUint ui) w =
     (if ui > MaxInt64 then Return (Some (IntegerOverflow s), w)
      else bind_rv E s (Bind_int64 (ucast i) ui) w)"
  by (simp add: BindReflect_def)

lemma BindByIndex_unsigned_overflow:
  "v > MaxInt64 \<Longrightarrow> BindByIndex E s i (HUint v) w = Return (Some (IntegerOverflow s), w)"
  "v > MaxInt64 \<Longrightarrow> BindByIndex E s i (HUint64 v) w = Return (Some (IntegerOverflow s), w)"
  "v > MaxInt64 \<Longrightarrow> BindByIndex E s i (HUintptr v) w = Return (Some (IntegerOverflow s), w)"
  by (simp_all add: BindReflect_uint)

lemma BindByIndex_unsigned_in_range:
  "v \<le> MaxInt64 \<Longrightarrow>
   bound_value w (world_of snd (BindByIndex E s i (HUint v) w)) = Some (SInteger v)"
  "v \<le> MaxInt64 \<Longrightarrow>
   bound_value w (world_of snd (BindByIndex E s i (HUint64 v) w)) = Some (SInteger v)"
  "v \<le> MaxInt64 \<Longrightarrow>
   bound_value w (world_of snd (BindByIndex E s i (HUintptr v) w)) = Some (SInteger v)"
  by (simp_all add: BindReflect_uint bind_rv_first bound_value_def leD)

lemma BindByIndex_int:
  "bound_value w (world_of snd (BindByIndex E s i (HInt v) w))
     = Some (SInteger (scast (ucast v :: cint)))"
  by (simp add: bind_rv_first bound_value_def)

text \<open>
  C4, at the host value \<open>int(4294967301)\<close>, which is \<open>2 ^ 32 + 5\<close>: \<open>BindByIndex\<close> calls
  \<open>sqlite3_bind_int\<close> with \<open>C.int(value)\<close>, which is 5, and reports no error, so the
  parameter holds the Integer 5 and not the value bound. The same number in a named type
  of kind \<open>Int\<close> takes the path through \<open>BindReflect\<close> and is bound whole with
  \<open>sqlite3_bind_int64\<close>.
\<close>

theorem C4_int_truncated:
  "BindByIndex ok_engine stmt0 1 (HInt 4294967301) world0 =
     Return (None, world0\<lparr>calls := [OnStmt (Some 7) (Bind_int 1 5)]\<rparr>)
   \<and> bound_value world0 (world_of snd (BindByIndex ok_engine stmt0 1 (HInt 4294967301) world0))
       = Some (SInteger 5)
   \<and> SInteger 5 \<noteq> SInteger 4294967301
   \<and> BindByIndex ok_engine stmt0 1 (HNamed ''main.MyInt'' (RInt 4294967301)) world0 =
     Return (None, world0\<lparr>calls := [OnStmt (Some 7) (Bind_int64 1 4294967301)]\<rparr>)"
  by (simp add: bind_rv_OK ok_engine_def SQLITE_OK_def bound_value_def BindReflect_def
      first_call_def new_calls_def stmt0_def world0_def)

section \<open>Properties of finalizing\<close>

lemma finalize_nil_handle:
  "stmt s = None \<Longrightarrow> finalize E (Some s) w = Return (None, Some s, w)"
  by (simp add: finalize_def)

lemma finalize_closed:
  "stmt s \<noteq> None \<Longrightarrow> conn_closed s w \<Longrightarrow>
   finalize E (Some s) w =
     Return (Some ClosedConnection, Some s,
       w\<lparr>calls := calls w @ [Sqlite3_log SQLITE_MISUSE
            ''sqlite statement with already closed database connection'']\<rparr>)"
  by (auto simp: finalize_def Log_def)

lemma finalize_live_OK:
  "stmt s \<noteq> None \<Longrightarrow> \<not> conn_closed s w \<Longrightarrow>
   r_cint E (calls w) (OnStmt (stmt s) Finalize_stmt) = SQLITE_OK \<Longrightarrow>
   finalize E (Some s) w =
     Return (None, Some (s\<lparr>stmt := None\<rparr>), w\<lparr>calls := calls w @ [OnStmt (stmt s) Finalize_stmt]\<rparr>)"
  by (auto simp: finalize_def native_cint_def)

lemma finalize_live_error:
  "stmt s \<noteq> None \<Longrightarrow> c s = Some k \<Longrightarrow> db (conns w k) \<noteq> None \<Longrightarrow>
   r_cint E (calls w) (OnStmt (stmt s) Finalize_stmt) = rv \<Longrightarrow> rv \<noteq> SQLITE_OK \<Longrightarrow>
   finalize E (Some s) w =
     Return (Some (NativeEngineError s rv
                (GoString (r_ptr E (calls w @ [OnStmt (stmt s) Finalize_stmt,
                                               Sqlite3_log rv ''error while finalizing Stmt''])
                             (Errmsg (db (conns w k)))))
                ''Stmt.finalize''),
             Some s,
             w\<lparr>calls := calls w @ [OnStmt (stmt s) Finalize_stmt,
                                     Sqlite3_log rv ''error while finalizing Stmt'',
                                     Errmsg (db (conns w k))]\<rparr>)"
  by (auto simp: finalize_def conn_closed_def native_cint_def Log_def stmt_error_connection)

lemma finalize_live_first:
  "stmt s \<noteq> None \<Longrightarrow> \<not> conn_closed s w \<Longrightarrow>
   first_call w (world_of (snd \<circ> snd) (finalize E (Some s) w)) = Some (OnStmt (stmt s) Finalize_stmt)"
  by (auto simp: finalize_def conn_closed_def Log_def native_cint_def native_ptr_def stmt_error_def
      Let_def split_def first_call_def new_calls_def split: option.splits)

lemma finalize_success:
  assumes "finalize E (Some s) w = Return (None, Some s', w')" and "stmt s \<noteq> None"
  shows "s' = s\<lparr>stmt := None\<rparr> \<and> w' = w\<lparr>calls := calls w @ [OnStmt (stmt s) Finalize_stmt]\<rparr>
         \<and> \<not> conn_closed s w
         \<and> r_cint E (calls w) (OnStmt (stmt s) Finalize_stmt) = SQLITE_OK"
  using assms
  by (auto simp: finalize_def conn_closed_def Log_def native_cint_def native_ptr_def stmt_error_def
      Let_def split_def split: if_splits option.splits)

lemma finalize_never_panics:
  "\<exists>r. finalize E sp w = Return r"
  by (cases sp)
    (auto simp: finalize_def conn_closed_def Log_def native_cint_def native_ptr_def stmt_error_def
      Let_def split_def split: option.splits)

lemma Finalize_not_cached:
  "\<not> Cacheable s \<or> conn_closed s w \<Longrightarrow> Finalize K E (Some s) w = finalize E (Some s) w"
  by (auto simp: Finalize_def conn_closed_def split: option.splits)

lemma Finalize_cached:
  "Cacheable s \<Longrightarrow> c s = Some k \<Longrightarrow> db (conns w k) \<noteq> None \<Longrightarrow>
   Finalize K E (Some s) w = release K k s w"
  by (simp add: Finalize_def)

lemma Reset_calls:
  "only_calls (on_handle (stmt s)) w (world_of snd (Reset_stmt E s w))"
proof -
  have "only_calls (on_handle (stmt s)) w (w\<lparr>calls := calls w @ [OnStmt (stmt s) Reset]\<rparr>)"
    by (rule only_calls_one) simp
  then show ?thesis
    unfolding Reset_stmt_def native_cint_def
    by (auto simp: split_def Let_def intro: only_calls_trans stmt_error_calls)
qed

lemma ClearBindings_calls:
  "only_calls (on_handle (stmt s)) w (world_of snd (ClearBindings E s w))"
proof -
  have "only_calls (on_handle (stmt s)) w (w\<lparr>calls := calls w @ [OnStmt (stmt s) Clear_bindings]\<rparr>)"
    by (rule only_calls_one) simp
  then show ?thesis
    unfolding ClearBindings_def native_cint_def
    by (auto simp: split_def Let_def intro: only_calls_trans stmt_error_calls)
qed

lemma Bind_cached_arity:
  "bindParameterCount s \<noteq> - 1 \<Longrightarrow> bindParameterCount s \<noteq> of_nat (length args) \<Longrightarrow>
   Bind E s args w =
     Return (Some (ArityMismatch s ''Stmt.Bind'' (of_nat (length args)) (bindParameterCount s)), s, w)"
  by (simp add: Bind_def BindParameterCount_def)

text \<open>
  C9, as amended. When \<open>finalize\<close> has destroyed the native handle of a statement (it
  returned no error on a statement whose handle was not nil), \<open>sqlite3_finalize\<close> answered
  \<open>SQLITE_OK\<close> to the one call made, and the only mark left is that the handle field is
  nil. No later operation checks that mark and there is no error for use after
  finalization: a further \<open>finalize\<close>, and \<open>Finalize\<close> on a statement that is not cacheable
  or whose connection is closed, return no error and make no native call;
  \<open>BindParameterCount\<close> and \<open>ColumnCount\<close> still return a cached count; \<open>Bind\<close> with a
  cached count other than the number of arguments returns the argument-count error with
  no native call; every native call of \<open>Next\<close>, \<open>BindByIndex\<close>, \<open>Bind\<close>, \<open>Exec\<close>, \<open>Reset\<close> and
  \<open>ClearBindings\<close> is on the nil handle or is \<open>sqlite3_errmsg\<close>; \<open>Next\<close> hands the nil handle
  to \<open>sqlite3_step\<close> and returns what the engine's answer makes it return, true on \<open>Row\<close>, a
  wrapped native error on \<open>SQLITE_MISUSE\<close>. And when \<open>sqlite3_finalize\<close> answers an error
  code, \<open>finalize\<close> logs it and returns it wrapped, and the handle field stays as it was.
\<close>

theorem C9_after_finalize:
  "(finalize E (Some s) w = Return (None, Some s', w') \<and> stmt s \<noteq> None \<longrightarrow>
     r_cint E (calls w) (OnStmt (stmt s) Finalize_stmt) = SQLITE_OK
     \<and> s' = s\<lparr>stmt := None\<rparr>
     \<and> w' = w\<lparr>calls := calls w @ [OnStmt (stmt s) Finalize_stmt]\<rparr>
     \<and> finalize E (Some s') v = Return (None, Some s', v)
     \<and> (\<not> Cacheable s' \<or> conn_closed s' v \<longrightarrow>
          Finalize K E (Some s') v = Return (None, Some s', v))
     \<and> (bindParameterCount s' \<noteq> - 1 \<longrightarrow>
          BindParameterCount E s' v = (bindParameterCount s', s', v))
     \<and> (columnCount s' \<noteq> - 1 \<longrightarrow> ColumnCount E s' v = (columnCount s', s', v))
     \<and> (bindParameterCount s' \<noteq> - 1 \<and> bindParameterCount s' \<noteq> of_nat (length args) \<longrightarrow>
          Bind E s' args v =
            Return (Some (ArityMismatch s' ''Stmt.Bind'' (of_nat (length args))
                            (bindParameterCount s')), s', v))
     \<and> only_calls (on_handle None) v (world_of snd (Next E s' v))
     \<and> only_calls (on_handle None) v (world_of snd (BindByIndex E s' i x v))
     \<and> only_calls (on_handle None) v (world_of (snd \<circ> snd) (Bind E s' args v))
     \<and> only_calls (on_handle None) v (world_of (snd \<circ> snd) (Exec E s' args v))
     \<and> only_calls (on_handle None) v (world_of snd (Reset_stmt E s' v))
     \<and> only_calls (on_handle None) v (world_of snd (ClearBindings E s' v))
     \<and> first_call v (world_of snd (Next E s' v)) = Some (OnStmt None Step)
     \<and> (r_cint E (calls v) (OnStmt None Step) = Row \<longrightarrow>
          Next E s' v = Return ((True, None), v\<lparr>calls := calls v @ [OnStmt None Step]\<rparr>))
     \<and> (r_cint E (calls v) (OnStmt None Step) = SQLITE_MISUSE \<longrightarrow>
          (\<exists>m u. Next E s' v =
             Return ((False, Some (NativeEngineError s' SQLITE_MISUSE m ''Stmt.Next'')), u))))
   \<and> (stmt s \<noteq> None \<and> c s = Some k \<and> db (conns w k) \<noteq> None
        \<and> r_cint E (calls w) (OnStmt (stmt s) Finalize_stmt) = rv \<and> rv \<noteq> SQLITE_OK \<longrightarrow>
        (\<exists>m. finalize E (Some s) w =
           Return (Some (NativeEngineError s rv m ''Stmt.finalize''), Some s,
             w\<lparr>calls := calls w @ [OnStmt (stmt s) Finalize_stmt,
                                     Sqlite3_log rv ''error while finalizing Stmt'',
                                     Errmsg (db (conns w k))]\<rparr>)))"
proof (rule conjI)
  show "finalize E (Some s) w = Return (None, Some s', w') \<and> stmt s \<noteq> None \<longrightarrow>
     r_cint E (calls w) (OnStmt (stmt s) Finalize_stmt) = SQLITE_OK
     \<and> s' = s\<lparr>stmt := None\<rparr>
     \<and> w' = w\<lparr>calls := calls w @ [OnStmt (stmt s) Finalize_stmt]\<rparr>
     \<and> finalize E (Some s') v = Return (None, Some s', v)
     \<and> (\<not> Cacheable s' \<or> conn_closed s' v \<longrightarrow>
          Finalize K E (Some s') v = Return (None, Some s', v))
     \<and> (bindParameterCount s' \<noteq> - 1 \<longrightarrow>
          BindParameterCount E s' v = (bindParameterCount s', s', v))
     \<and> (columnCount s' \<noteq> - 1 \<longrightarrow> ColumnCount E s' v = (columnCount s', s', v))
     \<and> (bindParameterCount s' \<noteq> - 1 \<and> bindParameterCount s' \<noteq> of_nat (length args) \<longrightarrow>
          Bind E s' args v =
            Return (Some (ArityMismatch s' ''Stmt.Bind'' (of_nat (length args))
                            (bindParameterCount s')), s', v))
     \<and> only_calls (on_handle None) v (world_of snd (Next E s' v))
     \<and> only_calls (on_handle None) v (world_of snd (BindByIndex E s' i x v))
     \<and> only_calls (on_handle None) v (world_of (snd \<circ> snd) (Bind E s' args v))
     \<and> only_calls (on_handle None) v (world_of (snd \<circ> snd) (Exec E s' args v))
     \<and> only_calls (on_handle None) v (world_of snd (Reset_stmt E s' v))
     \<and> only_calls (on_handle None) v (world_of snd (ClearBindings E s' v))
     \<and> first_call v (world_of snd (Next E s' v)) = Some (OnStmt None Step)
     \<and> (r_cint E (calls v) (OnStmt None Step) = Row \<longrightarrow>
          Next E s' v = Return ((True, None), v\<lparr>calls := calls v @ [OnStmt None Step]\<rparr>))
     \<and> (r_cint E (calls v) (OnStmt None Step) = SQLITE_MISUSE \<longrightarrow>
          (\<exists>m u. Next E s' v =
             Return ((False, Some (NativeEngineError s' SQLITE_MISUSE m ''Stmt.Next'')), u)))"
  proof
    assume a: "finalize E (Some s) w = Return (None, Some s', w') \<and> stmt s \<noteq> None"
    then have eq: "s' = s\<lparr>stmt := None\<rparr>
        \<and> w' = w\<lparr>calls := calls w @ [OnStmt (stmt s) Finalize_stmt]\<rparr>
        \<and> \<not> conn_closed s w
        \<and> r_cint E (calls w) (OnStmt (stmt s) Finalize_stmt) = SQLITE_OK"
      using finalize_success [of E s w s' w'] by simp
    then have nil: "stmt s' = None" by simp
    obtain k' where k': "c s' = Some k'"
      using eq by (cases "c s") (auto simp: conn_closed_def)
    have f: "finalize E (Some s') v = Return (None, Some s', v)"
      using nil by (rule finalize_nil_handle)
    have F: "\<not> Cacheable s' \<or> conn_closed s' v \<longrightarrow>
        Finalize K E (Some s') v = Return (None, Some s', v)"
      using Finalize_not_cached [of s' v K E] f by simp
    have b: "bindParameterCount s' \<noteq> - 1 \<and> bindParameterCount s' \<noteq> of_nat (length args) \<longrightarrow>
          Bind E s' args v =
            Return (Some (ArityMismatch s' ''Stmt.Bind'' (of_nat (length args))
                            (bindParameterCount s')), s', v)"
      using Bind_cached_arity [of s' args E v] by simp
    have c1: "only_calls (on_handle None) v (world_of snd (Next E s' v))"
      using Next_calls [of s' v E] nil by simp
    have c2: "only_calls (on_handle None) v (world_of snd (BindByIndex E s' i x v))"
      using BindByIndex_calls [of s' v E i x] nil by simp
    have c3: "only_calls (on_handle None) v (world_of (snd \<circ> snd) (Bind E s' args v))"
      using Bind_calls [of s' v E args] nil by simp
    have c4: "only_calls (on_handle None) v (world_of (snd \<circ> snd) (Exec E s' args v))"
      using Exec_calls [of s' v E args] nil by simp
    have c5: "only_calls (on_handle None) v (world_of snd (Reset_stmt E s' v))"
      using Reset_calls [of s' v E] nil by simp
    have c6: "only_calls (on_handle None) v (world_of snd (ClearBindings E s' v))"
      using ClearBindings_calls [of s' v E] nil by simp
    have n1: "first_call v (world_of snd (Next E s' v)) = Some (OnStmt None Step)"
      using nil
      by (simp add: Next_def native_cint_def native_ptr_def stmt_error_def Let_def split_def
          first_call_def new_calls_def split: option.split)
    have n2: "r_cint E (calls v) (OnStmt None Step) = Row \<longrightarrow>
          Next E s' v = Return ((True, None), v\<lparr>calls := calls v @ [OnStmt None Step]\<rparr>)"
      using nil Next_Row [of E v s'] by simp
    have n3: "r_cint E (calls v) (OnStmt None Step) = SQLITE_MISUSE \<longrightarrow>
          (\<exists>m u. Next E s' v =
             Return ((False, Some (NativeEngineError s' SQLITE_MISUSE m ''Stmt.Next'')), u))"
      using nil k' Next_error [of E v s' SQLITE_MISUSE k']
      by (simp add: SQLITE_MISUSE_def Row_def Done_def SQLITE_OK_def)
    show "r_cint E (calls w) (OnStmt (stmt s) Finalize_stmt) = SQLITE_OK
     \<and> s' = s\<lparr>stmt := None\<rparr>
     \<and> w' = w\<lparr>calls := calls w @ [OnStmt (stmt s) Finalize_stmt]\<rparr>
     \<and> finalize E (Some s') v = Return (None, Some s', v)
     \<and> (\<not> Cacheable s' \<or> conn_closed s' v \<longrightarrow>
          Finalize K E (Some s') v = Return (None, Some s', v))
     \<and> (bindParameterCount s' \<noteq> - 1 \<longrightarrow>
          BindParameterCount E s' v = (bindParameterCount s', s', v))
     \<and> (columnCount s' \<noteq> - 1 \<longrightarrow> ColumnCount E s' v = (columnCount s', s', v))
     \<and> (bindParameterCount s' \<noteq> - 1 \<and> bindParameterCount s' \<noteq> of_nat (length args) \<longrightarrow>
          Bind E s' args v =
            Return (Some (ArityMismatch s' ''Stmt.Bind'' (of_nat (length args))
                            (bindParameterCount s')), s', v))
     \<and> only_calls (on_handle None) v (world_of snd (Next E s' v))
     \<and> only_calls (on_handle None) v (world_of snd (BindByIndex E s' i x v))
     \<and> only_calls (on_handle None) v (world_of (snd \<circ> snd) (Bind E s' args v))
     \<and> only_calls (on_handle None) v (world_of (snd \<circ> snd) (Exec E s' args v))
     \<and> only_calls (on_handle None) v (world_of snd (Reset_stmt E s' v))
     \<and> only_calls (on_handle None) v (world_of snd (ClearBindings E s' v))
     \<and> first_call v (world_of snd (Next E s' v)) = Some (OnStmt None Step)
     \<and> (r_cint E (calls v) (OnStmt None Step) = Row \<longrightarrow>
          Next E s' v = Return ((True, None), v\<lparr>calls := calls v @ [OnStmt None Step]\<rparr>))
     \<and> (r_cint E (calls v) (OnStmt None Step) = SQLITE_MISUSE \<longrightarrow>
          (\<exists>m u. Next E s' v =
             Return ((False, Some (NativeEngineError s' SQLITE_MISUSE m ''Stmt.Next'')), u)))"
      using eq f F b c1 c2 c3 c4 c5 c6 n1 n2 n3
      by (simp add: BindParameterCount_def ColumnCount_def)
  qed
next
  show "stmt s \<noteq> None \<and> c s = Some k \<and> db (conns w k) \<noteq> None
        \<and> r_cint E (calls w) (OnStmt (stmt s) Finalize_stmt) = rv \<and> rv \<noteq> SQLITE_OK \<longrightarrow>
        (\<exists>m. finalize E (Some s) w =
           Return (Some (NativeEngineError s rv m ''Stmt.finalize''), Some s,
             w\<lparr>calls := calls w @ [OnStmt (stmt s) Finalize_stmt,
                                     Sqlite3_log rv ''error while finalizing Stmt'',
                                     Errmsg (db (conns w k))]\<rparr>))"
    using finalize_live_error [of s k w E rv] by blast
qed

text \<open>
  C9 as stated fails: the statement \<open>stmt0\<close> is finalized, which destroys its handle, and
  the next operation on it, a second \<open>finalize\<close>, returns no error.
\<close>

theorem C9_finalize_twice_counterexample:
  "finalize ok_engine (Some stmt0) world0 =
     Return (None, Some (stmt0\<lparr>stmt := None\<rparr>), world0\<lparr>calls := [OnStmt (Some 7) Finalize_stmt]\<rparr>)
   \<and> finalize ok_engine (Some (stmt0\<lparr>stmt := None\<rparr>))
        (world0\<lparr>calls := [OnStmt (Some 7) Finalize_stmt]\<rparr>) =
     Return (None, Some (stmt0\<lparr>stmt := None\<rparr>), world0\<lparr>calls := [OnStmt (Some 7) Finalize_stmt]\<rparr>)"
  by (simp add: finalize_def conn_closed_def native_cint_def ok_engine_def stmt0_def world0_def
      SQLITE_OK_def)

theorem C9_after_finalize_witness:
  "finalize misuse_engine (Some stmt0) world0 =
     Return (None, Some (stmt0\<lparr>stmt := None\<rparr>), world0\<lparr>calls := [OnStmt (Some 7) Finalize_stmt]\<rparr>)
   \<and> stmt stmt0 \<noteq> None
   \<and> finalize misuse_engine (Some (stmt0\<lparr>stmt := None\<rparr>)) world0
       = Return (None, Some (stmt0\<lparr>stmt := None\<rparr>), world0)
   \<and> Finalize (lru_cache misuse_engine) misuse_engine (Some (stmt0\<lparr>stmt := None\<rparr>)) world0
       = Return (None, Some (stmt0\<lparr>stmt := None\<rparr>), world0)
   \<and> Bind misuse_engine (stmt0\<lparr>stmt := None, bindParameterCount := 2\<rparr>) [HInt 1] world0
       = Return (Some (ArityMismatch (stmt0\<lparr>stmt := None, bindParameterCount := 2\<rparr>)
                         ''Stmt.Bind'' 1 2),
                 stmt0\<lparr>stmt := None, bindParameterCount := 2\<rparr>, world0)
   \<and> Next misuse_engine (stmt0\<lparr>stmt := None\<rparr>) world0 =
       Return ((False, Some (NativeEngineError (stmt0\<lparr>stmt := None\<rparr>) SQLITE_MISUSE
                               ''bad parameter or other API misuse'' ''Stmt.Next'')),
               world0\<lparr>calls := [OnStmt None Step, OnStmt None Reset, Errmsg (Some 1)]\<rparr>)
   \<and> finalize int_engine (Some stmt0) world0 =
       Return (Some (NativeEngineError stmt0 7 ''7'' ''Stmt.finalize''), Some stmt0,
         world0\<lparr>calls := [OnStmt (Some 7) Finalize_stmt,
                           Sqlite3_log 7 ''error while finalizing Stmt'', Errmsg (Some 1)]\<rparr>)"
proof -
  let ?s = "stmt0\<lparr>stmt := None\<rparr>"
  let ?t = "stmt0\<lparr>bindParameterCount := 2\<rparr>"
  let ?w = "world0\<lparr>calls := [OnStmt (Some 7) Finalize_stmt]\<rparr>"
  have a: "finalize misuse_engine (Some stmt0) world0 = Return (None, Some ?s, ?w)
     \<and> stmt stmt0 \<noteq> None"
    by (simp add: finalize_def conn_closed_def native_cint_def misuse_engine_def stmt0_def
        world0_def SQLITE_OK_def)
  have a2: "finalize misuse_engine (Some ?t) world0 =
      Return (None, Some (stmt0\<lparr>stmt := None, bindParameterCount := 2\<rparr>), ?w)
     \<and> stmt ?t \<noteq> None"
    by (simp add: finalize_def conn_closed_def native_cint_def misuse_engine_def stmt0_def
        world0_def SQLITE_OK_def)
  have b: "\<not> Cacheable ?s"
    by (simp add: stmt0_def)
  have m: "r_cint misuse_engine (calls world0) (OnStmt None Step) = SQLITE_MISUSE"
    by (simp add: misuse_engine_def SQLITE_MISUSE_def)
  have e: "stmt stmt0 \<noteq> None \<and> c stmt0 = Some 0 \<and> db (conns world0 0) \<noteq> None
      \<and> r_cint int_engine (calls world0) (OnStmt (stmt stmt0) Finalize_stmt) = 7
      \<and> (7 :: cint) \<noteq> SQLITE_OK"
    by (simp add: int_engine_def stmt0_def world0_def SQLITE_OK_def)
  have t: "bindParameterCount (stmt0\<lparr>stmt := None, bindParameterCount := 2\<rparr>) \<noteq> - 1
      \<and> bindParameterCount (stmt0\<lparr>stmt := None, bindParameterCount := 2\<rparr>)
          \<noteq> of_nat (length [HInt 1])"
    by simp
  have r1: "finalize misuse_engine (Some ?s) world0 = Return (None, Some ?s, world0)
      \<and> Finalize (lru_cache misuse_engine) misuse_engine (Some ?s) world0
           = Return (None, Some ?s, world0)
      \<and> (\<exists>m u. Next misuse_engine ?s world0 =
             Return ((False, Some (NativeEngineError ?s SQLITE_MISUSE m ''Stmt.Next'')), u))"
    using C9_after_finalize [where E = misuse_engine and s = stmt0 and w = world0
        and s' = ?s and w' = ?w and v = world0 and K = "lru_cache misuse_engine"] a b m
    by simp
  have r2: "Bind misuse_engine (stmt0\<lparr>stmt := None, bindParameterCount := 2\<rparr>) [HInt 1] world0
       = Return (Some (ArityMismatch (stmt0\<lparr>stmt := None, bindParameterCount := 2\<rparr>)
                         ''Stmt.Bind'' 1 2),
                 stmt0\<lparr>stmt := None, bindParameterCount := 2\<rparr>, world0)"
    using C9_after_finalize [where E = misuse_engine and s = ?t and w = world0
        and s' = "stmt0\<lparr>stmt := None, bindParameterCount := 2\<rparr>" and w' = ?w and v = world0
        and args = "[HInt 1]"] a2 t
    by simp
  have r3: "\<exists>m. finalize int_engine (Some stmt0) world0 =
       Return (Some (NativeEngineError stmt0 7 m ''Stmt.finalize''), Some stmt0,
         world0\<lparr>calls := calls world0 @ [OnStmt (stmt stmt0) Finalize_stmt,
                           Sqlite3_log 7 ''error while finalizing Stmt'',
                           Errmsg (db (conns world0 0))]\<rparr>)"
    using C9_after_finalize [where E = int_engine and s = stmt0 and w = world0 and k = 0
        and rv = 7] e
    by simp
  have n: "Next misuse_engine ?s world0 =
       Return ((False, Some (NativeEngineError ?s SQLITE_MISUSE
                               ''bad parameter or other API misuse'' ''Stmt.Next'')),
               world0\<lparr>calls := [OnStmt None Step, OnStmt None Reset, Errmsg (Some 1)]\<rparr>)"
    using r1
    by (simp add: Next_def native_cint_def native_ptr_def stmt_error_def misuse_engine_def
        GoString_def SQLITE_MISUSE_def SQLITE_OK_def Row_def Done_def stmt0_def world0_def)
  have f: "finalize int_engine (Some stmt0) world0 =
       Return (Some (NativeEngineError stmt0 7 ''7'' ''Stmt.finalize''), Some stmt0,
         world0\<lparr>calls := [OnStmt (Some 7) Finalize_stmt,
                           Sqlite3_log 7 ''error while finalizing Stmt'', Errmsg (Some 1)]\<rparr>)"
    using r3
    by (simp add: finalize_def conn_closed_def native_cint_def native_ptr_def stmt_error_def
        Log_def int_engine_def GoString_def SQLITE_OK_def stmt0_def world0_def)
  show ?thesis
    using a r1 r2 n f by simp
qed

section \<open>Properties of preparing and of the cache\<close>

text \<open>Binding, finalizing and compiling make native calls and leave the connections alone.\<close>

lemma stmt_error_conns [simp]:
  "conns (world_of snd (stmt_error E s rv d w)) = conns w"
  by (simp add: stmt_error_def native_ptr_def split: option.split)

lemma bind_rv_conns [simp]:
  "conns (world_of snd (bind_rv E s op w)) = conns w"
  using stmt_error_conns [of E s _ _ "w\<lparr>calls := calls w @ [OnStmt (stmt s) op]\<rparr>"]
  by (simp add: bind_rv_def native_cint_def)

lemma BindReflect_conns [simp]:
  "conns (world_of snd (BindReflect E s i t v w)) = conns w"
  by (cases v)
    (simp_all add: BindReflect_def cstring_def BindParameterName_def native_ptr_def split_def
      Let_def split: option.split)

lemma BindByIndex_conns [simp]:
  "conns (world_of snd (BindByIndex E s i v w)) = conns w"
  by (induction E s i v w rule: BindByIndex.induct) (simp_all add: cstring_def Let_def)

lemma bind_args_conns [simp]:
  "conns (world_of snd (bind_args E s i vs w)) = conns w"
proof (induction vs arbitrary: i w)
  case Nil
  show ?case by simp
next
  case (Cons v vs)
  have one: "conns (world_of snd (BindByIndex E s (i + 1) v w)) = conns w"
    by simp
  show ?case
  proof (cases "BindByIndex E s (i + 1) v w")
    case (Panic p)
    then show ?thesis using one by simp
  next
    case (Return r)
    obtain e w1 where r: "r = (e, w1)" by (cases r)
    show ?thesis
      using Return r one Cons.IH [where i = "i + 1" and w = w1] by (cases e) simp_all
  qed
qed

lemma Bind_conns [simp]:
  "conns (world_of (snd \<circ> snd) (Bind E s args w)) = conns w"
proof -
  obtain n s1 w1 where p: "BindParameterCount E s w = (n, s1, w1)"
    by (cases "BindParameterCount E s w")
  have a: "conns w1 = conns w"
    using p by (auto simp: BindParameterCount_def native_cint_def split: if_splits)
  have b: "conns (world_of snd (bind_args E s1 0 args w1)) = conns w1"
    by simp
  show ?thesis
    using p a b by (cases "bind_args E s1 0 args w1") (auto simp: Bind_def)
qed

lemma finalize_conns [simp]:
  "conns (world_of (snd \<circ> snd) (finalize E sp w)) = conns w"
  by (cases sp)
    (auto simp: finalize_def conn_closed_def Log_def native_cint_def native_ptr_def stmt_error_def
      Let_def split_def split: option.splits)

lemma finalize_calls:
  "only_calls (\<lambda>k. True) w (world_of (snd \<circ> snd) (finalize E sp w))"
  unfolding only_calls_append
  by (cases sp)
    (auto simp: finalize_def conn_closed_def Log_def native_cint_def native_ptr_def stmt_error_def
      Let_def split_def split: option.splits)

lemma bind_or_finalize_returns:
  assumes "bind_or_finalize E s args w = Return (Inr s1, w1)"
  shows "Cacheable s1 = Cacheable s \<and> stmt s1 = stmt s \<and> c s1 = c s \<and> sql s1 = sql s
         \<and> only_calls (on_handle (stmt s)) w w1"
proof (cases "Bind E s args w")
  case (Panic p)
  then show ?thesis using assms by (simp add: bind_or_finalize_def)
next
  case (Return r)
  obtain e s2 w2 where r: "r = (e, s2, w2)" by (cases r)
  show ?thesis
  proof (cases e)
    case None
    then have "s1 = s2 \<and> w1 = w2"
      using assms Return r by (simp add: bind_or_finalize_def)
    then show ?thesis
      using Bind_stmt [of E s args w e s2 w2] Bind_calls [of s w E args] Return r by simp
  next
    case (Some err)
    then show ?thesis
      using assms Return r
      by (cases "finalize E (Some s2) w2") (auto simp: bind_or_finalize_def)
  qed
qed

lemma bind_or_finalize_conns [simp]:
  "conns (world_of snd (bind_or_finalize E s args w)) = conns w"
proof (cases "Bind E s args w")
  case (Panic p)
  then show ?thesis using Bind_conns [of E s args w] by (simp add: bind_or_finalize_def)
next
  case (Return r)
  obtain e s2 w2 where r: "r = (e, s2, w2)" by (cases r)
  have a: "conns w2 = conns w"
    using Bind_conns [of E s args w] Return r by simp
  have b: "conns (world_of (snd \<circ> snd) (finalize E (Some s2) w2)) = conns w2"
    by simp
  show ?thesis
    using Return r a b
    by (cases e; cases "finalize E (Some s2) w2") (auto simp: bind_or_finalize_def)
qed

lemma bind_or_finalize_calls:
  "only_calls (\<lambda>k. True) w (world_of snd (bind_or_finalize E s args w))"
proof (cases "Bind E s args w")
  case (Panic p)
  then show ?thesis
    using only_calls_mono [OF Bind_calls [of s w E args], of "\<lambda>k. True"]
    by (simp add: bind_or_finalize_def)
next
  case (Return r)
  obtain e s2 w2 where r: "r = (e, s2, w2)" by (cases r)
  have a: "only_calls (\<lambda>k. True) w w2"
    using only_calls_mono [OF Bind_calls [of s w E args], of "\<lambda>k. True"] Return r by simp
  have b: "only_calls (\<lambda>k. True) w2 (world_of (snd \<circ> snd) (finalize E (Some s2) w2))"
    by (rule finalize_calls)
  show ?thesis
    using Return r a only_calls_trans [OF a b]
    by (cases e; cases "finalize E (Some s2) w2") (auto simp: bind_or_finalize_def)
qed

lemma prepare_conns [simp]:
  "conns (world_of snd (prepare E cp cmd args w)) = conns w"
proof (cases cp)
  case None
  then show ?thesis by (simp add: prepare_def)
next
  case (Some k)
  let ?x = "Prepare_v2 (db (conns w k)) cmd (of_nat (length cmd + 1))"
  let ?w1 = "w\<lparr>calls := calls w @ [?x]\<rparr>"
  have "conns (world_of snd (bind_or_finalize E s args ?w1)) = conns w" for s
    using bind_or_finalize_conns [of E s args ?w1] by simp
  then show ?thesis
    using Some
    by (simp add: prepare_def native_prepare_def conn_error_def native_ptr_def Let_def)
qed

lemma prepare_first_call:
  "first_call w (world_of snd (prepare E (Some k) cmd args w)) =
     Some (Prepare_v2 (db (conns w k)) cmd (of_nat (length cmd + 1)))"
proof -
  have m: "first_call w v = Some x" if "only_calls P (w\<lparr>calls := calls w @ [x]\<rparr>) v" for v x P
    using that unfolding only_calls_append by (auto simp: first_call_def new_calls_def)
  let ?x = "Prepare_v2 (db (conns w k)) cmd (of_nat (length cmd + 1))"
  let ?w1 = "w\<lparr>calls := calls w @ [?x]\<rparr>"
  have b: "only_calls (\<lambda>k. True) ?w1 (world_of snd (bind_or_finalize E s args ?w1))" for s
    by (rule bind_or_finalize_calls)
  have r: "only_calls (\<lambda>k. True) ?w1 (world_of snd (prepare E (Some k) cmd args w))"
    using b
    by (simp add: prepare_def native_prepare_def conn_error_def native_ptr_def Let_def
        only_calls_append)
  show ?thesis using m [OF r] .
qed

lemma prepare_connection:
  "prepare E (Some k) cmd args w = Return (Inr s, w') \<Longrightarrow> c s = Some k"
  by (auto simp: prepare_def native_prepare_def conn_error_def native_ptr_def Let_def
      split: if_splits dest: bind_or_finalize_returns)

lemma Prepare_hit:
  assumes "find K k cmd w = (Some s0, w1)" and "Prepare K E k cmd args w = Return (Inr s, w')"
  shows "Cacheable s = Cacheable s0 \<and> stmt s = stmt s0 \<and> only_calls (on_handle (stmt s0)) w1 w'"
proof (cases "length args > 0")
  case False
  then show ?thesis using assms by (simp add: Prepare_def)
next
  case True
  then have "bind_or_finalize E s0 args w1 = Return (Inr s, w')"
    using assms by (simp add: Prepare_def)
  then show ?thesis
    using bind_or_finalize_returns by blast
qed

lemma Prepare_miss:
  assumes "find K k cmd w = (None, w1)" and "Prepare K E k cmd args w = Return (Inr s, w')"
  shows "Cacheable s
    \<and> first_call w1 w' = Some (Prepare_v2 (db (conns w1 k)) cmd (of_nat (length cmd + 1)))"
proof (cases "prepare E (Some k) cmd args w1")
  case (Panic p)
  then show ?thesis using assms by (simp add: Prepare_def)
next
  case (Return r)
  obtain x w2 where r: "r = (x, w2)" by (cases r)
  have "first_call w1 (world_of snd (prepare E (Some k) cmd args w1)) =
     Some (Prepare_v2 (db (conns w1 k)) cmd (of_nat (length cmd + 1)))"
    by (rule prepare_first_call)
  then show ?thesis
    using assms Return r by (cases x) (auto simp: Prepare_def)
qed

text \<open>The cache modelled above keeps its invariant and hands back marked statements only.\<close>

lemma cache_ok_calls [simp]: "cache_ok (w\<lparr>calls := xs\<rparr>) i = cache_ok w i"
  by (simp add: cache_ok_def)

lemma cache_ok_conns: "conns w' = conns w \<Longrightarrow> cache_ok w' i = cache_ok w i"
  by (simp add: cache_ok_def)

lemma cache_find_hit:
  assumes "cache_find k cmd w = (Some s0, w1)" and "cache_ok w k"
  shows "Cacheable s0 \<and> sql s0 = cmd"
proof -
  have f: "List.find (\<lambda>s. sql s = cmd) (stmtCache (conns w k)) = Some s0"
    using assms(1) by (auto simp: cache_find_def split: option.splits)
  then have "s0 \<in> set (stmtCache (conns w k)) \<and> sql s0 = cmd"
    by (auto simp: find_Some_iff)
  then show ?thesis
    using assms(2) by (auto simp: cache_ok_def list_all_iff)
qed

lemma cache_find_ok:
  "cache_ok w i \<Longrightarrow> cache_ok (snd (cache_find k cmd w)) i"
  by (auto simp: cache_find_def cache_ok_def list_all_iff split: option.splits
      dest: notin_set_remove1)

lemma cache_find_calls [simp]:
  "calls (snd (cache_find k cmd w)) = calls w"
  by (simp add: cache_find_def split: option.splits)

lemma Prepare_lru_marked:
  assumes "cache_ok w k" and "Prepare (lru_cache E) E k cmd args w = Return (Inr s, w')"
  shows "Cacheable s"
proof (cases "cache_find k cmd w")
  case (Pair r w1)
  show ?thesis
  proof (cases r)
    case None
    then show ?thesis
      using Prepare_miss [of "lru_cache E" k cmd w w1 E args s w'] Pair assms(2)
      by (simp add: lru_cache_def)
  next
    case (Some s0)
    then have "Cacheable s0"
      using cache_find_hit [of k cmd w s0 w1] Pair assms(1) by simp
    then show ?thesis
      using Prepare_hit [of "lru_cache E" k cmd w s0 w1 E args s w'] Pair Some assms(2)
      by (simp add: lru_cache_def)
  qed
qed

lemma Prepare_lru_ok:
  assumes "cache_ok w i"
  shows "cache_ok (world_of snd (Prepare (lru_cache E) E k cmd args w)) i"
proof (cases "cache_find k cmd w")
  case (Pair r w1)
  have w1: "cache_ok w1 i"
    using cache_find_ok [OF assms, of k cmd] Pair by simp
  show ?thesis
  proof (cases r)
    case None
    have "cache_ok (world_of snd (prepare E (Some k) cmd args w1)) i"
      using w1 cache_ok_conns [OF prepare_conns] by blast
    then show ?thesis
      using Pair None
      by (cases "prepare E (Some k) cmd args w1")
        (auto simp: Prepare_def lru_cache_def split: sum.splits)
  next
    case (Some s0)
    have "cache_ok (world_of snd (bind_or_finalize E s0 args w1)) i"
      using w1 cache_ok_conns [OF bind_or_finalize_conns] by blast
    then show ?thesis
      using Pair Some w1 by (simp add: Prepare_def lru_cache_def)
  qed
qed

lemma cache_release_ok:
  assumes "cache_ok w i" and "Cacheable s"
  shows "cache_ok (world_of (snd \<circ> snd) (cache_release E k s w)) i"
proof -
  let ?w2 = "w\<lparr>calls := calls w @ [OnStmt (stmt s) Reset, OnStmt (stmt s) Clear_bindings]\<rparr>"
  let ?idle = "s # stmtCache (conns w k)"
  have all: "list_all Cacheable ?idle" if "i = k"
    using assms that by (simp add: cache_ok_def)
  have f: "cache_ok (world_of (snd \<circ> snd) (finalize E sp ?w2)) i" for sp
    using assms(1) cache_ok_conns [OF finalize_conns, of E sp ?w2 i] by simp
  have g: "conns (world_of (snd \<circ> snd) (finalize E sp ?w2)) = conns w" for sp
    using finalize_conns [of E sp ?w2] by simp
  have bl: "list_all Cacheable (butlast ?idle)" if "i = k"
    using all [OF that] by (auto simp: list_all_iff dest: in_set_butlastD)
  show ?thesis
  proof (cases "r_cint E (calls w @ [OnStmt (stmt s) Reset]) (OnStmt (stmt s) Clear_bindings)
                 = SQLITE_OK")
    case False
    then show ?thesis
      using f [of "Some s"] by (simp add: cache_release_def native_cint_def)
  next
    case True
    show ?thesis
    proof (cases "length ?idle > maxSize (conns w k)")
      case False
      then show ?thesis
        using True assms all
        by (auto simp: cache_release_def native_cint_def cache_ok_def)
    next
      case big: True
      define l where "l = last ?idle"
      obtain r where r: "finalize E (Some l) ?w2 = Return r"
        using finalize_never_panics by blast
      obtain e t w3 where t: "r = (e, t, w3)" by (cases r)
      have w3: "conns w3 = conns w"
        using g [of "Some l"] r t by simp
      have "cache_release E k s w =
          Return (None, Some s,
            w3\<lparr>conns := (conns w3)(k := (conns w3 k)\<lparr>stmtCache := butlast ?idle\<rparr>)\<rparr>)"
        using True big r t w3 unfolding l_def
        by (simp add: cache_release_def native_cint_def del: last.simps butlast.simps)
      then show ?thesis
        using w3 assms bl
        by (auto simp: cache_ok_def simp del: butlast.simps)
    qed
  qed
qed

lemma Finalize_lru_ok:
  assumes "cache_ok w i"
  shows "cache_ok (world_of (snd \<circ> snd) (Finalize (lru_cache E) E sp w)) i"
proof (cases sp)
  case None
  then show ?thesis using assms by (simp add: Finalize_def)
next
  case (Some s)
  have f: "cache_ok (world_of (snd \<circ> snd) (finalize E (Some s) w)) i"
    using assms cache_ok_conns [OF finalize_conns, of E "Some s" w i] by simp
  show ?thesis
  proof (cases "c s")
    case None
    then show ?thesis using Some f by (simp add: Finalize_def)
  next
    case (Some k)
    show ?thesis
    proof (cases "Cacheable s \<and> db (conns w k) \<noteq> None")
      case True
      then show ?thesis
        using \<open>sp = Some s\<close> Some cache_release_ok [OF assms, of s E k]
        by (simp add: Finalize_def lru_cache_def)
    next
      case False
      then show ?thesis
        using \<open>sp = Some s\<close> Some f by (auto simp: Finalize_def)
    qed
  qed
qed

text \<open>
  C5, as amended. \<open>Prepare\<close> asks the cache first. When the cache has no statement for the
  SQL text, \<open>Prepare\<close> compiles one (its first native call is \<open>sqlite3_prepare_v2\<close>) and a
  statement it returns is marked \<open>Cacheable\<close>. When the cache hands a statement back,
  \<open>Prepare\<close> returns that statement, with the handle and the \<open>Cacheable\<close> flag it had, and
  compiles nothing: its only calls are on that statement's handle. With the cache of
  section 4.5, whose idle statements are all marked \<open>Cacheable\<close> (which holds of the empty
  cache, and which \<open>Prepare\<close> and \<open>Finalize\<close> maintain, \<open>Finalize\<close> releasing marked
  statements only), every statement that \<open>Prepare\<close> returns is marked \<open>Cacheable\<close>.
  \<open>Finalize\<close> on a \<open>Cacheable\<close> statement whose connection is live is the cache's
  \<open>release\<close> and nothing else. \<open>Finalize\<close> on a statement that is not \<open>Cacheable\<close>, with a
  handle and a live connection, calls \<open>sqlite3_finalize\<close> on the handle, and on success
  sets the handle field to nil. \<open>Finalize\<close> on a statement with a handle whose
  connection is closed does not destroy the handle: it logs a misuse, returns the error
  "already closed database connection" and leaves the statement as it is.
\<close>

theorem C5_prepare_finalize:
  "(find K k cmd w = (None, w1) \<and> Prepare K E k cmd args w = Return (Inr s, w') \<longrightarrow>
      Cacheable s
      \<and> first_call w1 w' = Some (Prepare_v2 (db (conns w1 k)) cmd (of_nat (length cmd + 1))))
   \<and> (find K k cmd w = (Some s0, w1) \<and> Prepare K E k cmd args w = Return (Inr s, w') \<longrightarrow>
      Cacheable s = Cacheable s0 \<and> stmt s = stmt s0 \<and> only_calls (on_handle (stmt s0)) w1 w')
   \<and> (cache_ok w k \<and> Prepare (lru_cache E) E k cmd args w = Return (Inr s, w') \<longrightarrow> Cacheable s)
   \<and> (stmtCache (conns w i) = [] \<longrightarrow> cache_ok w i)
   \<and> (cache_ok w i \<longrightarrow> cache_ok (world_of snd (Prepare (lru_cache E) E k cmd args w)) i)
   \<and> (cache_ok v i \<longrightarrow> cache_ok (world_of (snd \<circ> snd) (Finalize (lru_cache E) E (Some t) v)) i)
   \<and> (Cacheable t \<and> c t = Some j \<and> db (conns v j) \<noteq> None \<longrightarrow>
      Finalize K E (Some t) v = release K j t v)
   \<and> (\<not> Cacheable t \<and> stmt t \<noteq> None \<and> \<not> conn_closed t v \<longrightarrow>
      Finalize K E (Some t) v = finalize E (Some t) v
      \<and> first_call v (world_of (snd \<circ> snd) (Finalize K E (Some t) v))
          = Some (OnStmt (stmt t) Finalize_stmt)
      \<and> (r_cint E (calls v) (OnStmt (stmt t) Finalize_stmt) = SQLITE_OK \<longrightarrow>
           Finalize K E (Some t) v =
             Return (None, Some (t\<lparr>stmt := None\<rparr>),
                     v\<lparr>calls := calls v @ [OnStmt (stmt t) Finalize_stmt]\<rparr>)))
   \<and> (stmt t \<noteq> None \<and> conn_closed t v \<longrightarrow>
      Finalize K E (Some t) v =
        Return (Some ClosedConnection, Some t,
          v\<lparr>calls := calls v @ [Sqlite3_log SQLITE_MISUSE
               ''sqlite statement with already closed database connection'']\<rparr>))"
proof -
  have a: "find K k cmd w = (None, w1) \<and> Prepare K E k cmd args w = Return (Inr s, w') \<longrightarrow>
      Cacheable s
      \<and> first_call w1 w' = Some (Prepare_v2 (db (conns w1 k)) cmd (of_nat (length cmd + 1)))"
    using Prepare_miss [of K k cmd w w1 E args s w'] by blast
  have b: "find K k cmd w = (Some s0, w1) \<and> Prepare K E k cmd args w = Return (Inr s, w') \<longrightarrow>
      Cacheable s = Cacheable s0 \<and> stmt s = stmt s0 \<and> only_calls (on_handle (stmt s0)) w1 w'"
    using Prepare_hit [of K k cmd w s0 w1 E args s w'] by blast
  have m: "cache_ok w k \<and> Prepare (lru_cache E) E k cmd args w = Return (Inr s, w') \<longrightarrow> Cacheable s"
    using Prepare_lru_marked [of w k E cmd args s w'] by blast
  have i0: "stmtCache (conns w i) = [] \<longrightarrow> cache_ok w i"
    by (simp add: cache_ok_def)
  have i1: "cache_ok w i \<longrightarrow> cache_ok (world_of snd (Prepare (lru_cache E) E k cmd args w)) i"
    using Prepare_lru_ok [of w i E k cmd args] by blast
  have i2: "cache_ok v i \<longrightarrow>
      cache_ok (world_of (snd \<circ> snd) (Finalize (lru_cache E) E (Some t) v)) i"
    using Finalize_lru_ok [of v i E "Some t"] by blast
  have d: "Cacheable t \<and> c t = Some j \<and> db (conns v j) \<noteq> None \<longrightarrow>
      Finalize K E (Some t) v = release K j t v"
    using Finalize_cached [of t j v K E] by blast
  have e: "\<not> Cacheable t \<and> stmt t \<noteq> None \<and> \<not> conn_closed t v \<longrightarrow>
      Finalize K E (Some t) v = finalize E (Some t) v
      \<and> first_call v (world_of (snd \<circ> snd) (Finalize K E (Some t) v))
          = Some (OnStmt (stmt t) Finalize_stmt)
      \<and> (r_cint E (calls v) (OnStmt (stmt t) Finalize_stmt) = SQLITE_OK \<longrightarrow>
           Finalize K E (Some t) v =
             Return (None, Some (t\<lparr>stmt := None\<rparr>),
                     v\<lparr>calls := calls v @ [OnStmt (stmt t) Finalize_stmt]\<rparr>))"
    using Finalize_not_cached [of t v K E] finalize_live_first [of t v E]
      finalize_live_OK [of t v E]
    by simp
  have f: "stmt t \<noteq> None \<and> conn_closed t v \<longrightarrow>
      Finalize K E (Some t) v =
        Return (Some ClosedConnection, Some t,
          v\<lparr>calls := calls v @ [Sqlite3_log SQLITE_MISUSE
               ''sqlite statement with already closed database connection'']\<rparr>)"
    using Finalize_not_cached [of t v K E] finalize_closed [of t v E] by simp
  show ?thesis using a b m i0 i1 i2 d e f by blast
qed

text \<open>
  C5 as stated fails: \<open>stmt0\<close> is not \<open>Cacheable\<close>, has the handle 7, and its connection
  is closed; \<open>Finalize\<close> returns an error and its only native call is the log entry, so the
  handle is not destroyed.
\<close>

theorem C5_closed_connection_counterexample:
  "\<not> Cacheable stmt0 \<and> stmt stmt0 = Some 7 \<and> c stmt0 = Some 0 \<and> db (conns closed_world 0) = None
   \<and> Finalize (lru_cache ok_engine) ok_engine (Some stmt0) closed_world =
       Return (Some ClosedConnection, Some stmt0,
        closed_world\<lparr>calls := [Sqlite3_log 21
           ''sqlite statement with already closed database connection'']\<rparr>)"
  by (simp add: Finalize_def finalize_def Log_def conn_closed_def stmt0_def closed_world_def
      world0_def SQLITE_MISUSE_def)

theorem C5_prepare_finalize_witness:
  "Prepare (lru_cache ok_engine) ok_engine 0 ''select 1'' [] world0 =
     Return (Inr (stmt0\<lparr>Cacheable := True\<rparr>),
             world0\<lparr>calls := [Prepare_v2 (Some 1) ''select 1'' 9]\<rparr>)
   \<and> Cacheable (stmt0\<lparr>Cacheable := True\<rparr>)
   \<and> Prepare (lru_cache ok_engine) ok_engine 0 ''select 1'' [] cached_world =
       Return (Inr cached_stmt,
         cached_world\<lparr>conns := (conns cached_world)
               (0 := (conns cached_world 0)\<lparr>stmtCache := []\<rparr>)\<rparr>)
   \<and> cache_ok cached_world 0 \<and> Cacheable cached_stmt
   \<and> cache_ok (world_of snd (Prepare (lru_cache ok_engine) ok_engine 0 ''select 1'' [] cached_world)) 0
   \<and> Finalize (lru_cache ok_engine) ok_engine (Some cached_stmt) world0 =
       Return (None, Some cached_stmt,
         world0\<lparr>calls := [OnStmt (Some 7) Reset, OnStmt (Some 7) Clear_bindings],
                 conns := (conns world0)(0 := (conns world0 0)\<lparr>stmtCache := [cached_stmt]\<rparr>)\<rparr>)
   \<and> cache_ok world0 0
   \<and> cache_ok (world_of (snd \<circ> snd)
        (Finalize (lru_cache ok_engine) ok_engine (Some cached_stmt) world0)) 0
   \<and> Finalize (lru_cache ok_engine) ok_engine (Some stmt0) world0 =
       Return (None, Some (stmt0\<lparr>stmt := None\<rparr>),
               world0\<lparr>calls := [OnStmt (Some 7) Finalize_stmt]\<rparr>)
   \<and> Finalize (lru_cache ok_engine) ok_engine (Some cached_stmt) closed_world =
       Return (Some ClosedConnection, Some cached_stmt,
        closed_world\<lparr>calls := [Sqlite3_log 21
           ''sqlite statement with already closed database connection'']\<rparr>)"
proof -
  let ?K = "lru_cache ok_engine"
  let ?w' = "world0\<lparr>calls := [Prepare_v2 (Some 1) ''select 1'' 9]\<rparr>"
  let ?cw = "cached_world\<lparr>conns := (conns cached_world)
               (0 := (conns cached_world 0)\<lparr>stmtCache := []\<rparr>)\<rparr>"
  have miss: "find ?K 0 ''select 1'' world0 = (None, world0)"
    by (simp add: lru_cache_def cache_find_def world0_def)
  have p1: "Prepare ?K ok_engine 0 ''select 1'' [] world0 =
      Return (Inr (stmt0\<lparr>Cacheable := True\<rparr>), ?w')"
    unfolding Prepare_def miss
    by (simp add: prepare_def native_prepare_def ok_engine_def SQLITE_OK_def
        stmt0_def world0_def)
  have hit: "find ?K 0 ''select 1'' cached_world = (Some cached_stmt, ?cw)"
    by (simp add: lru_cache_def cache_find_def cached_world_def cached_stmt_def)
  have p2: "Prepare ?K ok_engine 0 ''select 1'' [] cached_world = Return (Inr cached_stmt, ?cw)"
    unfolding Prepare_def hit by simp
  have ok0: "stmtCache (conns world0 0) = []"
    by (simp add: world0_def)
  have okc: "cache_ok cached_world 0"
    by (simp add: cache_ok_def cached_world_def cached_stmt_def)
  have live: "Cacheable cached_stmt \<and> c cached_stmt = Some 0 \<and> db (conns world0 0) \<noteq> None"
    by (simp add: cached_stmt_def stmt0_def world0_def)
  have plain: "\<not> Cacheable stmt0 \<and> stmt stmt0 \<noteq> None \<and> \<not> conn_closed stmt0 world0
      \<and> r_cint ok_engine (calls world0) (OnStmt (stmt stmt0) Finalize_stmt) = SQLITE_OK"
    by (simp add: stmt0_def world0_def conn_closed_def ok_engine_def SQLITE_OK_def)
  have closed: "stmt cached_stmt \<noteq> None \<and> conn_closed cached_stmt closed_world"
    by (simp add: cached_stmt_def stmt0_def closed_world_def conn_closed_def)
  have r: "cache_release ok_engine 0 cached_stmt world0 =
       Return (None, Some cached_stmt,
         world0\<lparr>calls := [OnStmt (Some 7) Reset, OnStmt (Some 7) Clear_bindings],
                 conns := (conns world0)(0 := (conns world0 0)\<lparr>stmtCache := [cached_stmt]\<rparr>)\<rparr>)"
    by (simp add: cache_release_def native_cint_def ok_engine_def SQLITE_OK_def cached_stmt_def
        stmt0_def world0_def)
  note A = C5_prepare_finalize [where K = ?K and k = 0 and cmd = "''select 1''" and w = world0
      and ?w1.0 = world0 and E = ok_engine and args = "[]" and s = "stmt0\<lparr>Cacheable := True\<rparr>"
      and w' = ?w' and t = cached_stmt and j = 0 and v = world0 and i = 0]
  note B = C5_prepare_finalize [where K = ?K and k = 0 and cmd = "''select 1''" and w = cached_world
      and ?w1.0 = ?cw and E = ok_engine and args = "[]" and s = cached_stmt and ?s0.0 = cached_stmt
      and w' = ?cw and t = stmt0 and v = world0 and i = 0]
  note D = C5_prepare_finalize [where K = ?K and E = ok_engine and t = cached_stmt and v = closed_world]
  have a1: "Cacheable (stmt0\<lparr>Cacheable := True\<rparr>)"
    using A miss p1 by blast
  have a2: "Finalize ?K ok_engine (Some cached_stmt) world0 = release ?K 0 cached_stmt world0"
    using A live by blast
  have a3: "cache_ok world0 0"
    using A ok0 by blast
  have a4: "cache_ok (world_of (snd \<circ> snd) (Finalize ?K ok_engine (Some cached_stmt) world0)) 0"
    using A a3 by blast
  have b0: "Cacheable cached_stmt"
    using B okc p2 by blast
  have b1: "cache_ok (world_of snd (Prepare ?K ok_engine 0 ''select 1'' [] cached_world)) 0"
    using B okc by blast
  have b2: "Finalize ?K ok_engine (Some stmt0) world0 =
       Return (None, Some (stmt0\<lparr>stmt := None\<rparr>),
        world0\<lparr>calls := calls world0 @ [OnStmt (stmt stmt0) Finalize_stmt]\<rparr>)"
    using B plain by blast
  have d1: "Finalize ?K ok_engine (Some cached_stmt) closed_world =
       Return (Some ClosedConnection, Some cached_stmt,
        closed_world\<lparr>calls := calls closed_world @ [Sqlite3_log SQLITE_MISUSE
           ''sqlite statement with already closed database connection'']\<rparr>)"
    using D closed by blast
  have c1: "calls world0 = [] \<and> calls closed_world = [] \<and> stmt stmt0 = Some 7"
    by (simp add: closed_world_def world0_def stmt0_def)
  show ?thesis
    using p1 a1 p2 a2 a3 a4 b0 b1 okc r b2 d1 c1
    by (simp add: lru_cache_def SQLITE_MISUSE_def)
qed

section \<open>Properties of the local errors\<close>

lemma BindParameterCount_new_calls:
  "new_calls w (snd (snd (BindParameterCount E s w))) =
     (if bindParameterCount s = - 1 then [OnStmt (stmt s) Bind_parameter_count] else [])"
  by (simp add: BindParameterCount_def native_cint_def)

lemma ColumnCount_new_calls:
  "new_calls w (snd (snd (ColumnCount E s w))) =
     (if columnCount s = - 1 then [OnStmt (stmt s) Column_count] else [])"
  by (simp add: ColumnCount_def native_cint_def)

lemma Bind_arity:
  assumes "BindParameterCount E s w = (n, s1, w1)" and "n \<noteq> of_nat (length args)"
  shows "Bind E s args w =
     Return (Some (ArityMismatch s1 ''Stmt.Bind'' (of_nat (length args)) n), s1, w1)"
  using assms by (simp add: Bind_def)

lemma Scan_arity:
  assumes "ColumnCount E s w = (n, s1, w1)" and "n \<noteq> of_nat (length args)"
  shows "Scan L E s args w =
     Return (Some (ArityMismatch s1 ''Stmt.Scan'' (of_nat (length args)) n), s1, w1)"
  using assms by (simp add: Scan_def)

lemma BindReflect_unsupported:
  "BindReflect E s i t ROther w =
     Return (Some (UnsupportedBindType s t i
        (GoString (r_ptr E (calls w) (OnStmt (stmt s) (Bind_parameter_name (ucast i)))))),
      w\<lparr>calls := calls w @ [OnStmt (stmt s) (Bind_parameter_name (ucast i))]\<rparr>)"
  by (simp add: BindReflect_def BindParameterName_def native_ptr_def GoString_def
      split: option.split)

lemma ScanReflect_unsupported:
  "snd v = None \<or> (\<exists>k. snd v = Some (k, None)) \<or> (\<exists>p. snd v = Some (KOtherKind, p)) \<Longrightarrow>
   \<exists>m. ScanReflect L E s i v w = Return ((False, Some (UnsupportedScanType s m (fst v))), w)"
  by (auto simp: ScanReflect_def split: option.splits)

lemma ScanByIndex_unsupported:
  "unsupported_dest d \<Longrightarrow>
   \<exists>m. ScanByIndex L E s i d w
        = Return ((False, Some (UnsupportedScanType s m (fst (reflect_dest d)))), w)"
  by (cases d rule: unsupported_dest.cases)
    (auto simp: ScanReflect_def split: option.splits)

lemma BindParameterIndex_failure:
  assumes "BindParameterIndex E s name w = ((index, Some err), s1, w1)"
  shows "err = InvalidName s1 ''parameter'' name
     \<and> new_calls w w1 =
         (if params s = None \<and> bindParameterCount s = - 1
          then [OnStmt (stmt s) Bind_parameter_count] else [])
         @ [OnStmt (stmt s) (Bind_parameter_index name)]"
  using assms
  by (auto simp: BindParameterIndex_def BindParameterCount_def native_cint_def Let_def split_def
      split: if_splits option.splits)

lemma fill_cols_calls:
  "only_calls metadata_call w (snd (fill_cols E s i n m w))"
proof (induction n arbitrary: i m w)
  case 0
  show ?case by simp
next
  case (Suc n)
  let ?w1 = "w\<lparr>calls := calls w @ [OnStmt (stmt s) (Column_name (ucast i))]\<rparr>"
  have a: "only_calls metadata_call w ?w1"
    by (rule only_calls_one) simp
  show ?case
    using a Suc.IH [where w = ?w1]
    by (auto simp: ColumnName_def native_ptr_def split_def Let_def intro: only_calls_trans)
qed

lemma ColumnIndex_failure:
  assumes "ColumnIndex E s name w = ((index, Some err), s1, w1)"
  shows "err = InvalidName s1 ''column'' name \<and> index = - 1
     \<and> only_calls metadata_call w w1 \<and> (cols s \<noteq> None \<longrightarrow> w1 = w \<and> s1 = s)"
proof (cases "cols s")
  case (Some m)
  then show ?thesis
    using assms by (auto simp: ColumnIndex_def split: option.splits)
next
  case None
  obtain n s' w' where cc: "ColumnCount E s w = (n, s', w')"
    by (cases "ColumnCount E s w")
  have a: "only_calls metadata_call w w'"
    using cc unfolding only_calls_append
    by (auto simp: ColumnCount_def native_cint_def split: if_splits)
  obtain m w'' where fc: "fill_cols E s' 0 (nat (sint n)) [] w' = (m, w'')"
    by (cases "fill_cols E s' 0 (nat (sint n)) [] w'")
  have "only_calls metadata_call w' (snd (fill_cols E s' 0 (nat (sint n)) [] w'))"
    by (rule fill_cols_calls)
  then have b: "only_calls metadata_call w' w''" using fc by simp
  have "only_calls metadata_call w w''"
    using a b by (rule only_calls_trans)
  then show ?thesis
    using assms None cc fc
    by (auto simp: ColumnIndex_def split: option.splits)
qed

text \<open>The loops of \<open>Bind\<close> and \<open>Scan\<close> stop at the first argument that fails.\<close>

lemma bind_args_stops:
  "bind_args E s i xs w = Return (None, w1) \<Longrightarrow>
   BindByIndex E s (i + of_nat (length xs) + 1) x w1 = Return (Some err, w2) \<Longrightarrow>
   bind_args E s i (xs @ x # ys) w = Return (Some err, w2)"
proof (induction xs arbitrary: i w)
  case Nil
  then show ?case by simp
next
  case (Cons a xs)
  obtain w' where a: "BindByIndex E s (i + 1) a w = Return (None, w')"
      and r: "bind_args E s (i + 1) xs w' = Return (None, w1)"
    using Cons.prems(1) by (auto split: outcome.splits option.splits)
  have e: "i + 1 + of_nat (length xs) + 1 = i + of_nat (length (a # xs)) + 1"
    by simp
  have "BindByIndex E s (i + 1 + of_nat (length xs) + 1) x w1 = Return (Some err, w2)"
    unfolding e by (rule Cons.prems(2))
  then have "bind_args E s (i + 1) (xs @ x # ys) w' = Return (Some err, w2)"
    using Cons.IH [OF r] by simp
  then show ?case using a by simp
qed

lemma scan_args_stops:
  "scan_args L E s i xs w = Return (None, w1) \<Longrightarrow>
   ScanByIndex L E s (i + of_nat (length xs)) x w1 = Return ((isNull, Some err), w2) \<Longrightarrow>
   scan_args L E s i (xs @ x # ys) w = Return (Some err, w2)"
proof (induction xs arbitrary: i w)
  case Nil
  then show ?case by simp
next
  case (Cons a xs)
  obtain n w' where a: "ScanByIndex L E s i a w = Return ((n, None), w')"
      and r: "scan_args L E s (i + 1) xs w' = Return (None, w1)"
    using Cons.prems(1) by (auto split: outcome.splits option.splits)
  have e: "i + 1 + of_nat (length xs) = i + of_nat (length (a # xs))"
    by simp
  have "ScanByIndex L E s (i + 1 + of_nat (length xs)) x w1 = Return ((isNull, Some err), w2)"
    unfolding e by (rule Cons.prems(2))
  then have "scan_args L E s (i + 1) (xs @ x # ys) w' = Return (Some err, w2)"
    using Cons.IH [OF r] by simp
  then show ?case using a by simp
qed

lemma Bind_stops:
  assumes "BindParameterCount E s w = (n, s1, w0)" and "n = of_nat (length (xs @ x # ys))"
    and "bind_args E s1 0 xs w0 = Return (None, w1)"
    and "BindByIndex E s1 (of_nat (length xs) + 1) x w1 = Return (Some err, w2)"
  shows "Bind E s (xs @ x # ys) w = Return (Some err, s1, w2)"
proof -
  have "bind_args E s1 0 (xs @ x # ys) w0 = Return (Some err, w2)"
    using bind_args_stops [of E s1 0 xs w0 w1 x err w2 ys] assms(3,4) by simp
  then show ?thesis
    using assms(1,2) by (simp add: Bind_def)
qed

lemma Scan_stops:
  assumes "ColumnCount E s w = (n, s1, w0)" and "n = of_nat (length (xs @ x # ys))"
    and "scan_args L E s1 0 xs w0 = Return (None, w1)"
    and "ScanByIndex L E s1 (of_nat (length xs)) x w1 = Return ((isNull, Some err), w2)"
  shows "Scan L E s (xs @ x # ys) w = Return (Some err, s1, w2)"
proof -
  have "scan_args L E s1 0 (xs @ x # ys) w0 = Return (Some err, w2)"
    using scan_args_stops [of L E s1 0 xs w0 w1 x isNull err w2 ys] assms(3,4) by simp
  then show ?thesis
    using assms(1,2) by (simp add: Scan_def)
qed

text \<open>
  C6, as amended. The errors for a wrong number of arguments, an unsupported type and an
  unknown name are built by this layer, and detecting them asks the engine for metadata
  only. \<open>Bind\<close> with a wrong number of arguments returns \<open>ArityMismatch\<close> having made one
  \<open>sqlite3_bind_parameter_count\<close> call when the count was not cached and no call when it
  was, so no parameter is bound; \<open>Scan\<close> likewise with \<open>sqlite3_column_count\<close>, so no
  column is scanned. \<open>BindByIndex\<close> on a value of a type it does not support (it reaches
  \<open>BindReflect\<close> with a kind outside the supported ones) returns \<open>UnsupportedBindType\<close>
  after one \<open>sqlite3_bind_parameter_name\<close> call. \<open>ScanByIndex\<close> on a destination it does
  not support (it reaches \<open>ScanReflect\<close> with a value that is not a pointer, a nil pointer
  or a pointer to an unsupported kind) returns \<open>UnsupportedScanType\<close> without any call.
  \<open>BindParameterIndex\<close> fails only with \<open>InvalidName\<close>, and then it has asked the engine
  with \<open>sqlite3_bind_parameter_index\<close>, after \<open>sqlite3_bind_parameter_count\<close> when neither
  the parameter map nor the count was there. \<open>ColumnIndex\<close> fails only with
  \<open>InvalidName\<close>, having made metadata calls only, and none when the column map was
  already built. With the right number of arguments, \<open>Bind\<close> and \<open>Scan\<close> stop at the first
  argument that fails: when the arguments \<open>xs\<close> before it have been bound or scanned and
  it fails, its error is returned in the world it left, the arguments after it untouched.
\<close>

theorem C6_local_errors:
  "(BindParameterCount E s w = (n, s1, w1) \<and> n \<noteq> of_nat (length args) \<longrightarrow>
      Bind E s args w =
        Return (Some (ArityMismatch s1 ''Stmt.Bind'' (of_nat (length args)) n), s1, w1)
      \<and> new_calls w w1 =
          (if bindParameterCount s = - 1 then [OnStmt (stmt s) Bind_parameter_count] else []))
   \<and> (ColumnCount E s w = (n, s1, w1) \<and> n \<noteq> of_nat (length dests) \<longrightarrow>
      Scan L E s dests w =
        Return (Some (ArityMismatch s1 ''Stmt.Scan'' (of_nat (length dests)) n), s1, w1)
      \<and> new_calls w w1 = (if columnCount s = - 1 then [OnStmt (stmt s) Column_count] else []))
   \<and> BindByIndex E s i (HNamed t ROther) w =
        Return (Some (UnsupportedBindType s t i
                  (GoString (r_ptr E (calls w) (OnStmt (stmt s) (Bind_parameter_name (ucast i)))))),
                w\<lparr>calls := calls w @ [OnStmt (stmt s) (Bind_parameter_name (ucast i))]\<rparr>)
   \<and> BindReflect E s i t ROther w = BindByIndex E s i (HNamed t ROther) w
   \<and> (unsupported_dest d \<longrightarrow>
      (\<exists>m. ScanByIndex L E s i d w =
              Return ((False, Some (UnsupportedScanType s m (fst (reflect_dest d)))), w)))
   \<and> (snd v = None \<or> (\<exists>k. snd v = Some (k, None)) \<or> (\<exists>p. snd v = Some (KOtherKind, p)) \<longrightarrow>
      (\<exists>m. ScanReflect L E s i v w = Return ((False, Some (UnsupportedScanType s m (fst v))), w)))
   \<and> (BindParameterIndex E s name w = ((index, Some err), s1, w1) \<longrightarrow>
      err = InvalidName s1 ''parameter'' name
      \<and> new_calls w w1 =
          (if params s = None \<and> bindParameterCount s = - 1
           then [OnStmt (stmt s) Bind_parameter_count] else [])
          @ [OnStmt (stmt s) (Bind_parameter_index name)])
   \<and> (ColumnIndex E s name w = ((index, Some err), s1, w1) \<longrightarrow>
      err = InvalidName s1 ''column'' name
      \<and> only_calls metadata_call w w1 \<and> (cols s \<noteq> None \<longrightarrow> w1 = w \<and> s1 = s))
   \<and> (BindParameterCount E s w = (n, s1, w1) \<and> n = of_nat (length (xs @ x # ys))
        \<and> bind_args E s1 0 xs w1 = Return (None, w2)
        \<and> BindByIndex E s1 (of_nat (length xs) + 1) x w2 = Return (Some err, w3) \<longrightarrow>
      Bind E s (xs @ x # ys) w = Return (Some err, s1, w3))
   \<and> (ColumnCount E s w = (n, s1, w1) \<and> n = of_nat (length (ds @ d # es))
        \<and> scan_args L E s1 0 ds w1 = Return (None, w2)
        \<and> ScanByIndex L E s1 (of_nat (length ds)) d w2 = Return ((isNull, Some err), w3) \<longrightarrow>
      Scan L E s (ds @ d # es) w = Return (Some err, s1, w3))"
proof -
  have a: "BindParameterCount E s w = (n, s1, w1) \<and> n \<noteq> of_nat (length args) \<longrightarrow>
      Bind E s args w =
        Return (Some (ArityMismatch s1 ''Stmt.Bind'' (of_nat (length args)) n), s1, w1)
      \<and> new_calls w w1 =
          (if bindParameterCount s = - 1 then [OnStmt (stmt s) Bind_parameter_count] else [])"
    using Bind_arity [of E s w n s1 w1 args] BindParameterCount_new_calls [of w E s] by auto
  have b: "ColumnCount E s w = (n, s1, w1) \<and> n \<noteq> of_nat (length dests) \<longrightarrow>
      Scan L E s dests w =
        Return (Some (ArityMismatch s1 ''Stmt.Scan'' (of_nat (length dests)) n), s1, w1)
      \<and> new_calls w w1 = (if columnCount s = - 1 then [OnStmt (stmt s) Column_count] else [])"
    using Scan_arity [of E s w n s1 w1 dests L] ColumnCount_new_calls [of w E s] by auto
  have d: "BindByIndex E s i (HNamed t ROther) w =
        Return (Some (UnsupportedBindType s t i
                  (GoString (r_ptr E (calls w) (OnStmt (stmt s) (Bind_parameter_name (ucast i)))))),
                w\<lparr>calls := calls w @ [OnStmt (stmt s) (Bind_parameter_name (ucast i))]\<rparr>)"
    using BindReflect_unsupported [of E s i t w] by simp
  have d': "BindReflect E s i t ROther w = BindByIndex E s i (HNamed t ROther) w"
    by simp
  have e: "unsupported_dest d \<longrightarrow>
      (\<exists>m. ScanByIndex L E s i d w =
              Return ((False, Some (UnsupportedScanType s m (fst (reflect_dest d)))), w))"
    using ScanByIndex_unsupported [of d L E s i w] by blast
  have e': "snd v = None \<or> (\<exists>k. snd v = Some (k, None)) \<or> (\<exists>p. snd v = Some (KOtherKind, p)) \<longrightarrow>
      (\<exists>m. ScanReflect L E s i v w = Return ((False, Some (UnsupportedScanType s m (fst v))), w))"
    using ScanReflect_unsupported [of v L E s i w] by blast
  have f: "BindParameterIndex E s name w = ((index, Some err), s1, w1) \<longrightarrow>
      err = InvalidName s1 ''parameter'' name
      \<and> new_calls w w1 =
          (if params s = None \<and> bindParameterCount s = - 1
           then [OnStmt (stmt s) Bind_parameter_count] else [])
          @ [OnStmt (stmt s) (Bind_parameter_index name)]"
    using BindParameterIndex_failure [of E s name w index err s1 w1] by blast
  have g: "ColumnIndex E s name w = ((index, Some err), s1, w1) \<longrightarrow>
      err = InvalidName s1 ''column'' name
      \<and> only_calls metadata_call w w1 \<and> (cols s \<noteq> None \<longrightarrow> w1 = w \<and> s1 = s)"
    using ColumnIndex_failure [of E s name w index err s1 w1] by blast
  have h: "BindParameterCount E s w = (n, s1, w1) \<and> n = of_nat (length (xs @ x # ys))
        \<and> bind_args E s1 0 xs w1 = Return (None, w2)
        \<and> BindByIndex E s1 (of_nat (length xs) + 1) x w2 = Return (Some err, w3) \<longrightarrow>
      Bind E s (xs @ x # ys) w = Return (Some err, s1, w3)"
    using Bind_stops [of E s w n s1 w1 xs x ys w2 err w3] by blast
  have j: "ColumnCount E s w = (n, s1, w1) \<and> n = of_nat (length (ds @ d # es))
        \<and> scan_args L E s1 0 ds w1 = Return (None, w2)
        \<and> ScanByIndex L E s1 (of_nat (length ds)) d w2 = Return ((isNull, Some err), w3) \<longrightarrow>
      Scan L E s (ds @ d # es) w = Return (Some err, s1, w3)"
    using Scan_stops [of E s w n s1 w1 ds d es L w2 isNull err w3] by blast
  show ?thesis using a b d d' e e' f g h j by blast
qed

text \<open>
  C6 as stated fails: looking up the unknown parameter name \<open>:x\<close> on a fresh statement
  returns \<open>InvalidName\<close> after two native calls, and binding a value of unsupported type
  returns \<open>UnsupportedBindType\<close> after one.
\<close>

theorem C6_engine_reached_counterexample:
  "BindParameterIndex ok_engine stmt0 '':x'' world0 =
     ((0, Some (InvalidName (stmt0\<lparr>bindParameterCount := 0, params := Some []\<rparr>) ''parameter'' '':x'')),
      stmt0\<lparr>bindParameterCount := 0, params := Some []\<rparr>,
      world0\<lparr>calls := [OnStmt (Some 7) Bind_parameter_count,
                        OnStmt (Some 7) (Bind_parameter_index '':x'')]\<rparr>)
   \<and> BindByIndex ok_engine stmt0 1 (HNamed ''chan int'' ROther) world0 =
     Return (Some (UnsupportedBindType stmt0 ''chan int'' 1 []),
      world0\<lparr>calls := [OnStmt (Some 7) (Bind_parameter_name 1)]\<rparr>)"
  by (simp add: BindParameterIndex_def BindParameterCount_def native_cint_def BindReflect_def
      BindParameterName_def native_ptr_def ok_engine_def stmt0_def world0_def)

theorem C6_local_errors_witness:
  "Bind ok_engine (stmt0\<lparr>bindParameterCount := 2\<rparr>) [HInt 1] world0 =
     Return (Some (ArityMismatch (stmt0\<lparr>bindParameterCount := 2\<rparr>) ''Stmt.Bind'' 1 2),
      stmt0\<lparr>bindParameterCount := 2\<rparr>, world0)
   \<and> Scan plain_lib ok_engine stmt0 [DNil] world0 =
     Return (Some (ArityMismatch (stmt0\<lparr>columnCount := 0\<rparr>) ''Stmt.Scan'' 1 0),
             stmt0\<lparr>columnCount := 0\<rparr>, world0\<lparr>calls := [OnStmt (Some 7) Column_count]\<rparr>)
   \<and> ScanByIndex plain_lib ok_engine stmt0 0 (DString ''x'') world0 =
          Return ((False, Some (UnsupportedScanType stmt0 ''ScanReflect unsupported type'' ''string'')),
                  world0)
   \<and> ScanReflect plain_lib ok_engine stmt0 0 (''string'', None) world0 =
          Return ((False, Some (UnsupportedScanType stmt0 ''ScanReflect unsupported type'' ''string'')),
                  world0)
   \<and> new_calls world0 (snd (snd (BindParameterIndex ok_engine stmt0 '':x'' world0))) =
       [OnStmt (Some 7) Bind_parameter_count, OnStmt (Some 7) (Bind_parameter_index '':x'')]
   \<and> only_calls metadata_call world0 (snd (snd (ColumnIndex ok_engine stmt0 ''x'' world0)))
   \<and> Bind ok_engine (stmt0\<lparr>bindParameterCount := 2\<rparr>)
        [HInt 1, HNamed ''chan int'' ROther] world0 =
     Return (Some (UnsupportedBindType (stmt0\<lparr>bindParameterCount := 2\<rparr>) ''chan int'' 2 []),
       stmt0\<lparr>bindParameterCount := 2\<rparr>,
       world0\<lparr>calls := [OnStmt (Some 7) (Bind_int 1 1), OnStmt (Some 7) (Bind_parameter_name 2)]\<rparr>)
   \<and> Scan plain_lib ok_engine (stmt0\<lparr>columnCount := 2\<rparr>) [DNil, DString ''x''] world0 =
     Return (Some (UnsupportedScanType (stmt0\<lparr>columnCount := 2\<rparr>)
                     ''ScanReflect unsupported type'' ''string''),
       stmt0\<lparr>columnCount := 2\<rparr>, world0)"
proof -
  let ?s2 = "stmt0\<lparr>bindParameterCount := 2\<rparr>"
  let ?c2 = "stmt0\<lparr>columnCount := 2\<rparr>"
  have a: "BindParameterCount ok_engine ?s2 world0 = (2, ?s2, world0)
      \<and> (2 :: goint) \<noteq> of_nat (length [HInt 1])"
    by (simp add: BindParameterCount_def stmt0_def)
  let ?s0 = "stmt0\<lparr>columnCount := 0\<rparr>"
  let ?w0 = "world0\<lparr>calls := [OnStmt (Some 7) Column_count]\<rparr>"
  have b: "ColumnCount ok_engine stmt0 world0 = (0, ?s0, ?w0) \<and> (0 :: goint) \<noteq> of_nat (length [DNil])"
    by (simp add: ColumnCount_def native_cint_def ok_engine_def stmt0_def world0_def)
  let ?sp = "stmt0\<lparr>bindParameterCount := 0, params := Some []\<rparr>"
  let ?wp = "world0\<lparr>calls := [OnStmt (Some 7) Bind_parameter_count,
                        OnStmt (Some 7) (Bind_parameter_index '':x'')]\<rparr>"
  have d: "BindParameterIndex ok_engine stmt0 '':x'' world0 =
      ((0, Some (InvalidName ?sp ''parameter'' '':x'')), ?sp, ?wp)"
    by (simp add: BindParameterIndex_def BindParameterCount_def native_cint_def
      ok_engine_def stmt0_def world0_def)
  let ?sc = "stmt0\<lparr>columnCount := 0, cols := Some []\<rparr>"
  have e: "ColumnIndex ok_engine stmt0 ''x'' world0 =
      ((- 1, Some (InvalidName ?sc ''column'' ''x'')), ?sc, ?w0)"
    by (simp add: ColumnIndex_def ColumnCount_def native_cint_def
      ok_engine_def stmt0_def world0_def)
  have v: "snd (''string'', None :: (rkind \<times> nat option) option) = None"
    by simp
  have u: "unsupported_dest (DString ''x'')"
    by simp
  let ?w1 = "world0\<lparr>calls := [OnStmt (Some 7) (Bind_int 1 1)]\<rparr>"
  let ?w2 = "world0\<lparr>calls := [OnStmt (Some 7) (Bind_int 1 1),
                               OnStmt (Some 7) (Bind_parameter_name 2)]\<rparr>"
  let ?e2 = "UnsupportedBindType ?s2 ''chan int'' 2 []"
  have h: "BindParameterCount ok_engine ?s2 world0 = (2, ?s2, world0)
      \<and> (2 :: goint) = of_nat (length ([HInt 1] @ HNamed ''chan int'' ROther # []))
      \<and> bind_args ok_engine ?s2 0 [HInt 1] world0 = Return (None, ?w1)
      \<and> BindByIndex ok_engine ?s2 (of_nat (length [HInt 1]) + 1) (HNamed ''chan int'' ROther) ?w1
          = Return (Some ?e2, ?w2)"
    by (simp add: BindParameterCount_def bind_rv_OK BindReflect_def BindParameterName_def
        native_ptr_def ok_engine_def SQLITE_OK_def stmt0_def world0_def)
  let ?e3 = "UnsupportedScanType ?c2 ''ScanReflect unsupported type'' ''string''"
  have j: "ColumnCount ok_engine ?c2 world0 = (2, ?c2, world0)
      \<and> (2 :: goint) = of_nat (length ([DNil] @ DString ''x'' # []))
      \<and> scan_args plain_lib ok_engine ?c2 0 [DNil] world0 = Return (None, world0)
      \<and> ScanByIndex plain_lib ok_engine ?c2 (of_nat (length [DNil])) (DString ''x'') world0
          = Return ((False, Some ?e3), world0)"
    by (simp add: ColumnCount_def ScanReflect_def stmt0_def)
  note A = C6_local_errors [where E = ok_engine and s = ?s2 and w = world0 and n = 2
      and ?s1.0 = ?s2 and ?w1.0 = world0 and args = "[HInt 1]" and v = "(''string'', None)"
      and L = plain_lib and i = 0 and d = "DString ''x''"]
  note B = C6_local_errors [where E = ok_engine and s = stmt0 and w = world0 and n = 0
      and ?s1.0 = ?s0 and ?w1.0 = ?w0 and dests = "[DNil]" and L = plain_lib and v = "(''string'', None)"
      and i = 0]
  note D = C6_local_errors [where E = ok_engine and s = stmt0 and w = world0 and name = "'':x''"
      and index = 0 and err = "InvalidName ?sp ''parameter'' '':x''" and ?s1.0 = ?sp and ?w1.0 = ?wp]
  note G = C6_local_errors [where E = ok_engine and s = stmt0 and w = world0 and name = "''x''"
      and index = "- 1" and err = "InvalidName ?sc ''column'' ''x''" and ?s1.0 = ?sc and ?w1.0 = ?w0]
  note H = C6_local_errors [where E = ok_engine and s = ?s2 and w = world0 and n = 2
      and ?s1.0 = ?s2 and ?w1.0 = world0 and xs = "[HInt 1]" and x = "HNamed ''chan int'' ROther"
      and ys = "[]" and ?w2.0 = ?w1 and err = ?e2 and ?w3.0 = ?w2]
  note J = C6_local_errors [where E = ok_engine and L = plain_lib and s = ?c2 and w = world0
      and n = 2 and ?s1.0 = ?c2 and ?w1.0 = world0 and ds = "[DNil]" and d = "DString ''x''"
      and es = "[]" and ?w2.0 = world0 and isNull = False and err = ?e3 and ?w3.0 = world0]
  have r1: "Bind ok_engine ?s2 [HInt 1] world0 =
      Return (Some (ArityMismatch ?s2 ''Stmt.Bind'' (of_nat (length [HInt 1])) 2), ?s2, world0)"
    using A a by blast
  have r2: "Scan plain_lib ok_engine stmt0 [DNil] world0 =
      Return (Some (ArityMismatch ?s0 ''Stmt.Scan'' (of_nat (length [DNil])) 0), ?s0, ?w0)"
    using B b by blast
  have r3: "\<exists>m. ScanReflect plain_lib ok_engine stmt0 0 (''string'', None) world0 =
          Return ((False, Some (UnsupportedScanType stmt0 m (fst (''string'', None :: (rkind \<times> nat option) option)))), world0)"
    using B v by blast
  have r3b: "\<exists>m. ScanByIndex plain_lib ok_engine ?s2 0 (DString ''x'') world0 =
          Return ((False, Some (UnsupportedScanType ?s2 m (fst (reflect_dest (DString ''x''))))), world0)"
    using A u by blast
  have r4: "new_calls world0 ?wp =
          (if params stmt0 = None \<and> bindParameterCount stmt0 = - 1
           then [OnStmt (stmt stmt0) Bind_parameter_count] else [])
          @ [OnStmt (stmt stmt0) (Bind_parameter_index '':x'')]"
    using D d by blast
  have r5: "only_calls metadata_call world0 ?w0"
    using G e by blast
  have r6: "Bind ok_engine ?s2 ([HInt 1] @ HNamed ''chan int'' ROther # []) world0 =
      Return (Some ?e2, ?s2, ?w2)"
    using H h by blast
  have r7: "Scan plain_lib ok_engine ?c2 ([DNil] @ DString ''x'' # []) world0 =
      Return (Some ?e3, ?c2, world0)"
    using J j by blast
  have r3': "ScanReflect plain_lib ok_engine stmt0 0 (''string'', None) world0 =
          Return ((False, Some (UnsupportedScanType stmt0 ''ScanReflect unsupported type'' ''string'')),
                  world0)"
    using r3 by (simp add: ScanReflect_def)
  have r3b': "ScanByIndex plain_lib ok_engine stmt0 0 (DString ''x'') world0 =
          Return ((False, Some (UnsupportedScanType stmt0 ''ScanReflect unsupported type'' ''string'')),
                  world0)"
    using r3b by (simp add: ScanReflect_def)
  show ?thesis
    using r1 r2 r3' r3b' r4 r5 r6 r7 d e by (simp add: stmt0_def)
qed

section \<open>Properties of scanning into pointers\<close>













end
